theory Spec2Isabelle
  imports Main "HOL-Library.Word"
begin

section \<open>JavaScript strings, hexadecimal text and BigInt conversion\<close>

text \<open>
  Strings are lists of 8-bit code units; every string the SDK builds or inspects here
  (hexadecimal keys, prefixes) is ASCII.  A \<open>Uint8Array\<close> is a list of bytes.
\<close>

type_synonym byte = "8 word"

text \<open>\<open>s.startsWith(pre)\<close>.\<close>

definition startsWith :: "string \<Rightarrow> string \<Rightarrow> bool" where
  "startsWith s pre = (take (length pre) s = pre)"

text \<open>\<open>s.slice(a, b)\<close> for the non-negative constant bounds the sources use.\<close>

definition slice :: "nat \<Rightarrow> nat \<Rightarrow> 'a list \<Rightarrow> 'a list" where
  "slice a b s = take (b - a) (drop a s)"

text \<open>\<open>s.replace(/^0x/, '')\<close>: an anchored, case-sensitive match.\<close>

definition strip0x :: "string \<Rightarrow> string" where
  "strip0x s = (if startsWith s ''0x'' then drop 2 s else s)"

text \<open>\<open>s.padStart(n, c)\<close> with a one-character filler.\<close>

definition padStart :: "nat \<Rightarrow> char \<Rightarrow> string \<Rightarrow> string" where
  "padStart n c s = replicate (n - length s) c @ s"

definition hexDigitValue :: "char \<Rightarrow> int option" where
  "hexDigitValue ch =
     (let n = (of_char ch :: nat) in
      if 48 \<le> n \<and> n \<le> 57 then Some (int n - 48)
      else if 97 \<le> n \<and> n \<le> 102 then Some (int n - 87)
      else if 65 \<le> n \<and> n \<le> 70 then Some (int n - 55)
      else None)"

definition isHexDigit :: "char \<Rightarrow> bool" where
  "isHexDigit ch = (hexDigitValue ch \<noteq> None)"

text \<open>
  The white space that \<open>StringToBigInt\<close> trims, restricted to 8-bit code units:
  TAB, LF, VT, FF, CR, SP and NBSP.
\<close>

definition isStrWhiteSpace :: "char \<Rightarrow> bool" where
  "isStrWhiteSpace ch = ((of_char ch :: nat) \<in> {9, 10, 11, 12, 13, 32, 160})"

definition trimEnd :: "string \<Rightarrow> string" where
  "trimEnd s = rev (dropWhile isStrWhiteSpace (rev s))"

definition hexValue :: "string \<Rightarrow> int" where
  "hexValue s = foldl (\<lambda>acc ch. 16 * acc + the (hexDigitValue ch)) 0 s"

text \<open>
  \<open>BigInt('0x' + s)\<close>: trailing white space is trimmed, then at least one hexadecimal
  digit and nothing else must follow the \<open>0x\<close>; otherwise a \<open>SyntaxError\<close> is thrown
  (\<open>None\<close>).
\<close>

definition bigIntOfHex :: "string \<Rightarrow> int option" where
  "bigIntOfHex s =
     (let body = trimEnd s in
      if body \<noteq> [] \<and> list_all isHexDigit body then Some (hexValue body) else None)"

definition hexChar :: "nat \<Rightarrow> char" where
  "hexChar d = ''0123456789abcdef'' ! d"

function toHexNat :: "nat \<Rightarrow> string" where
  "toHexNat n = (if n < 16 then [hexChar n] else toHexNat (n div 16) @ [hexChar (n mod 16)])"
  by pat_completeness auto
termination
  by (relation "measure id") auto

declare toHexNat.simps [simp del]

text \<open>\<open>v.toString(16)\<close> of a BigInt.\<close>

definition toString16 :: "int \<Rightarrow> string" where
  "toString16 v = (if v < 0 then CHR ''-'' # toHexNat (nat (- v)) else toHexNat (nat v))"

section \<open>secp256k1 point compression (crypto/elliptic.ts, crypto/addresses.ts)\<close>

text \<open>
  Every \<open>throw\<close> of the sources is a value of \<open>error\<close>; the comment gives the message
  of the JavaScript \<open>Error\<close>.
\<close>

datatype error =
    InvalidCompressedLength        \<comment> \<open>'Invalid compressed public key length'\<close>
  | InvalidCompressedPrefix        \<comment> \<open>'Invalid compressed public key prefix'\<close>
  | NoValidYCoordinate             \<comment> \<open>'Invalid public key - no valid y coordinate'\<close>
  | UnsupportedPrime               \<comment> \<open>'Unsupported prime for square root'\<close>
  | InvalidPublicKeyFormat nat     \<comment> \<open>'Invalid public key format: N hex chars'\<close>
  | SyntaxError                    \<comment> \<open>thrown by \<open>BigInt(...)\<close> on a malformed literal\<close>
  | TypeError                      \<comment> \<open>thrown by the runtime, e.g. on destructuring \<open>undefined\<close>\<close>
  | LibraryError string            \<comment> \<open>an exception of the DKLS library, ethers or viem\<close>
  | InsufficientKeyshares int nat  \<comment> \<open>'Insufficient keyshares: need T, got N'\<close>
  | FailedToSignMessage error      \<comment> \<open>'Failed to sign message: ' + the message of the cause\<close>
  | InvalidHashLength nat          \<comment> \<open>'Invalid hash length: expected 32 bytes, got N'\<close>
  | NoActiveSession                \<comment> \<open>'No active session'\<close>
  | NoActiveSignSession            \<comment> \<open>'No active sign session'\<close>
  | InvalidSignatureFormat         \<comment> \<open>'Invalid signature format'\<close>
  | PreSignatureAlreadyUsed        \<comment> \<open>'CRITICAL: Pre-signature has already been used! ...'\<close>
  | PreSignatureAlreadyConsumed    \<comment> \<open>'Pre-signature has already been consumed'\<close>

definition secp256k1_p :: int where
  "secp256k1_p = 0xFFFFFFFFFFFFFFFFFFFFFFFFFFFFFFFFFFFFFFFFFFFFFFFFFFFFFFFEFFFFFC2F"

text \<open>
  The \<open>while (exp > 0n)\<close> loop of \<open>modPow\<close>.  All operands are non-negative at every call
  in the sources, so BigInt \<open>%\<close> and \<open>>>\<close> are \<open>mod\<close> and \<open>div 2\<close>.
\<close>

function modPow_loop :: "int \<Rightarrow> int \<Rightarrow> int \<Rightarrow> int \<Rightarrow> int" where
  "modPow_loop result base exp m =
     (if exp > 0
      then modPow_loop (if exp mod 2 = 1 then (result * base) mod m else result)
                       ((base * base) mod m) (exp div 2) m
      else result)"
  by pat_completeness auto
termination
  by (relation "measure (\<lambda>(r, b, e, m). nat e)") auto

declare modPow_loop.simps [simp del]

definition modPow :: "int \<Rightarrow> int \<Rightarrow> int \<Rightarrow> int" where
  "modPow base exp m = modPow_loop 1 (base mod m) exp m"

text \<open>\<open>modSqrt\<close>: \<open>Inr None\<close> is the JavaScript \<open>null\<close> (no square root exists).\<close>

definition modSqrt :: "int \<Rightarrow> int \<Rightarrow> error + int option" where
  "modSqrt a p =
     (let legendreSymbol = modPow a ((p - 1) div 2) p in
      if legendreSymbol \<noteq> 1 then Inr None
      else if p mod 4 = 3 then Inr (Some (modPow a ((p + 1) div 4) p))
      else Inl UnsupportedPrime)"

definition decompressPublicKey :: "string \<Rightarrow> error + string" where
  "decompressPublicKey compressedHex =
     (let cleanHex = strip0x compressedHex in
      if length cleanHex \<noteq> 66 then Inl InvalidCompressedLength
      else
        let prefix = slice 0 2 cleanHex in
        if prefix \<noteq> ''02'' \<and> prefix \<noteq> ''03'' then Inl InvalidCompressedPrefix
        else
          case bigIntOfHex (drop 2 cleanHex) of
            None \<Rightarrow> Inl SyntaxError
          | Some x \<Rightarrow>
              let p = secp256k1_p; a = 0; b = 7;
                  x3 = modPow x 3 p;
                  ax = (a * x) mod p;
                  y2 = (x3 + ax + b) mod p
              in (case modSqrt y2 p of
                    Inl e \<Rightarrow> Inl e
                  | Inr None \<Rightarrow> Inl NoValidYCoordinate
                  | Inr (Some y0) \<Rightarrow>
                      let isEven = (y0 mod 2 = 0);
                          shouldBeEven = (prefix = ''02'');
                          y = (if isEven \<noteq> shouldBeEven then p - y0 else y0);
                          xHex = padStart 64 CHR ''0'' (toString16 x);
                          yHex = padStart 64 CHR ''0'' (toString16 y)
                      in Inr (xHex @ yHex)))"

definition isCompressedPublicKey :: "string \<Rightarrow> bool" where
  "isCompressedPublicKey publicKeyHex =
     (let cleanHex = strip0x publicKeyHex in
      if length cleanHex = 66
      then (let prefix = slice 0 2 cleanHex in prefix = ''02'' \<or> prefix = ''03'')
      else False)"

definition getUncompressedPublicKey :: "string \<Rightarrow> error + string" where
  "getUncompressedPublicKey publicKeyHex =
     (let cleanHex = strip0x publicKeyHex in
      if isCompressedPublicKey cleanHex then decompressPublicKey cleanHex
      else if startsWith cleanHex ''04'' then Inr (drop 2 cleanHex)
      else if length cleanHex = 128 then Inr cleanHex
      else Inl (InvalidPublicKeyFormat (length cleanHex)))"

definition compressPublicKey :: "string \<Rightarrow> error + string" where
  "compressPublicKey publicKeyHex =
     (let cleanHex = (if startsWith publicKeyHex ''04'' then drop 2 publicKeyHex
                      else publicKeyHex);
          x = slice 0 64 cleanHex;
          y = slice 64 128 cleanHex
      in case bigIntOfHex y of
           None \<Rightarrow> Inl SyntaxError
         | Some yBigInt \<Rightarrow> Inr ((if yBigInt mod 2 = 0 then ''02'' else ''03'') @ x))"

section \<open>Frames and message routing (core/DKLSService.ts, core/types.ts)\<close>

text \<open>
  A frame carries the sender, an optional recipient (\<open>None\<close> is the JavaScript
  \<open>undefined\<close>: a broadcast) and a payload.  The library's \<open>Message\<close> holds the payload
  as bytes, the \<open>WireMessage\<close> of \<open>core/types.ts\<close> as a base64 string.
\<close>

record 'p frame =
  from_id :: nat
  to_id :: "nat option"
  payload :: 'p

type_synonym Message = "byte list frame"
type_synonym WireMessage = "string frame"

text \<open>\<open>m.clone()\<close>: a new \<open>Message\<close> object with the fields of \<open>m\<close>.\<close>

definition clone :: "Message \<Rightarrow> Message" where
  "clone m = \<lparr>from_id = from_id m, to_id = to_id m, payload = payload m\<rparr>"

definition filterMessages :: "Message list \<Rightarrow> nat \<Rightarrow> Message list" where
  "filterMessages msgs party = map clone (filter (\<lambda>m. from_id m \<noteq> party) msgs)"

definition selectMessages :: "Message list \<Rightarrow> nat \<Rightarrow> Message list" where
  "selectMessages msgs party = map clone (filter (\<lambda>m. to_id m = Some party) msgs)"

section \<open>Chain-code commitments of the key generation (DKLSService.executeDKG)\<close>

text \<open>
  A JavaScript array with holes: \<open>None\<close> is an empty slot.  \<open>a[i] = v\<close> beyond the end
  extends the array; reading beyond the end gives \<open>undefined\<close>.
\<close>

definition js_set :: "'a option list \<Rightarrow> nat \<Rightarrow> 'a \<Rightarrow> 'a option list" where
  "js_set a i v =
     (if i < length a then a[i := Some v]
      else a @ replicate (i - length a) None @ [Some v])"

definition js_get :: "'a option list \<Rightarrow> nat \<Rightarrow> 'a option" where
  "js_get a i = (if i < length a then a ! i else None)"

text \<open>
  \<open>const commitments = new Array(parties.length);
   selfIds.forEach((id, idx) => { commitments[id] = commitmentsRaw[idx]; });\<close>
  with \<open>n = parties.length\<close>; \<open>selfIds\<close> and \<open>commitmentsRaw\<close> both have one entry for
  each party.
\<close>

definition indexCommitments :: "nat \<Rightarrow> nat list \<Rightarrow> 'c list \<Rightarrow> 'c option list" where
  "indexCommitments n selfIds commitmentsRaw =
     foldl (\<lambda>commitments (id, c). js_set commitments id c)
           (replicate n None) (zip selfIds commitmentsRaw)"

section \<open>The DKLS library and the other external modules, as parameters\<close>

text \<open>
  \<open>@silencelaboratories/dkls-wasm-ll-node\<close>, \<open>ethers\<close>, \<open>viem\<close> and Node's \<open>Buffer\<close> are
  not part of the repository.  Their operations are fields of the records below, and every
  definition that calls the library takes the record as its first argument.  The types
  \<open>'k\<close>, \<open>'s\<close>, \<open>'g\<close> and \<open>'c\<close> are the library's key share, signing session, key generation
  session and chain-code commitment.  A session method is a function from the state of
  the session to an outcome and the state after the call; \<open>Inl msg\<close> is a thrown exception
  with message \<open>msg\<close>.
\<close>

record ('k, 's, 'g, 'c) dkls =
  keyshare_toBytes :: "'k \<Rightarrow> byte list"
  keyshare_fromBytes :: "byte list \<Rightarrow> string + 'k"
  signSession_new :: "'k \<Rightarrow> string \<Rightarrow> string + 's"
  signSession_createFirstMessage :: "'s \<Rightarrow> (string + Message) \<times> 's"
  signSession_handleMessages :: "'s \<Rightarrow> Message list \<Rightarrow> (string + Message list) \<times> 's"
  signSession_lastMessage :: "'s \<Rightarrow> byte list \<Rightarrow> (string + Message) \<times> 's"
  signSession_combine :: "'s \<Rightarrow> Message list \<Rightarrow> (string + byte list list) \<times> 's"
  keygenSession_createFirstMessage :: "'g \<Rightarrow> (string + Message) \<times> 'g"
  keygenSession_handleMessages ::
    "'g \<Rightarrow> Message list \<Rightarrow> 'c option list option \<Rightarrow> (string + Message list) \<times> 'g"
  keygenSession_calculateChainCodeCommitment :: "'g \<Rightarrow> (string + 'c) \<times> 'g"
  keygenSession_keyshare :: "'g \<Rightarrow> (string + 'k) \<times> 'g"

text \<open>
  \<open>ethers.utils.recoverAddress(hash, {r, s, v})\<close> and viem's \<open>keccak256(hex)\<close> (\<open>None\<close>: the
  call throws), and the base64 codec of \<open>Buffer\<close>.
\<close>

record env =
  recoverAddress :: "string \<Rightarrow> string \<times> string \<times> nat \<Rightarrow> string option"
  keccak256 :: "string \<Rightarrow> string option"
  base64_encode :: "byte list \<Rightarrow> string"
  base64_decode :: "string \<Rightarrow> byte list"

subsection \<open>Key share objects and their ownership\<close>

text \<open>
  A \<open>Keyshare\<close> of the library is a JavaScript object that owns a value in the WebAssembly
  memory.  The store maps the identity of each object to the value it still owns
  (\<open>live\<close>); \<open>next_object\<close> is the identity the next new object gets.  \<open>toBytes\<close> reads the
  value and fails on an object that owns none; \<open>Keyshare.fromBytes\<close> makes a new object;
  \<open>new SignSession(ks, path)\<close> takes the value out of \<open>ks\<close> (``SignSession consumes them'',
  as \<open>signMessage\<close> notes), whether or not the constructor then succeeds.
\<close>

record 'k keyshares =
  live :: "nat \<rightharpoonup> 'k"
  next_object :: nat

definition Keyshare_toBytes ::
  "('k, 's, 'g, 'c) dkls \<Rightarrow> 'k keyshares \<Rightarrow> nat \<Rightarrow> string + byte list" where
  "Keyshare_toBytes L st ks =
     (case live st ks of
        None \<Rightarrow> Inl ''null pointer passed to rust''
      | Some k \<Rightarrow> Inr (keyshare_toBytes L k))"

definition Keyshare_fromBytes ::
  "('k, 's, 'g, 'c) dkls \<Rightarrow> 'k keyshares \<Rightarrow> byte list \<Rightarrow> (string + nat) \<times> 'k keyshares" where
  "Keyshare_fromBytes L st bytes =
     (case keyshare_fromBytes L bytes of
        Inl e \<Rightarrow> (Inl e, st)
      | Inr k \<Rightarrow>
          (Inr (next_object st),
           st\<lparr>live := (live st)(next_object st \<mapsto> k), next_object := Suc (next_object st)\<rparr>))"

definition SignSession_new ::
  "('k, 's, 'g, 'c) dkls \<Rightarrow> 'k keyshares \<Rightarrow> nat \<Rightarrow> string \<Rightarrow> (string + 's) \<times> 'k keyshares" where
  "SignSession_new L st ks path =
     (case live st ks of
        None \<Rightarrow> (Inl ''null pointer passed to rust'', st)
      | Some k \<Rightarrow> (signSession_new L k path, st\<lparr>live := (live st)(ks := None)\<rparr>))"

subsection \<open>Calling a method on every party\<close>

text \<open>
  \<open>parties.map((p, idx) => f(idx, p))\<close> where \<open>f\<close> changes the state of \<open>p\<close>: the calls run in
  order, the first exception ends the loop, and the sessions called so far keep their
  new state.  \<open>flatMap\<close> is \<open>concat\<close> of the result, \<open>forEach\<close> drops it.
\<close>

fun mapParties ::
  "(nat \<Rightarrow> 'p \<Rightarrow> (string + 'r) \<times> 'p) \<Rightarrow> nat \<Rightarrow> 'p list \<Rightarrow> (string + 'r list) \<times> 'p list" where
  "mapParties f idx [] = (Inr [], [])"
| "mapParties f idx (p # ps) =
     (case f idx p of
        (Inl e, p') \<Rightarrow> (Inl e, p' # ps)
      | (Inr r, p') \<Rightarrow>
          (case mapParties f (Suc idx) ps of
             (Inl e, ps') \<Rightarrow> (Inl e, p' # ps')
           | (Inr rs, ps') \<Rightarrow> (Inr (r # rs), p' # ps')))"

text \<open>The rest of a function after such a loop; an exception of the library ends it.\<close>

definition andThen ::
  "(string + 'a) \<times> 'p \<Rightarrow> ('a \<Rightarrow> 'p \<Rightarrow> error + 'b) \<Rightarrow> error + 'b" where
  "andThen r k = (case r of (Inl e, _) \<Rightarrow> Inl (LibraryError e) | (Inr a, p) \<Rightarrow> k a p)"

section \<open>DKLSService (core/DKLSService.ts)\<close>

definition executeDKG :: "('k, 's, 'g, 'c) dkls \<Rightarrow> 'g list \<Rightarrow> error + 'k list" where
  "executeDKG L parties =
     andThen (mapParties (\<lambda>idx p. keygenSession_createFirstMessage L p) 0 parties)
     (\<lambda>msg1 parties.
     let selfIds = map from_id msg1 in
     andThen (mapParties (\<lambda>idx p. keygenSession_handleMessages L p
                (filterMessages msg1 (selfIds ! idx)) None) 0 parties)
     (\<lambda>out2 parties.
     let msg2 = concat out2 in
     andThen (mapParties (\<lambda>idx p. keygenSession_calculateChainCodeCommitment L p) 0 parties)
     (\<lambda>commitmentsRaw parties.
     let commitments = indexCommitments (length parties) selfIds commitmentsRaw in
     andThen (mapParties (\<lambda>idx p. keygenSession_handleMessages L p
                (selectMessages msg2 (selfIds ! idx)) None) 0 parties)
     (\<lambda>out3 parties.
     let msg3 = concat out3 in
     andThen (mapParties (\<lambda>idx p. keygenSession_handleMessages L p
                (selectMessages msg3 (selfIds ! idx)) (Some commitments)) 0 parties)
     (\<lambda>out4 parties.
     let msg4 = concat out4 in
     andThen (mapParties (\<lambda>idx p. keygenSession_handleMessages L p
                (filterMessages msg4 (selfIds ! idx)) None) 0 parties)
     (\<lambda>_ parties.
     andThen (mapParties (\<lambda>idx p. keygenSession_keyshare L p) 0 parties)
     (\<lambda>keyshares _. Inr keyshares)))))))"

subsection \<open>signMessage\<close>

text \<open>\<open>keyshares.slice(0, threshold)\<close>: a negative bound counts from the end.\<close>

definition slice0 :: "int \<Rightarrow> 'a list \<Rightarrow> 'a list" where
  "slice0 e xs = (if e < 0 then take (nat (int (length xs) + e)) xs else take (nat e) xs)"

text \<open>
  \<open>keyshares.slice(0, threshold).map(ks => Keyshare.fromBytes(ks.toBytes()))\<close>
\<close>

fun cloneKeyshares ::
  "('k, 's, 'g, 'c) dkls \<Rightarrow> 'k keyshares \<Rightarrow> nat list \<Rightarrow> (string + nat list) \<times> 'k keyshares" where
  "cloneKeyshares L st [] = (Inr [], st)"
| "cloneKeyshares L st (ks # rest) =
     (case Keyshare_toBytes L st ks of
        Inl e \<Rightarrow> (Inl e, st)
      | Inr bytes \<Rightarrow>
          (case Keyshare_fromBytes L st bytes of
             (Inl e, st') \<Rightarrow> (Inl e, st')
           | (Inr copy, st') \<Rightarrow>
               (case cloneKeyshares L st' rest of
                  (Inl e, st'') \<Rightarrow> (Inl e, st'')
                | (Inr copies, st'') \<Rightarrow> (Inr (copy # copies), st''))))"

text \<open>\<open>signingShares.map(ks => new SignSession(ks, "m"))\<close>\<close>

fun newSignSessions ::
  "('k, 's, 'g, 'c) dkls \<Rightarrow> 'k keyshares \<Rightarrow> nat list \<Rightarrow> (string + 's list) \<times> 'k keyshares" where
  "newSignSessions L st [] = (Inr [], st)"
| "newSignSessions L st (ks # rest) =
     (case SignSession_new L st ks ''m'' of
        (Inl e, st') \<Rightarrow> (Inl e, st')
      | (Inr p, st') \<Rightarrow>
          (case newSignSessions L st' rest of
             (Inl e, st'') \<Rightarrow> (Inl e, st'')
           | (Inr ps, st'') \<Rightarrow> (Inr (p # ps), st'')))"

text \<open>\<open>Buffer.from(bytes).toString('hex')\<close>\<close>

definition bytesToHex :: "byte list \<Rightarrow> string" where
  "bytesToHex bytes = concat (map (\<lambda>b. [hexChar (unat b div 16), hexChar (unat b mod 16)]) bytes)"

text \<open>
  \<open>s.toLowerCase()\<close> on 8-bit code units: the ASCII capitals and the capitals of Latin-1.
\<close>

definition toLowerCase :: "string \<Rightarrow> string" where
  "toLowerCase s =
     map (\<lambda>ch. let n = (of_char ch :: nat) in
                if (65 \<le> n \<and> n \<le> 90) \<or> (192 \<le> n \<and> n \<le> 222 \<and> n \<noteq> 215)
                then char_of (n + 32) else ch) s"

text \<open>\<open>deriveEthereumAddress\<close> of \<open>crypto/addresses.ts\<close>; \<open>hash.slice(-40)\<close> is the last 40
  characters.\<close>

definition deriveEthereumAddress :: "env \<Rightarrow> string \<Rightarrow> error + string" where
  "deriveEthereumAddress E publicKeyHex =
     (let cleanHex = strip0x publicKeyHex in
      case getUncompressedPublicKey cleanHex of
        Inl e \<Rightarrow> Inl e
      | Inr uncompressedKey \<Rightarrow>
          (case keccak256 E (''0x'' @ uncompressedKey) of
             None \<Rightarrow> Inl (LibraryError ''keccak256'')
           | Some hash \<Rightarrow>
               let address = ''0x'' @ drop (length hash - 40) hash
               in Inr (toLowerCase address)))"

text \<open>
  The loop \<open>for (const testV of [27, 28])\<close> of \<open>signMessage\<close>: \<open>v\<close> is the value so far; an
  exception of \<open>recoverAddress\<close> is caught and the next candidate is tried; a match ends
  the loop.
\<close>

fun tryRecoveryIds ::
  "env \<Rightarrow> string \<Rightarrow> string \<Rightarrow> string \<Rightarrow> string \<Rightarrow> nat list \<Rightarrow> nat \<Rightarrow> nat" where
  "tryRecoveryIds E msgHashHex r s expectedAddress [] v = v"
| "tryRecoveryIds E msgHashHex r s expectedAddress (testV # rest) v =
     (case recoverAddress E msgHashHex (''0x'' @ r, ''0x'' @ s, testV) of
        None \<Rightarrow> tryRecoveryIds E msgHashHex r s expectedAddress rest v
      | Some recoveredAddress \<Rightarrow>
          if toLowerCase recoveredAddress = toLowerCase expectedAddress then testV
          else tryRecoveryIds E msgHashHex r s expectedAddress rest v)"

text \<open>
  The block of \<open>signMessage\<close> that computes \<open>v\<close>: 27 unless a public key is given (a
  non-empty string) and one of the candidates recovers its address.
\<close>

definition calculateV ::
  "env \<Rightarrow> byte list \<Rightarrow> string \<Rightarrow> string \<Rightarrow> string option \<Rightarrow> error + nat" where
  "calculateV E messageHash r s publicKey =
     (case publicKey of
        None \<Rightarrow> Inr 27
      | Some pk \<Rightarrow>
          if pk = [] then Inr 27
          else
            (case deriveEthereumAddress E pk of
               Inl e \<Rightarrow> Inl e
             | Inr expectedAddress \<Rightarrow>
                 let msgHashHex = ''0x'' @ bytesToHex messageHash
                 in Inr (tryRecoveryIds E msgHashHex r s expectedAddress [27, 28] 27)))"

record SignatureResult =
  sig_signature :: string
  sig_r :: string
  sig_s :: string
  sig_v :: nat

text \<open>
  The protocol rounds of \<open>signMessage\<close>, from the first messages to \<open>combine\<close>, and the
  result built from the signature of the first party.
\<close>

definition signRounds ::
  "('k, 's, 'g, 'c) dkls \<Rightarrow> env \<Rightarrow> 's list \<Rightarrow> byte list \<Rightarrow> string option
   \<Rightarrow> error + SignatureResult" where
  "signRounds L E parties messageHash publicKey =
     andThen (mapParties (\<lambda>idx p. signSession_createFirstMessage L p) 0 parties)
     (\<lambda>msg1 parties.
     let selfIds = map from_id msg1 in
     andThen (mapParties (\<lambda>idx p. signSession_handleMessages L p
                (filterMessages msg1 (selfIds ! idx))) 0 parties)
     (\<lambda>out2 parties.
     let msg2 = concat out2 in
     andThen (mapParties (\<lambda>idx p. signSession_handleMessages L p
                (selectMessages msg2 (selfIds ! idx))) 0 parties)
     (\<lambda>out3 parties.
     let msg3 = concat out3 in
     andThen (mapParties (\<lambda>idx p. signSession_handleMessages L p
                (selectMessages msg3 (selfIds ! idx))) 0 parties)
     (\<lambda>_ parties.
     andThen (mapParties (\<lambda>idx p. signSession_lastMessage L p messageHash) 0 parties)
     (\<lambda>msg4 parties.
     andThen (mapParties (\<lambda>idx p. signSession_combine L p
                (filterMessages msg4 (selfIds ! idx))) 0 parties)
     (\<lambda>signatures _.
     case signatures of
       [] \<Rightarrow> Inl TypeError
     | signatureComponents # _ \<Rightarrow>
         (case signatureComponents of
            r_bytes # s_bytes # _ \<Rightarrow>
              let r = bytesToHex r_bytes; s = bytesToHex s_bytes; signatureHex = r @ s
              in (case calculateV E messageHash r s publicKey of
                    Inl e \<Rightarrow> Inl e
                  | Inr v \<Rightarrow>
                      Inr \<lparr>sig_signature = ''0x'' @ signatureHex, sig_r = ''0x'' @ r,
                           sig_s = ''0x'' @ s, sig_v = v\<rparr>)
          | _ \<Rightarrow> Inl TypeError)))))))"

text \<open>
  \<open>signMessage\<close>.  The key shares are given by the identities of their objects; the result
  comes with the store of key share objects after the call.  Whatever is thrown inside
  is caught and thrown again as `Failed to sign message: ...'.
\<close>

definition signMessage ::
  "('k, 's, 'g, 'c) dkls \<Rightarrow> env \<Rightarrow> 'k keyshares \<Rightarrow> byte list \<Rightarrow> nat list \<Rightarrow> int
   \<Rightarrow> string option \<Rightarrow> (error + SignatureResult) \<times> 'k keyshares" where
  "signMessage L E st messageHash keyshares threshold publicKey =
     (if int (length keyshares) < threshold
      then (Inl (FailedToSignMessage (InsufficientKeyshares threshold (length keyshares))), st)
      else
        case cloneKeyshares L st (slice0 threshold keyshares) of
          (Inl e, st1) \<Rightarrow> (Inl (FailedToSignMessage (LibraryError e)), st1)
        | (Inr signingShares, st1) \<Rightarrow>
            (case newSignSessions L st1 signingShares of
               (Inl e, st2) \<Rightarrow> (Inl (FailedToSignMessage (LibraryError e)), st2)
             | (Inr parties, st2) \<Rightarrow>
                 (case signRounds L E parties messageHash publicKey of
                    Inl e \<Rightarrow> (Inl (FailedToSignMessage e), st2)
                  | Inr result \<Rightarrow> (Inr result, st2))))"

section \<open>DKLSParty (core/DKLSParty.ts)\<close>

record PartyConfig =
  partyId :: nat
  totalParties :: int
  party_threshold :: int
  role :: "string option"

text \<open>The private fields of a \<open>DKLSParty\<close>; \<open>None\<close> is \<open>undefined\<close>.\<close>

record ('s, 'g) DKLSParty =
  config :: PartyConfig
  keygenSession :: "'g option"
  signSession :: "'s option"
  party_keyshare :: "nat option"
  messageQueue :: "WireMessage list"

definition toWireMessage :: "env \<Rightarrow> Message \<Rightarrow> WireMessage" where
  "toWireMessage E msg =
     \<lparr>from_id = from_id msg, to_id = to_id msg, payload = base64_encode E (payload msg)\<rparr>"

text \<open>
  \<open>new Message(payload, from, to)\<close> of the library, which keeps the two ids in one byte
  each.
\<close>

definition newMessage :: "byte list \<Rightarrow> nat \<Rightarrow> nat option \<Rightarrow> Message" where
  "newMessage bytes from to =
     \<lparr>from_id = from mod 256, to_id = map_option (\<lambda>t. t mod 256) to, payload = bytes\<rparr>"

definition fromWireMessage :: "env \<Rightarrow> WireMessage \<Rightarrow> Message" where
  "fromWireMessage E w =
     (let bytes = base64_decode E (payload w)
      in newMessage bytes (from_id w) (to_id w))"

definition lastMessage ::
  "('k, 's, 'g, 'c) dkls \<Rightarrow> env \<Rightarrow> ('s, 'g) DKLSParty \<Rightarrow> byte list
   \<Rightarrow> (error + WireMessage) \<times> ('s, 'g) DKLSParty" where
  "lastMessage L E party messageHash =
     (case signSession party of
        None \<Rightarrow> (Inl NoActiveSignSession, party)
      | Some session \<Rightarrow>
          (case signSession_lastMessage L session messageHash of
             (Inl e, session') \<Rightarrow> (Inl (LibraryError e), party\<lparr>signSession := Some session'\<rparr>)
           | (Inr msg, session') \<Rightarrow>
               (Inr (toWireMessage E msg), party\<lparr>signSession := Some session'\<rparr>)))"

definition combine ::
  "('k, 's, 'g, 'c) dkls \<Rightarrow> env \<Rightarrow> ('s, 'g) DKLSParty \<Rightarrow> WireMessage list
   \<Rightarrow> (error + byte list \<times> byte list) \<times> ('s, 'g) DKLSParty" where
  "combine L E party messages =
     (case signSession party of
        None \<Rightarrow> (Inl NoActiveSignSession, party)
      | Some session \<Rightarrow>
          let dklsMessages = map (fromWireMessage E) messages in
          (case signSession_combine L session dklsMessages of
             (Inl e, session') \<Rightarrow> (Inl (LibraryError e), party\<lparr>signSession := Some session'\<rparr>)
           | (Inr signature, _) \<Rightarrow>
               let party' = party\<lparr>signSession := None\<rparr> in
               if length signature \<noteq> 2 then (Inl InvalidSignatureFormat, party')
               else (Inr (signature ! 0, signature ! 1), party')))"

definition hasActiveSession :: "('s, 'g) DKLSParty \<Rightarrow> bool" where
  "hasActiveSession party = (keygenSession party \<noteq> None \<or> signSession party \<noteq> None)"

definition getSessionType :: "('s, 'g) DKLSParty \<Rightarrow> string" where
  "getSessionType party =
     (if keygenSession party \<noteq> None then ''keygen''
      else if signSession party \<noteq> None then ''signing''
      else ''none'')"

definition filterIncomingMessages ::
  "('s, 'g) DKLSParty \<Rightarrow> WireMessage list \<Rightarrow> WireMessage list" where
  "filterIncomingMessages party messages =
     filter (\<lambda>m. from_id m \<noteq> partyId (config party))
       (filter (\<lambda>m. to_id m = None \<or> to_id m = Some (partyId (config party))) messages)"

section \<open>PreSignatureManager (protocols/presignature.ts)\<close>

text \<open>
  A \<open>PreSignature\<close> is a mutable object that the caller and the pool of the manager
  share; the objects live in a store indexed by their identity.
\<close>

record 's PreSignature =
  presig_id :: string
  presig_parties :: "'s list"
  createdAt :: nat
  consumed :: bool

record PreSignatureManager =
  consumedPreSignatures :: "string set"
  preSignaturePool :: "(string \<times> nat) list"

definition signWithPreSignature ::
  "('k, 's, 'g, 'c) dkls \<Rightarrow> PreSignatureManager \<Rightarrow> (nat \<Rightarrow> 's PreSignature) \<Rightarrow> byte list \<Rightarrow> nat
   \<Rightarrow> (error + byte list list option) \<times> PreSignatureManager \<times> (nat \<Rightarrow> 's PreSignature)" where
  "signWithPreSignature L this objects messageHash preSignature =
     (if presig_id (objects preSignature) \<in> consumedPreSignatures this
      then (Inl PreSignatureAlreadyUsed, this, objects)
      else if consumed (objects preSignature)
      then (Inl PreSignatureAlreadyConsumed, this, objects)
      else
        let this' = this\<lparr>consumedPreSignatures :=
                      insert (presig_id (objects preSignature)) (consumedPreSignatures this)\<rparr>;
            marked = (objects preSignature)\<lparr>consumed := True\<rparr>;
            parties = presig_parties marked
        in case mapParties (\<lambda>idx p. signSession_lastMessage L p messageHash) 0 parties of
             (Inl e, parties') \<Rightarrow>
               (Inl (LibraryError e), this',
                objects(preSignature := marked\<lparr>presig_parties := parties'\<rparr>))
           | (Inr msg4, parties') \<Rightarrow>
               (case mapParties (\<lambda>idx p. signSession_combine L p (filterMessages msg4 idx))
                       0 parties' of
                  (Inl e, parties'') \<Rightarrow>
                    (Inl (LibraryError e), this',
                     objects(preSignature := marked\<lparr>presig_parties := parties''\<rparr>))
                | (Inr signatures, parties'') \<Rightarrow>
                    (Inr (case signatures of [] \<Rightarrow> None | s # _ \<Rightarrow> Some s), this',
                     objects(preSignature := marked\<lparr>presig_parties := parties''\<rparr>))))"

definition isConsumed :: "PreSignatureManager \<Rightarrow> string \<Rightarrow> bool" where
  "isConsumed this ident = (ident \<in> consumedPreSignatures this)"

text \<open>\<open>getAvailableCount\<close>: the pooled pre-signatures whose \<open>consumed\<close> flag is not set.\<close>

definition getAvailableCount :: "PreSignatureManager \<Rightarrow> (nat \<Rightarrow> 's PreSignature) \<Rightarrow> nat" where
  "getAvailableCount this objects =
     length (filter (\<lambda>(_, ps). \<not> consumed (objects ps)) (preSignaturePool this))"

section \<open>BitShardSDK.signHash (BitShardSDK.ts)\<close>

text \<open>The argument \<open>hash: string | Uint8Array\<close>.\<close>

datatype hash_arg = HashString string | HashBytes "byte list"

text \<open>\<open>hash.replace('0x', '')\<close>: the first occurrence, wherever it stands.\<close>

fun removeFirst0x :: "string \<Rightarrow> string" where
  "removeFirst0x (a # b # s) =
     (if a = CHR ''0'' \<and> b = CHR ''x'' then s else a # removeFirst0x (b # s))"
| "removeFirst0x s = s"

text \<open>
  \<open>Buffer.from(s, 'hex')\<close>: pairs of hexadecimal digits, up to the first pair that is
  not one; a last single character is dropped.
\<close>

fun bufferFromHex :: "string \<Rightarrow> byte list" where
  "bufferFromHex (a # b # s) =
     (case (hexDigitValue a, hexDigitValue b) of
        (Some h, Some l) \<Rightarrow> word_of_int (16 * h + l) # bufferFromHex s
      | _ \<Rightarrow> [])"
| "bufferFromHex s = []"

text \<open>
  \<open>const hashBytes = typeof hash === 'string'
       ? Buffer.from(hash.replace('0x', ''), 'hex') : hash;\<close>
\<close>

definition hashBytesOf :: "hash_arg \<Rightarrow> byte list" where
  "hashBytesOf hash =
     (case hash of
        HashString s \<Rightarrow> bufferFromHex (removeFirst0x s)
      | HashBytes b \<Rightarrow> b)"

definition signHash ::
  "('k, 's, 'g, 'c) dkls \<Rightarrow> env \<Rightarrow> 'k keyshares \<Rightarrow> hash_arg \<Rightarrow> nat list \<Rightarrow> int option
   \<Rightarrow> string option \<Rightarrow> (error + SignatureResult) \<times> 'k keyshares" where
  "signHash L E st hash keyshares options_threshold options_publicKey =
     (let hashBytes = hashBytesOf hash
      in if length hashBytes \<noteq> 32
         then (Inl (InvalidHashLength (length hashBytes)), st)
         else
           let threshold = (case options_threshold of
                              None \<Rightarrow> int (length keyshares) | Some t \<Rightarrow> t);
               publicKey = options_publicKey
           in signMessage L E st hashBytes keyshares threshold publicKey)"

section \<open>A library instance to run the model on\<close>

text \<open>
  A stand-in for the library, used where a theorem is evaluated on concrete input.  A key
  share is its serialisation, whose first byte is the id of the party, and a signing
  session is the id of its party.  \<open>lastMessage\<close> refuses a digest that is not 32 bytes long
  with `invalid message hash', \<open>combine\<close> refuses an empty batch, and a successful \<open>combine\<close>
  returns the 32-byte values \<open>demo_r\<close> and \<open>demo_s\<close>, whatever the digest.  A key
  generation session is the id of its party with the commitments vector it was given in
  round 3; its commitment is \<open>100 + id\<close>, and the key share it ends with lists its id and
  the vector (0 for a hole).
\<close>

definition demo_r :: "byte list" where
  "demo_r = [0x2D, 0x20, 0xE2, 0x73, 0x38, 0xEB, 0x00, 0x60, 0x35, 0xF0, 0x47, 0xB9, 0xEF, 0x72, 0x70, 0xCC, 0xFE, 0xB5, 0xE1, 0xED, 0x64, 0x1E, 0xA5, 0xD4, 0x83, 0x8B, 0xA4, 0x3C, 0xB7, 0x26, 0x8A, 0x6E]"

definition demo_s :: "byte list" where
  "demo_s = [0x76, 0xBA, 0x9A, 0xD5, 0x9A, 0xAA, 0x7D, 0x1F, 0x07, 0xE5, 0x82, 0x6E, 0xB4, 0x76, 0x06, 0x5D, 0x60, 0xE0, 0xAE, 0xDE, 0xBC, 0x40, 0xD6, 0x3A, 0xD0, 0xE1, 0xCC, 0x08, 0x8E, 0x58, 0x91, 0xDE]"

definition demo_dkls :: "(byte list, nat, nat \<times> nat option list, nat) dkls" where
  "demo_dkls =
     \<lparr>keyshare_toBytes = (\<lambda>k. k),
      keyshare_fromBytes = (\<lambda>bytes. if bytes = [] then Inl ''invalid keyshare'' else Inr bytes),
      signSession_new = (\<lambda>k path. case k of [] \<Rightarrow> Inl ''invalid keyshare''
                                   | b # _ \<Rightarrow> if path = ''m'' then Inr (unat b)
                                             else Inl ''unsupported path''),
      signSession_createFirstMessage =
        (\<lambda>s. (Inr \<lparr>from_id = s, to_id = None, payload = []\<rparr>, s)),
      signSession_handleMessages = (\<lambda>s msgs. (Inr [], s)),
      signSession_lastMessage =
        (\<lambda>s digest. if length digest = 32
                    then (Inr \<lparr>from_id = s, to_id = None, payload = digest\<rparr>, s)
                    else (Inl ''invalid message hash'', s)),
      signSession_combine =
        (\<lambda>s msgs. if msgs = [] then (Inl ''missing messages'', s)
                  else (Inr [demo_r, demo_s], s)),
      keygenSession_createFirstMessage =
        (\<lambda>g. (Inr \<lparr>from_id = fst g, to_id = None, payload = []\<rparr>, g)),
      keygenSession_handleMessages =
        (\<lambda>g msgs commitments. case commitments of
                                 None \<Rightarrow> (Inr [], g)
                               | Some v \<Rightarrow> (Inr [], (fst g, v))),
      keygenSession_calculateChainCodeCommitment = (\<lambda>g. (Inr (100 + fst g), g)),
      keygenSession_keyshare =
        (\<lambda>g. (Inr (of_nat (fst g) #
                     map (\<lambda>slot. case slot of None \<Rightarrow> 0 | Some c \<Rightarrow> of_nat c) (snd g)), g))\<rparr>"

text \<open>
  A stand-in for ethers and viem, given on the values used below.  \<open>demo_r\<close> and \<open>demo_s\<close>
  are an ECDSA signature of the digest SHA-256(``hello'') under the key with the public
  point \<open>17600bd9...e1ff417d\<close>; \<open>recoverAddress\<close> returns, for this digest and signature, the
  address that ECDSA recovery gives for \<open>v = 27\<close> and for \<open>v = 28\<close>, in the mixed-case form of
  ethers, and throws otherwise.  The second is the address of the signing key.  \<open>keccak256\<close>
  is given on the public point of the signing key and on that of another key,
  \<open>c764ff90...aa93bf45\<close>.  The base64 codec is given on the empty payload only.
\<close>

definition demo_env :: env where
  "demo_env =
     \<lparr>recoverAddress = (\<lambda>hash (r, s, v).
         if hash = ''0x2cf24dba5fb0a30e26e83b2ac5b9e29e1b161e5c1fa7425e73043362938b9824''
            \<and> r = ''0x2d20e27338eb006035f047b9ef7270ccfeb5e1ed641ea5d4838ba43cb7268a6e''
            \<and> s = ''0x76ba9ad59aaa7d1f07e5826eb476065d60e0aedebc40d63ad0e1cc088e5891de''
         then (if v = 27 then Some ''0x20d7d5bBEddEe45c5CAcbAdCb681078Bd59f28aE''
               else if v = 28 then Some ''0x4DE90F1D98881456fAC3a6B084f331B0498017ec''
               else None)
         else None),
      keccak256 = (\<lambda>hex.
         if hex = ''0x17600bd93b1d448f78faa1eecbfe91d768caf64354087c803f2a77f4182e2c1851c4ba742e65c5f45620737bbba0294656f169e1f5d46440f274fc9ee1ff417d''
         then Some ''0x856447dbe8a2e2f7005354f04de90f1d98881456fac3a6b084f331b0498017ec''
         else if hex = ''0xc764ff90d09634f7c70441b7caea0202633e7c33b22bfe377442ebec28563ced0f72016b9ec22394385537059c02ed7c1bc06ad60b0aef789657ad95aa93bf45''
         then Some ''0x8eaaa8bf8116d4b88754a644e553381fd31587212fde4ceb813f9b2f14ab84c3''
         else None),
      base64_encode = (\<lambda>bytes. []),
      base64_decode = (\<lambda>text. [])\<rparr>"

text \<open>Two key share objects, of the parties 0 and 1.\<close>

definition demo_keyshares :: "byte list keyshares" where
  "demo_keyshares = \<lparr>live = [0 \<mapsto> [0, 7], 1 \<mapsto> [1, 9]], next_object = 2\<rparr>"

text \<open>
  A party whose signing session has finished its pre-signature rounds, and a manager with
  one pooled pre-signature of the parties 0 and 1.
\<close>

definition demo_party :: "(nat, nat \<times> nat option list) DKLSParty" where
  "demo_party =
     \<lparr>config = \<lparr>partyId = 0, totalParties = 3, party_threshold = 2, role = None\<rparr>,
      keygenSession = None, signSession = Some 0, party_keyshare = None, messageQueue = []\<rparr>"

definition demo_manager :: PreSignatureManager where
  "demo_manager = \<lparr>consumedPreSignatures = {}, preSignaturePool = [(''presig-1'', 0)]\<rparr>"

definition demo_presignatures :: "nat \<Rightarrow> nat PreSignature" where
  "demo_presignatures =
     (\<lambda>object. \<lparr>presig_id = ''presig-1'', presig_parties = [0, 1], createdAt = 0,
                 consumed = False\<rparr>)"

section \<open>Properties the specification states, in its words\<close>

text \<open>
  The curve equation of the specification for a bare \<open>x||y\<close> key of 128 hexadecimal
  characters: \<open>y\<^sup>2 \<equiv> x\<^sup>3 + 7 (mod p)\<close>.
\<close>

definition spec_onCurve :: "string \<Rightarrow> bool" where
  "spec_onCurve key =
     (let x = hexValue (take 64 key); y = hexValue (drop 64 key)
      in (y * y) mod secp256k1_p = (x ^ 3 + 7) mod secp256k1_p)"

text \<open>
  The routing rules of the specification: the inbound broadcast frames of a party \<open>p\<close>
  are \<open>{f : f.to is None \<and> f.from \<noteq> p}\<close>, its inbound point-to-point frames are
  \<open>{f : f.to = p \<and> f.from \<noteq> p}\<close>.
\<close>

definition spec_broadcast_select :: "nat \<Rightarrow> 'p frame list \<Rightarrow> 'p frame list" where
  "spec_broadcast_select p fs = filter (\<lambda>f. to_id f = None \<and> from_id f \<noteq> p) fs"

definition spec_p2p_select :: "nat \<Rightarrow> 'p frame list \<Rightarrow> 'p frame list" where
  "spec_p2p_select p fs = filter (\<lambda>f. to_id f = Some p \<and> from_id f \<noteq> p) fs"

section \<open>Correctness of the modular arithmetic\<close>

lemma pow_split:
  "0 < exp \<Longrightarrow> (base::int) ^ nat exp = (base * base) ^ nat (exp div 2) * base ^ nat (exp mod 2)"
proof -
  assume "0 < exp"
  have "nat exp = nat (2 * (exp div 2) + exp mod 2)" by simp
  also have "\<dots> = nat (2 * (exp div 2)) + nat (exp mod 2)"
    using \<open>0 < exp\<close> by (intro nat_add_distrib) simp_all
  also have "nat (2 * (exp div 2)) = 2 * nat (exp div 2)"
    by (simp add: nat_mult_distrib)
  finally have "nat exp = 2 * nat (exp div 2) + nat (exp mod 2)" .
  then show ?thesis
    by (simp add: power_add power_mult power2_eq_square)
qed

lemma modPow_loop_correct:
  "0 < e \<Longrightarrow> modPow_loop r b e m = (r * b ^ nat e) mod m"
proof (induction r b e m rule: modPow_loop.induct)
  case (1 result base exp m)
  let ?r = "if exp mod 2 = 1 then (result * base) mod m else result"
  let ?b = "(base * base) mod m"
  let ?e = "exp div 2"
  have unfold: "modPow_loop result base exp m = modPow_loop ?r ?b ?e m"
    using "1.prems" by (subst modPow_loop.simps) simp
  have e_nonneg: "0 \<le> ?e" using "1.prems" by simp
  note ps = pow_split[OF "1.prems", of base]
  show ?case
  proof (cases "?e > 0")
    case True
    have "modPow_loop ?r ?b ?e m = (?r * ?b ^ nat ?e) mod m"
      using "1.IH" "1.prems" True by simp
    also have "\<dots> = (?r * (base * base) ^ nat ?e) mod m"
      by (metis mod_mult_right_eq power_mod)
    also have "\<dots> = (result * base ^ nat exp) mod m"
    proof (cases "exp mod 2 = 1")
      case True
      then have "?r * (base * base) ^ nat ?e mod m =
                 ((result * base) * (base * base) ^ nat ?e) mod m"
        by (simp add: mod_mult_left_eq)
      also have "\<dots> = (result * base ^ nat exp) mod m"
        using True ps by (simp add: mult_ac)
      finally show ?thesis .
    next
      case False
      then have "exp mod 2 = 0" by presburger
      then show ?thesis using ps by simp
    qed
    finally show ?thesis by (simp only: unfold)
  next
    case False
    then have e0: "?e = 0" using e_nonneg by simp
    then have e1: "exp = 1" using "1.prems" by presburger
    have "modPow_loop ?r ?b ?e m = ?r"
      using e0 by (subst modPow_loop.simps) simp
    then have "modPow_loop result base exp m = ?r" by (simp only: unfold)
    then show ?thesis using e1 by simp
  qed
qed

lemma modPow_correct: "0 < e \<Longrightarrow> modPow b e m = (b ^ nat e) mod m"
  unfolding modPow_def by (simp add: modPow_loop_correct power_mod)


lemma secp256k1_p_facts:
  "secp256k1_p mod 4 = 3" "2 < secp256k1_p" "odd secp256k1_p"
  "0 < (secp256k1_p - 1) div 2" "0 < (secp256k1_p + 1) div 4"
  "2 * nat ((secp256k1_p + 1) div 4) = nat ((secp256k1_p - 1) div 2) + 1"
  by (simp_all add: secp256k1_p_def)

section \<open>Well-formed hexadecimal input\<close>

lemma hexDigit_not_space:
  assumes "isHexDigit ch" shows "\<not> isStrWhiteSpace ch"
proof -
  define n where "n = (of_char ch :: nat)"
  from assms have "48 \<le> n \<and> n \<le> 57 \<or> 97 \<le> n \<and> n \<le> 102 \<or> 65 \<le> n \<and> n \<le> 70"
    unfolding isHexDigit_def hexDigitValue_def Let_def n_def[symmetric]
    by (simp split: if_splits)
  then show ?thesis
    unfolding isStrWhiteSpace_def n_def[symmetric] by auto
qed

lemma trimEnd_hex: "list_all isHexDigit s \<Longrightarrow> trimEnd s = s"
proof (cases s rule: rev_cases)
  case Nil
  then show ?thesis by (simp add: trimEnd_def)
next
  case (snoc ys y)
  assume "list_all isHexDigit s"
  then have "\<not> isStrWhiteSpace y" using snoc by (simp add: hexDigit_not_space)
  then show ?thesis using snoc by (simp add: trimEnd_def)
qed

lemma hexDigitValue_range: "hexDigitValue ch = Some d \<Longrightarrow> 0 \<le> d \<and> d < 16"
  unfolding hexDigitValue_def Let_def by (auto split: if_splits)

lemma hexValue_foldl_nonneg:
  "list_all isHexDigit s \<Longrightarrow> 0 \<le> acc \<Longrightarrow>
   0 \<le> foldl (\<lambda>acc ch. 16 * acc + the (hexDigitValue ch)) acc s"
proof (induction s arbitrary: acc)
  case Nil
  then show ?case by simp
next
  case (Cons ch s)
  from Cons.prems obtain d where d: "hexDigitValue ch = Some d"
    by (auto simp: isHexDigit_def)
  then have "0 \<le> 16 * acc + the (hexDigitValue ch)"
    using Cons.prems hexDigitValue_range[OF d] by simp
  then show ?case using Cons by simp
qed

lemma hexValue_nonneg: "list_all isHexDigit s \<Longrightarrow> 0 \<le> hexValue s"
  unfolding hexValue_def by (rule hexValue_foldl_nonneg) simp_all

lemma bigIntOfHex_hex:
  "list_all isHexDigit s \<Longrightarrow> s \<noteq> [] \<Longrightarrow> bigIntOfHex s = Some (hexValue s)"
  by (simp add: bigIntOfHex_def trimEnd_hex)


section \<open>Decompression: the recovered ordinate\<close>

lemma decompress_wellformed:
  assumes len: "length c = 66"
      and pre: "take 2 c = ''02'' \<or> take 2 c = ''03''"
      and hex: "list_all isHexDigit (drop 2 c)"
  shows "decompressPublicKey c =
     (let x = hexValue (drop 2 c);
          y2 = (modPow x 3 secp256k1_p + 7) mod secp256k1_p
      in if modPow y2 ((secp256k1_p - 1) div 2) secp256k1_p \<noteq> 1
         then Inl NoValidYCoordinate
         else let y0 = modPow y2 ((secp256k1_p + 1) div 4) secp256k1_p;
                  y = (if (y0 mod 2 = 0) \<noteq> (take 2 c = ''02'')
                       then secp256k1_p - y0 else y0)
              in Inr (padStart 64 CHR ''0'' (toString16 x) @
                      padStart 64 CHR ''0'' (toString16 y)))"
proof -
  have not0x: "take 2 c \<noteq> ''0x''" using pre by auto
  have "\<not> startsWith c ''0x''"
    unfolding startsWith_def using not0x by (simp add: numeral_2_eq_2)
  then have strip: "strip0x c = c"
    unfolding strip0x_def by simp
  have ne: "drop 2 c \<noteq> []" using len by auto
  have big: "bigIntOfHex (drop 2 c) = Some (hexValue (drop 2 c))"
    using hex ne by (rule bigIntOfHex_hex)
  have sl: "slice 0 2 c = take 2 c" by (simp add: slice_def)
  show ?thesis
    unfolding decompressPublicKey_def strip Let_def sl big modSqrt_def
    using pre len by (simp add: secp256k1_p_facts(1))
qed


lemma sqrt_by_exponent:
  fixes a p :: int and n1 n2 :: nat
  assumes p: "2 < p" and a: "0 \<le> a" "a < p"
      and leg: "a ^ n1 mod p = 1" and n: "2 * n2 = n1 + 1" and n1: "0 < n1"
  shows "(a ^ n2 mod p) * (a ^ n2 mod p) mod p = a" and "0 < a ^ n2 mod p" and "a ^ n2 mod p < p"
proof -
  let ?y = "a ^ n2 mod p"
  have "?y * ?y mod p = (a ^ n2 * a ^ n2) mod p"
    by (simp add: mod_mult_eq)
  also have "a ^ n2 * a ^ n2 = a ^ n1 * a"
    using n by (metis mult_2 power_add power_Suc2 Suc_eq_plus1)
  also have "(a ^ n1 * a) mod p = ((a ^ n1 mod p) * a) mod p"
    by (simp add: mod_mult_left_eq)
  also have "\<dots> = a" using leg a by simp
  finally show sq: "?y * ?y mod p = a" .
  show lt: "?y < p" using p by simp
  have ge: "0 \<le> ?y" using p by simp
  have "?y \<noteq> 0"
  proof
    assume z: "?y = 0"
    then have "a = 0" using sq by simp
    then have "a ^ n1 mod p = 0" using n1 by (simp add: power_0_left)
    then show False using leg by simp
  qed
  then show "0 < ?y" using ge by simp
qed

lemma neg_root:
  fixes y p :: int
  shows "(p - y) * (p - y) mod p = y * y mod p"
proof -
  have "(p - y) * (p - y) = y * y + p * (p - 2 * y)"
    by (simp add: algebra_simps)
  then show ?thesis by (simp only: mod_mult_self2)
qed


lemma curve_rhs:
  "0 \<le> x \<Longrightarrow> (modPow x 3 secp256k1_p + 7) mod secp256k1_p = (x ^ 3 + 7) mod secp256k1_p"
  by (simp add: modPow_correct mod_add_left_eq)

lemma pick_root:
  fixes y0 p a :: int
  assumes "odd p" and "0 < y0" and "y0 < p" and "y0 * y0 mod p = a"
      and y: "y = (if (y0 mod 2 = 0) \<noteq> wantEven then p - y0 else y0)"
  shows "0 < y" "y < p" "y * y mod p = a" "even y \<longleftrightarrow> wantEven"
proof -
  show "0 < y" "y < p" using assms(2,3) by (simp_all add: y)
  show "y * y mod p = a" using assms(4) by (simp add: y neg_root)
  have e: "(y0 mod 2 = 0) = even y0" by presburger
  show "even y \<longleftrightarrow> wantEven"
    unfolding y e using assms(1) by auto
qed

text \<open>
  Claim C4.  For every 33-byte compressed key (66 hexadecimal characters, prefix \<open>02\<close> or
  \<open>03\<close>) \<open>decompressPublicKey\<close> either fails with the error
  `Invalid public key - no valid y coordinate', or returns \<open>x\<close> and a \<open>y\<close> with
  \<open>0 < y < p\<close>, \<open>y\<^sup>2 \<equiv> x\<^sup>3 + 7 (mod p)\<close>, \<open>y\<close> even for prefix \<open>02\<close> and odd for prefix
  \<open>03\<close>.  Whenever it does not fail, the returned \<open>y\<close> is a square root of
  \<open>\<alpha> = x\<^sup>3 + 7 mod p\<close>; so if \<open>\<alpha>\<close> is not a quadratic residue, the first alternative
  is the only one left and decompression fails.
\<close>

theorem decompress_sound:
  assumes len: "length c = 66"
      and pre: "take 2 c = ''02'' \<or> take 2 c = ''03''"
      and hex: "list_all isHexDigit (drop 2 c)"
  shows "decompressPublicKey c = Inl NoValidYCoordinate \<or>
         (\<exists>y. decompressPublicKey c =
                Inr (padStart 64 CHR ''0'' (toString16 (hexValue (drop 2 c))) @
                     padStart 64 CHR ''0'' (toString16 y))
            \<and> 0 < y \<and> y < secp256k1_p
            \<and> (y * y) mod secp256k1_p = (hexValue (drop 2 c) ^ 3 + 7) mod secp256k1_p
            \<and> (even y \<longleftrightarrow> take 2 c = ''02'')
            \<and> (odd y \<longleftrightarrow> take 2 c = ''03''))"
proof -
  let ?p = secp256k1_p
  let ?x = "hexValue (drop 2 c)"
  define a where "a = (modPow ?x 3 ?p + 7) mod ?p"
  define y0 where "y0 = modPow a ((?p + 1) div 4) ?p"
  define y where "y = (if (y0 mod 2 = 0) \<noteq> (take 2 c = ''02'') then ?p - y0 else y0)"
  let ?n1 = "nat ((?p - 1) div 2)"
  let ?n2 = "nat ((?p + 1) div 4)"
  note wf = decompress_wellformed[OF len pre hex, unfolded Let_def, folded a_def,
      folded y0_def, folded y_def]
  show ?thesis
  proof (cases "modPow a ((?p - 1) div 2) ?p = 1")
    case False
    then show ?thesis using wf by simp
  next
    case True
    have res: "decompressPublicKey c =
        Inr (padStart 64 CHR ''0'' (toString16 ?x) @ padStart 64 CHR ''0'' (toString16 y))"
      using wf True by simp
    have a_range: "0 \<le> a" "a < ?p" using secp256k1_p_facts(2) by (simp_all add: a_def)
    have leg: "a ^ ?n1 mod ?p = 1"
      using True by (simp add: modPow_correct secp256k1_p_facts(4))
    have y0_eq: "y0 = a ^ ?n2 mod ?p"
      by (simp add: y0_def modPow_correct secp256k1_p_facts(5))
    have n1_pos: "0 < ?n1" using secp256k1_p_facts(4) by simp
    note sq = sqrt_by_exponent[OF secp256k1_p_facts(2) a_range leg secp256k1_p_facts(6) n1_pos]
    have y0_sq: "y0 * y0 mod ?p = a" and y0_pos: "0 < y0" and y0_lt: "y0 < ?p"
      using sq by (simp_all only: y0_eq)
    have x_nonneg: "0 \<le> ?x" using hex by (rule hexValue_nonneg)
    have a_eq: "a = (?x ^ 3 + 7) mod ?p" unfolding a_def using x_nonneg by (rule curve_rhs)
    note pr = pick_root[OF secp256k1_p_facts(3) y0_pos y0_lt y0_sq y_def]
    have pre_neq: "take 2 c = ''03'' \<longleftrightarrow> take 2 c \<noteq> ''02''" using pre by auto
    have y_odd: "odd y \<longleftrightarrow> take 2 c = ''03''"
      using pr(4) pre_neq by simp
    show ?thesis
      using res pr y_odd a_eq by blast
  qed
qed


text \<open>
  A concrete curve point with a cheap certificate: \<open>x\<^sub>0\<^sup>3 \<equiv> -6 (mod p)\<close>, hence
  \<open>x\<^sub>0\<^sup>3 + 7 \<equiv> 1\<close> and \<open>(x\<^sub>0, 1)\<close>, \<open>(x\<^sub>0, p - 1)\<close> lie on the curve.
\<close>

lemma cube_root_of_minus_six:
  "(0x1FE1E5EF3FCEB5C135AB7741333CE5A6E80D68167653F6B2B24BCBCFAAAFF507::int) ^ 3 mod secp256k1_p = secp256k1_p - 6"
proof -
  have "(0x1FE1E5EF3FCEB5C135AB7741333CE5A6E80D68167653F6B2B24BCBCFAAAFF507::int) * 0x1FE1E5EF3FCEB5C135AB7741333CE5A6E80D68167653F6B2B24BCBCFAAAFF507 * 0x1FE1E5EF3FCEB5C135AB7741333CE5A6E80D68167653F6B2B24BCBCFAAAFF507 = 0x7E981A97E9841C3D8EB3F876B44D07696569C1EFC3844D09312CA6D1F023858AC54545CE11DB028636B181887561D4A773993F7F615022C29BFC580DD3FD32 * 0xFFFFFFFFFFFFFFFFFFFFFFFFFFFFFFFFFFFFFFFFFFFFFFFFFFFFFFFEFFFFFC2F + (0xFFFFFFFFFFFFFFFFFFFFFFFFFFFFFFFFFFFFFFFFFFFFFFFFFFFFFFFEFFFFFC2F - 6)"
    by (simp only: arith_simps rel_simps numeral_times_numeral numeral_plus_numeral
        diff_numeral_simps)
  then have "(0x1FE1E5EF3FCEB5C135AB7741333CE5A6E80D68167653F6B2B24BCBCFAAAFF507::int) ^ 3 = 0x7E981A97E9841C3D8EB3F876B44D07696569C1EFC3844D09312CA6D1F023858AC54545CE11DB028636B181887561D4A773993F7F615022C29BFC580DD3FD32 * secp256k1_p + (secp256k1_p - 6)"
    by (simp only: secp256k1_p_def power3_eq_cube)
  then have "(0x1FE1E5EF3FCEB5C135AB7741333CE5A6E80D68167653F6B2B24BCBCFAAAFF507::int) ^ 3 mod secp256k1_p = (secp256k1_p - 6) mod secp256k1_p"
    by (simp only: mod_mult_self3)
  also have "\<dots> = secp256k1_p - 6"
    by (simp add: secp256k1_p_def)
  finally show ?thesis .
qed

lemma sample_key_value:
  "hexValue ''1fe1e5ef3fceb5c135ab7741333ce5a6e80d68167653f6b2b24bcbcfaaaff507'' = 0x1FE1E5EF3FCEB5C135AB7741333CE5A6E80D68167653F6B2B24BCBCFAAAFF507"
  by (simp add: hexValue_def hexDigitValue_def)

lemma sample_key_wellformed:
  "length ''031fe1e5ef3fceb5c135ab7741333ce5a6e80d68167653f6b2b24bcbcfaaaff507'' = 66" "take 2 ''031fe1e5ef3fceb5c135ab7741333ce5a6e80d68167653f6b2b24bcbcfaaaff507'' = ''03''" "list_all isHexDigit (drop 2 ''031fe1e5ef3fceb5c135ab7741333ce5a6e80d68167653f6b2b24bcbcfaaaff507'')"
  by (simp_all add: isHexDigit_def hexDigitValue_def)

lemma modPow_one: "0 < e \<Longrightarrow> 1 < m \<Longrightarrow> modPow 1 e m = 1"
  by (simp add: modPow_correct)

lemma sample_key_rhs:
  "(modPow 0x1FE1E5EF3FCEB5C135AB7741333CE5A6E80D68167653F6B2B24BCBCFAAAFF507 3 secp256k1_p + 7) mod secp256k1_p = 1"
proof -
  have "modPow 0x1FE1E5EF3FCEB5C135AB7741333CE5A6E80D68167653F6B2B24BCBCFAAAFF507 3 secp256k1_p = secp256k1_p - 6"
    using cube_root_of_minus_six by (simp add: modPow_correct)
  then have "(modPow 0x1FE1E5EF3FCEB5C135AB7741333CE5A6E80D68167653F6B2B24BCBCFAAAFF507 3 secp256k1_p + 7) mod secp256k1_p = (1 + secp256k1_p) mod secp256k1_p"
    by simp
  also have "\<dots> = 1" using secp256k1_p_facts(2) by (simp only: mod_add_self2) simp
  finally show ?thesis .
qed

lemma sample_key_accepted:
  "decompressPublicKey ''031fe1e5ef3fceb5c135ab7741333ce5a6e80d68167653f6b2b24bcbcfaaaff507'' \<noteq> Inl NoValidYCoordinate"
proof -
  have p1: "1 < secp256k1_p" using secp256k1_p_facts(2) by simp
  have leg: "modPow 1 ((secp256k1_p - 1) div 2) secp256k1_p = 1"
    using secp256k1_p_facts(4) p1 by (rule modPow_one)
  show ?thesis
    using decompress_wellformed[OF sample_key_wellformed(1) disjI2[OF sample_key_wellformed(2)]
        sample_key_wellformed(3)]
    by (simp add: Let_def sample_key_value sample_key_rhs leg)
qed

theorem decompress_sound_witness:
  "length ''031fe1e5ef3fceb5c135ab7741333ce5a6e80d68167653f6b2b24bcbcfaaaff507'' = 66 \<and> take 2 ''031fe1e5ef3fceb5c135ab7741333ce5a6e80d68167653f6b2b24bcbcfaaaff507'' = ''03''
   \<and> list_all isHexDigit (drop 2 ''031fe1e5ef3fceb5c135ab7741333ce5a6e80d68167653f6b2b24bcbcfaaaff507'')
   \<and> (\<exists>y. decompressPublicKey ''031fe1e5ef3fceb5c135ab7741333ce5a6e80d68167653f6b2b24bcbcfaaaff507'' =
            Inr (padStart 64 CHR ''0'' (toString16 (hexValue (drop 2 ''031fe1e5ef3fceb5c135ab7741333ce5a6e80d68167653f6b2b24bcbcfaaaff507''))) @
                 padStart 64 CHR ''0'' (toString16 y))
          \<and> 0 < y \<and> y < secp256k1_p
          \<and> (y * y) mod secp256k1_p = (hexValue (drop 2 ''031fe1e5ef3fceb5c135ab7741333ce5a6e80d68167653f6b2b24bcbcfaaaff507'') ^ 3 + 7) mod secp256k1_p
          \<and> odd y)"
  using decompress_sound[OF sample_key_wellformed(1) disjI2[OF sample_key_wellformed(2)]
      sample_key_wellformed(3)] sample_key_accepted sample_key_wellformed
  by blast

section \<open>Uncompressed keys: the bare 64-byte path\<close>

lemma startsWith_Cons2:
  "startsWith (a # b # s) [c, d] = (a = c \<and> b = d)"
  by (simp add: startsWith_def)

lemma getUncompressed_bare:
  assumes "length (strip0x k) = 128" and "\<not> startsWith (strip0x k) ''04''"
  shows "getUncompressedPublicKey k = Inr (strip0x k)"
proof -
  have "length (strip0x (strip0x k)) \<noteq> 66"
    using assms(1) by (auto simp: strip0x_def)
  then have "\<not> isCompressedPublicKey (strip0x k)"
    by (simp add: isCompressedPublicKey_def Let_def)
  then show ?thesis
    using assms by (simp add: getUncompressedPublicKey_def Let_def)
qed

text \<open>
  Claim C9, as stated, fails: the 128-character key made of zeros is the point \<open>(0, 0)\<close>,
  which does not satisfy the curve equation, and \<open>getUncompressedPublicKey\<close> returns it
  unchanged.
\<close>

theorem bare_key_off_curve_accepted:
  "getUncompressedPublicKey ''00000000000000000000000000000000000000000000000000000000000000000000000000000000000000000000000000000000000000000000000000000000'' = Inr ''00000000000000000000000000000000000000000000000000000000000000000000000000000000000000000000000000000000000000000000000000000000'' \<and> \<not> spec_onCurve ''00000000000000000000000000000000000000000000000000000000000000000000000000000000000000000000000000000000000000000000000000000000''"
proof -
  have "getUncompressedPublicKey ''00000000000000000000000000000000000000000000000000000000000000000000000000000000000000000000000000000000000000000000000000000000'' = Inr (strip0x ''00000000000000000000000000000000000000000000000000000000000000000000000000000000000000000000000000000000000000000000000000000000'')"
    by (rule getUncompressed_bare) (simp_all add: strip0x_def startsWith_Cons2)
  moreover have "strip0x ''00000000000000000000000000000000000000000000000000000000000000000000000000000000000000000000000000000000000000000000000000000000'' = ''00000000000000000000000000000000000000000000000000000000000000000000000000000000000000000000000000000000000000000000000000000000''" by (simp add: strip0x_def startsWith_Cons2)
  moreover have "\<not> spec_onCurve ''00000000000000000000000000000000000000000000000000000000000000000000000000000000000000000000000000000000000000000000000000000000''"
    by (simp add: spec_onCurve_def hexValue_def hexDigitValue_def secp256k1_p_def)
  ultimately show ?thesis by simp
qed


text \<open>
  Claim C9, amended.  On the bare path (128 characters once an optional \<open>0x\<close> is removed,
  not starting with \<open>04\<close>) \<open>getUncompressedPublicKey\<close> returns the key as it is: it
  checks neither the curve equation nor the digits, and it raises no error.
\<close>

theorem getUncompressed_bare_unchecked:
  assumes "length (strip0x k) = 128" and "\<not> startsWith (strip0x k) ''04''"
  shows "getUncompressedPublicKey k = Inr (strip0x k)"
  using assms by (rule getUncompressed_bare)

theorem getUncompressed_bare_unchecked_witness:
  "length (strip0x ''0x1fe1e5ef3fceb5c135ab7741333ce5a6e80d68167653f6b2b24bcbcfaaaff5070000000000000000000000000000000000000000000000000000000000000001'') = 128 \<and> \<not> startsWith (strip0x ''0x1fe1e5ef3fceb5c135ab7741333ce5a6e80d68167653f6b2b24bcbcfaaaff5070000000000000000000000000000000000000000000000000000000000000001'') ''04''
   \<and> getUncompressedPublicKey ''0x1fe1e5ef3fceb5c135ab7741333ce5a6e80d68167653f6b2b24bcbcfaaaff5070000000000000000000000000000000000000000000000000000000000000001'' = Inr ''1fe1e5ef3fceb5c135ab7741333ce5a6e80d68167653f6b2b24bcbcfaaaff5070000000000000000000000000000000000000000000000000000000000000001''"
proof -
  have s: "strip0x ''0x1fe1e5ef3fceb5c135ab7741333ce5a6e80d68167653f6b2b24bcbcfaaaff5070000000000000000000000000000000000000000000000000000000000000001'' = ''1fe1e5ef3fceb5c135ab7741333ce5a6e80d68167653f6b2b24bcbcfaaaff5070000000000000000000000000000000000000000000000000000000000000001''"
    by (simp add: strip0x_def startsWith_Cons2)
  have l: "length (strip0x ''0x1fe1e5ef3fceb5c135ab7741333ce5a6e80d68167653f6b2b24bcbcfaaaff5070000000000000000000000000000000000000000000000000000000000000001'') = 128" unfolding s by simp
  have n: "\<not> startsWith (strip0x ''0x1fe1e5ef3fceb5c135ab7741333ce5a6e80d68167653f6b2b24bcbcfaaaff5070000000000000000000000000000000000000000000000000000000000000001'') ''04''" unfolding s by (simp add: startsWith_Cons2)
  show ?thesis
    using getUncompressed_bare_unchecked[OF l n] l n s by simp
qed


section \<open>Compression of a point whose abscissa begins with the byte 04\<close>

lemma mod_certificate:
  fixes a q m r :: int
  assumes "a = q * m + r" and "0 \<le> r" and "r < m"
  shows "a mod m = r"
  using assms by simp

lemma sample_point_x: "hexValue ''0400000000000000000000000000000000000000000000000000000000000004'' = 0x400000000000000000000000000000000000000000000000000000000000004"
  by (simp add: hexValue_def hexDigitValue_def)

lemma sample_point_y: "hexValue ''64cf321098a67cb15bbbb88b6f6f0a44916d3b5ad574c25ed48399ecfa93dd86'' = 0x64CF321098A67CB15BBBB88B6F6F0A44916D3B5AD574C25ED48399ECFA93DD86"
  by (simp add: hexValue_def hexDigitValue_def)

lemma sample_point_on_curve: "spec_onCurve ''040000000000000000000000000000000000000000000000000000000000000464cf321098a67cb15bbbb88b6f6f0a44916d3b5ad574c25ed48399ecfa93dd86''"
proof -
  have y: "(0x64CF321098A67CB15BBBB88B6F6F0A44916D3B5AD574C25ED48399ECFA93DD86::int) * 0x64CF321098A67CB15BBBB88B6F6F0A44916D3B5AD574C25ED48399ECFA93DD86 = 0x27B286CEF7E36B5CAF08001ABBC8ACE438C83A367592BAE80924B0EEC2C1C3BA * 0xFFFFFFFFFFFFFFFFFFFFFFFFFFFFFFFFFFFFFFFFFFFFFFFFFFFFFFFEFFFFFC2F + 0x40E840000000000000000000000000000000000000004000039CC01125109AFE"
    by (simp only: arith_simps rel_simps numeral_times_numeral numeral_plus_numeral)
  have x: "(0x400000000000000000000000000000000000000000000000000000000000004::int) * 0x400000000000000000000000000000000000000000000000000000000000004 * 0x400000000000000000000000000000000000000000000000000000000000004 + 7 = 0x40000000000000000000000000000000000000000000000000000000400001B4400000000000000000000000000000000000000000000000400002A88007 * 0xFFFFFFFFFFFFFFFFFFFFFFFFFFFFFFFFFFFFFFFFFFFFFFFFFFFFFFFEFFFFFC2F + 0x40E840000000000000000000000000000000000000004000039CC01125109AFE"
    by (simp only: arith_simps rel_simps numeral_times_numeral numeral_plus_numeral)
  have r: "(0::int) \<le> 0x40E840000000000000000000000000000000000000004000039CC01125109AFE" "(0x40E840000000000000000000000000000000000000004000039CC01125109AFE::int) < 0xFFFFFFFFFFFFFFFFFFFFFFFFFFFFFFFFFFFFFFFFFFFFFFFFFFFFFFFEFFFFFC2F" by simp_all
  have ym: "(0x64CF321098A67CB15BBBB88B6F6F0A44916D3B5AD574C25ED48399ECFA93DD86::int) * 0x64CF321098A67CB15BBBB88B6F6F0A44916D3B5AD574C25ED48399ECFA93DD86 mod 0xFFFFFFFFFFFFFFFFFFFFFFFFFFFFFFFFFFFFFFFFFFFFFFFFFFFFFFFEFFFFFC2F = 0x40E840000000000000000000000000000000000000004000039CC01125109AFE"
    using y r by (rule mod_certificate)
  have xm: "((0x400000000000000000000000000000000000000000000000000000000000004::int) ^ 3 + 7) mod 0xFFFFFFFFFFFFFFFFFFFFFFFFFFFFFFFFFFFFFFFFFFFFFFFFFFFFFFFEFFFFFC2F = 0x40E840000000000000000000000000000000000000004000039CC01125109AFE"
    unfolding power3_eq_cube using x r by (rule mod_certificate)
  have t: "take 64 ''040000000000000000000000000000000000000000000000000000000000000464cf321098a67cb15bbbb88b6f6f0a44916d3b5ad574c25ed48399ecfa93dd86'' = ''0400000000000000000000000000000000000000000000000000000000000004''" by simp
  have d: "drop 64 ''040000000000000000000000000000000000000000000000000000000000000464cf321098a67cb15bbbb88b6f6f0a44916d3b5ad574c25ed48399ecfa93dd86'' = ''64cf321098a67cb15bbbb88b6f6f0a44916d3b5ad574c25ed48399ecfa93dd86''" by simp
  show ?thesis
    unfolding spec_onCurve_def Let_def t d sample_point_x sample_point_y secp256k1_p_def ym xm
    by (rule refl)
qed

lemma sample_point_compress:
  "compressPublicKey ''040000000000000000000000000000000000000000000000000000000000000464cf321098a67cb15bbbb88b6f6f0a44916d3b5ad574c25ed48399ecfa93dd86'' = Inr ''020000000000000000000000000000000000000000000000000000000000000464''"
proof -
  have sw: "startsWith ''040000000000000000000000000000000000000000000000000000000000000464cf321098a67cb15bbbb88b6f6f0a44916d3b5ad574c25ed48399ecfa93dd86'' ''04''" by (simp add: startsWith_Cons2)
  have dr: "drop 2 ''040000000000000000000000000000000000000000000000000000000000000464cf321098a67cb15bbbb88b6f6f0a44916d3b5ad574c25ed48399ecfa93dd86'' = ''0000000000000000000000000000000000000000000000000000000000000464cf321098a67cb15bbbb88b6f6f0a44916d3b5ad574c25ed48399ecfa93dd86''" by simp
  have y: "slice 64 128 ''0000000000000000000000000000000000000000000000000000000000000464cf321098a67cb15bbbb88b6f6f0a44916d3b5ad574c25ed48399ecfa93dd86'' = ''cf321098a67cb15bbbb88b6f6f0a44916d3b5ad574c25ed48399ecfa93dd86''" by (simp add: slice_def)
  have x: "slice 0 64 ''0000000000000000000000000000000000000000000000000000000000000464cf321098a67cb15bbbb88b6f6f0a44916d3b5ad574c25ed48399ecfa93dd86'' = ''0000000000000000000000000000000000000000000000000000000000000464''" by (simp add: slice_def)
  have hex: "list_all isHexDigit ''cf321098a67cb15bbbb88b6f6f0a44916d3b5ad574c25ed48399ecfa93dd86''" by (simp add: isHexDigit_def hexDigitValue_def)
  have big: "bigIntOfHex ''cf321098a67cb15bbbb88b6f6f0a44916d3b5ad574c25ed48399ecfa93dd86'' = Some (hexValue ''cf321098a67cb15bbbb88b6f6f0a44916d3b5ad574c25ed48399ecfa93dd86'')"
    using hex by (rule bigIntOfHex_hex) simp
  have ev: "hexValue ''cf321098a67cb15bbbb88b6f6f0a44916d3b5ad574c25ed48399ecfa93dd86'' mod 2 = 0"
    by (simp add: hexValue_def hexDigitValue_def)
  show ?thesis
    unfolding compressPublicKey_def Let_def
    by (simp only: sw if_True dr x y big option.case ev) simp
qed

lemma sample_point_shifted_x:
  "padStart 64 CHR ''0'' (toString16 (hexValue ''0000000000000000000000000000000000000000000000000000000000000464'')) = ''0000000000000000000000000000000000000000000000000000000000000464''"
proof -
  have v: "hexValue ''0000000000000000000000000000000000000000000000000000000000000464'' = 1124" by (simp add: hexValue_def hexDigitValue_def)
  have h: "toString16 1124 = ''464''"
    by (simp add: toString16_def toHexNat.simps hexChar_def)
  show ?thesis unfolding v h padStart_def by (simp add: numeral_eq_Suc)
qed

lemma sample_point_roundtrip_fails:
  "decompressPublicKey ''020000000000000000000000000000000000000000000000000000000000000464'' \<noteq> Inr ''040000000000000000000000000000000000000000000000000000000000000464cf321098a67cb15bbbb88b6f6f0a44916d3b5ad574c25ed48399ecfa93dd86''"
proof -
  have len: "length ''020000000000000000000000000000000000000000000000000000000000000464'' = 66" by simp
  have pre: "take 2 ''020000000000000000000000000000000000000000000000000000000000000464'' = ''02'' \<or> take 2 ''020000000000000000000000000000000000000000000000000000000000000464'' = ''03''" by simp
  have hex: "list_all isHexDigit (drop 2 ''020000000000000000000000000000000000000000000000000000000000000464'')" by (simp add: isHexDigit_def hexDigitValue_def)
  have d: "drop 2 ''020000000000000000000000000000000000000000000000000000000000000464'' = ''0000000000000000000000000000000000000000000000000000000000000464''" by simp
  show ?thesis
    unfolding decompress_wellformed[OF len pre hex] Let_def d sample_point_shifted_x
    by simp
qed


text \<open>
  Claim C3 does not hold for the code.  The point below lies on the curve and its \<open>x\<close>
  begins with the byte \<open>04\<close>.  \<open>compressPublicKey\<close> takes that byte for the marker of an
  uncompressed key and drops it, so the compressed key it returns carries the abscissa
  \<open>0x0464\<close> in place of \<open>x\<close>; whatever \<open>decompressPublicKey\<close> makes of it, the result is
  not the point.
\<close>

theorem compress_drops_leading_04_of_x:
  "spec_onCurve ''040000000000000000000000000000000000000000000000000000000000000464cf321098a67cb15bbbb88b6f6f0a44916d3b5ad574c25ed48399ecfa93dd86''
   \<and> compressPublicKey ''040000000000000000000000000000000000000000000000000000000000000464cf321098a67cb15bbbb88b6f6f0a44916d3b5ad574c25ed48399ecfa93dd86'' = Inr ''020000000000000000000000000000000000000000000000000000000000000464''
   \<and> ''020000000000000000000000000000000000000000000000000000000000000464'' \<noteq> ''02'' @ take 64 ''040000000000000000000000000000000000000000000000000000000000000464cf321098a67cb15bbbb88b6f6f0a44916d3b5ad574c25ed48399ecfa93dd86''
   \<and> decompressPublicKey ''020000000000000000000000000000000000000000000000000000000000000464'' \<noteq> Inr ''040000000000000000000000000000000000000000000000000000000000000464cf321098a67cb15bbbb88b6f6f0a44916d3b5ad574c25ed48399ecfa93dd86''"
  using sample_point_on_curve sample_point_compress sample_point_roundtrip_fails
  by simp

section \<open>Decompression of an abscissa that is not below the field prime\<close>

text \<open>
  \<open>decompressPublicKey\<close> has no range check on \<open>x\<close>.  The input \<open>02\<close> \<parallel> \<open>p + 1\<close> has
  \<open>x\<^sup>3 + 7 \<equiv> 8 (mod p)\<close>, and 8 is a square modulo \<open>p\<close>.  The value of \<open>8\<^bsup>(p+1)/4\<^esup> mod p\<close> is
  computed by square-and-multiply along the binary digits of the exponent; every step is
  checked by one multiplication, with the quotient by \<open>p\<close> given.
\<close>

lemma secp256k1_chain_step:
  fixes t t' q a :: int and E E' b :: nat
  assumes prev: "8 ^ E mod secp256k1_p = t"
      and cert: "t * t * a + 0x1000003D1 * q
                 = q * 0x10000000000000000000000000000000000000000000000000000000000000000 + t'"
      and range: "0 \<le> t'"
                 "t' < 0xFFFFFFFFFFFFFFFFFFFFFFFFFFFFFFFFFFFFFFFFFFFFFFFFFFFFFFFEFFFFFC2F"
      and a: "a = 8 ^ b" and E': "E' = 2 * E + b"
  shows "8 ^ E' mod secp256k1_p = t'"
proof -
  let ?p = "secp256k1_p"
  have T: "(0x10000000000000000000000000000000000000000000000000000000000000000 :: int)
           = ?p + 0x1000003D1"
    by (simp add: secp256k1_p_def)
  have "t * t * a = q * ?p + t'"
    using cert unfolding T by (simp add: algebra_simps)
  then have m: "(t * t * a) mod ?p = t'"
    using range by (simp add: secp256k1_p_def)
  have e: "(8::int) ^ E' = (8 ^ E) * (8 ^ E) * a"
    unfolding E' a by (simp add: power_add mult_2)
  have "((8::int) ^ E * 8 ^ E) mod ?p = ((8 ^ E mod ?p) * (8 ^ E mod ?p)) mod ?p"
    by (simp add: mod_mult_eq)
  then have "((8::int) ^ E * 8 ^ E * a) mod ?p = ((8 ^ E mod ?p) * (8 ^ E mod ?p) * a) mod ?p"
    by (metis mod_mult_left_eq)
  then show ?thesis unfolding e prev m .
qed

lemmas chain_arith =
  arith_simps rel_simps numeral_times_numeral numeral_plus_numeral mult_1_right mult_1
  power_one_right power_0 refl


lemma sqrt8_chain_0: "(8::int) ^ 0 mod secp256k1_p = 1"
  by (simp add: secp256k1_p_def)

lemma sqrt8_chain_1:
  "(8::int) ^ 1 mod secp256k1_p
   = 8"
  by (rule secp256k1_chain_step[OF sqrt8_chain_0, where a = 8 and b = 1
        and q = "0"])
     (simp_all only: chain_arith)

lemma sqrt8_chain_2:
  "(8::int) ^ 3 mod secp256k1_p
   = 0x200"
  by (rule secp256k1_chain_step[OF sqrt8_chain_1, where a = 8 and b = 1
        and q = "0"])
     (simp_all only: chain_arith)

lemma sqrt8_chain_3:
  "(8::int) ^ 7 mod secp256k1_p
   = 0x200000"
  by (rule secp256k1_chain_step[OF sqrt8_chain_2, where a = 8 and b = 1
        and q = "0"])
     (simp_all only: chain_arith)

lemma sqrt8_chain_4:
  "(8::int) ^ 0xF mod secp256k1_p
   = 0x200000000000"
  by (rule secp256k1_chain_step[OF sqrt8_chain_3, where a = 8 and b = 1
        and q = "0"])
     (simp_all only: chain_arith)

lemma sqrt8_chain_5:
  "(8::int) ^ 0x1F mod secp256k1_p
   = 0x200000000000000000000000"
  by (rule secp256k1_chain_step[OF sqrt8_chain_4, where a = 8 and b = 1
        and q = "0"])
     (simp_all only: chain_arith)

lemma sqrt8_chain_6:
  "(8::int) ^ 0x3F mod secp256k1_p
   = 0x200000000000000000000000000000000000000000000000"
  by (rule secp256k1_chain_step[OF sqrt8_chain_5, where a = 8 and b = 1
        and q = "0"])
     (simp_all only: chain_arith)

lemma sqrt8_chain_7:
  "(8::int) ^ 0x7F mod secp256k1_p
   = 0x2000007A20000000000000000000000000000000"
  by (rule secp256k1_chain_step[OF sqrt8_chain_6, where a = 8 and b = 1
        and q = "0x20000000000000000000000000000000"])
     (simp_all only: chain_arith)

lemma sqrt8_chain_8:
  "(8::int) ^ 0xFF mod secp256k1_p
   = 0x20000000000000000000000000000000000000002000016E6005763C46F2BE54"
  by (rule secp256k1_chain_step[OF sqrt8_chain_7, where a = 8 and b = 1
        and q = "0x200000F44001D214"])
     (simp_all only: chain_arith)

lemma sqrt8_chain_9:
  "(8::int) ^ 0x1FF mod secp256k1_p
   = 0x2000000000000000200002DCC01B4F2E6AF6E9A8423B390DF91862C44B58EB42"
  by (rule secp256k1_chain_step[OF sqrt8_chain_8, where a = 8 and b = 1
        and q = "0x2000000000000000000000000000000000000000400002DCC00AEC78ADE57D22"])
     (simp_all only: chain_arith)

lemma sqrt8_chain_10:
  "(8::int) ^ 0x3FF mod secp256k1_p
   = 0x9B733D5196EAD3D7D46584B5F74A8A73B5530170EB05D057F0064EDA0E0C3125"
  by (rule secp256k1_chain_step[OF sqrt8_chain_9, where a = 8 and b = 1
        and q = "0x2000000000000000400005B980369E5CF5EDD90A04EE9B522ACCF1F2413F02F5"])
     (simp_all only: chain_arith)

lemma sqrt8_chain_11:
  "(8::int) ^ 0x7FF mod secp256k1_p
   = 0xD54C243194F23BD1C8072D42C343E5B505D26996B5BBA8655F1D41AD4ACA8E40"
  by (rule secp256k1_chain_step[OF sqrt8_chain_10, where a = 8 and b = 1
        and q = "0x2F326010795EF7B738D159AFA098F169155163E95355DB13737A52361B82491F8"])
     (simp_all only: chain_arith)

lemma sqrt8_chain_12:
  "(8::int) ^ 0xFFF mod secp256k1_p
   = 0xC7D9596504FBA75F0162EC0C2509560C496A151C0C063BFB8090D43D8307ED4F"
  by (rule secp256k1_chain_step[OF sqrt8_chain_11, where a = 8 and b = 1
        and q = "0x58DBE5700234C16E8BD0CB4222F6EF85E15201BD384F8CA5F95520B2C8FA0471F"])
     (simp_all only: chain_arith)

lemma sqrt8_chain_13:
  "(8::int) ^ 0x1FFF mod secp256k1_p
   = 0xDFD6B91F8E1D43565A6B93EB2386970C7F708B0194B51BC5F3C66553E90D758"
  by (rule secp256k1_chain_step[OF sqrt8_chain_12, where a = 8 and b = 1
        and q = "0x4E01D0C1DD1C8B15AE218C9CC40F73AE8543D9E6C4B91D4A2EB2688727B154350"])
     (simp_all only: chain_arith)

lemma sqrt8_chain_14:
  "(8::int) ^ 0x3FFF mod secp256k1_p
   = 0xFA4979DE0410A481BC8FEF9A2987B0C0F6CDAF15C910CC9309B7630B0E160F99"
  by (rule secp256k1_chain_step[OF sqrt8_chain_13, where a = 8 and b = 1
        and q = "0x61DBE54F801B99C3859A179A3B38D8B27F13B5B3B34C08655C752336969D749"])
     (simp_all only: chain_arith)

lemma sqrt8_chain_15:
  "(8::int) ^ 0x7FFF mod secp256k1_p
   = 0xC8A8EDB92A8C4A7E5427A8051630CAC9ACA587D971A96DF706BF4C21C746B2A8"
  by (rule secp256k1_chain_step[OF sqrt8_chain_14, where a = 8 and b = 1
        and q = "0x7A59CB8E2D493996FF5B92C5F07F46086002CC9359F3A538C3098962EE4995D20"])
     (simp_all only: chain_arith)

lemma sqrt8_chain_16:
  "(8::int) ^ 0xFFFF mod secp256k1_p
   = 0xE0F80EBD7FB9678B5CB81F3F2460E0A8D3F418259A893739BE5BB6E968B3E463"
  by (rule secp256k1_chain_step[OF sqrt8_chain_15, where a = 8 and b = 1
        and q = "0x4EA431751921B59EB8882927459CFA6A809134690853D806F64BD976EE5E663F3"])
     (simp_all only: chain_arith)

lemma sqrt8_chain_17:
  "(8::int) ^ 0x1FFFF mod secp256k1_p
   = 0xB612492FF92E92021EAE1155015470D7554D7C238BF3EE6C874DCED7705373F8"
  by (rule secp256k1_chain_step[OF sqrt8_chain_16, where a = 8 and b = 1
        and q = "0x62D9851417C299554F8ABC2C964A98D469D527A71EAFF7585C101159006F142B0"])
     (simp_all only: chain_arith)

lemma sqrt8_chain_18:
  "(8::int) ^ 0x3FFFF mod secp256k1_p
   = 0x48DB2D41665FB3F6C255F046F018773AF2B8702B33AC06D7FCB95E60A2D93B3D"
  by (rule secp256k1_chain_step[OF sqrt8_chain_17, where a = 8 and b = 1
        and q = "0x40BF00AF4AFCD3A0C66B21F361AE93C9A91DD21F63D191E86466E99A9365895AD"])
     (simp_all only: chain_arith)

lemma sqrt8_chain_19:
  "(8::int) ^ 0x7FFFF mod secp256k1_p
   = 0x84F3FA4DDB83AA0A508594BEBCBBC167A3465FA166A1BA4C3C81B163BE8FD659"
  by (rule secp256k1_chain_step[OF sqrt8_chain_18, where a = 8 and b = 1
        and q = "0xA5E028D9FBD85D5C027B080CC869D1D6433AB1A30C2D0084994EA740E5DE5A41"])
     (simp_all only: chain_arith)

lemma sqrt8_chain_20:
  "(8::int) ^ 0xFFFFF mod secp256k1_p
   = 0x1D24BED9F8CBD373B394B679084A9AA0E5E4FBE70B5B33F0F3FFE2D86453FDFD"
  by (rule secp256k1_chain_step[OF sqrt8_chain_19, where a = 8 and b = 1
        and q = "0x22864152B77555DD3214CB8DC4704BE854A03360107198CAD56201D2E99DB1565"])
     (simp_all only: chain_arith)

lemma sqrt8_chain_21:
  "(8::int) ^ 0x1FFFFF mod secp256k1_p
   = 0x2A5FF1967B3A1ADC2EA509E1CA262AE2FD0FCCD85AA06C84392867E952902600"
  by (rule secp256k1_chain_step[OF sqrt8_chain_20, where a = 8 and b = 1
        and q = "0x1A8AC41CEFA3710FC38FBED917D8D9C4DDDFBB07DE5411BDA2CF984972ABF038"])
     (simp_all only: chain_arith)

lemma sqrt8_chain_22:
  "(8::int) ^ 0x3FFFFF mod secp256k1_p
   = 0x312C77513B95141A233B463BFE2F96882195C6F66377C45A86D8EB4BB0FE6985"
  by (rule secp256k1_chain_step[OF sqrt8_chain_21, where a = 8 and b = 1
        and q = "0x381CF9D490D99341C59D94A4AAA395E1EDABE807B78772DC82F45050A3A3BB75"])
     (simp_all only: chain_arith)

lemma sqrt8_chain_23:
  "(8::int) ^ 0x7FFFFF mod secp256k1_p
   = 0xCD8352839096A94FD3B4DAB40090A781C694F5278A5A98BECA72B54E35944567"
  by (rule secp256k1_chain_step[OF sqrt8_chain_22, where a = 8 and b = 1
        and q = "0x4B906B32A2C160E22AEF0517B7D1EE76649B6510E0B03ECCFE93975AAC57956F"])
     (simp_all only: chain_arith)

lemma sqrt8_chain_24:
  "(8::int) ^ 0xFFFFFF mod secp256k1_p
   = 0xD5FE4887516D5D26EDF5A42345A8E0517D534C0ED8C2C5E81C0F62771D9B1F4C"
  by (rule secp256k1_chain_step[OF sqrt8_chain_23, where a = 8 and b = 1
        and q = "0x527DCAC22167E8CC788A49E9A602B8A5399F0499C3302015961C5CEC43C9FEC84"])
     (simp_all only: chain_arith)

lemma sqrt8_chain_25:
  "(8::int) ^ 0x1FFFFFF mod secp256k1_p
   = 0x84E4D76A6F24C09623E7FC3CF97886B3A48939329FB00C79233E0785B8BEBA59"
  by (rule secp256k1_chain_step[OF sqrt8_chain_24, where a = 8 and b = 1
        and q = "0x597090A29748FBAE106FBF945278CC51A3048160C32CA435E2330DB4811BACB89"])
     (simp_all only: chain_arith)

lemma sqrt8_chain_26:
  "(8::int) ^ 0x3FFFFFF mod secp256k1_p
   = 0x63B17A934D5266141F25993199192CF4DBA4E02C8E4927BDEC7E1C61C0D16A42"
  by (rule secp256k1_chain_step[OF sqrt8_chain_25, where a = 8 and b = 1
        and q = "0x227E655B16BBE980EB51E12340F56583103C700EBFED21108F1605938A55FD79A"])
     (simp_all only: chain_arith)

lemma sqrt8_chain_27:
  "(8::int) ^ 0x7FFFFFF mod secp256k1_p
   = 0x95E6B0B294947A272909C4C578523B00EB635E1E250255B9069E47AFAFF4D1F6"
  by (rule secp256k1_chain_step[OF sqrt8_chain_26, where a = 8 and b = 1
        and q = "0x13695FEC5417B0AC92989D99BB427F8E17EC88BCCA41FB9CBA70AAB6245C82FF6"])
     (simp_all only: chain_arith)

lemma sqrt8_chain_28:
  "(8::int) ^ 0xFFFFFFF mod secp256k1_p
   = 0xCF5C2FB67626B8019D7C2E95F41F95575B50690F53129579E07D0DADEB25F39D"
  by (rule secp256k1_chain_step[OF sqrt8_chain_27, where a = 8 and b = 1
        and q = "0x2BE32CC8EDE6ECEE18676B6C5806963414D8394C96849E317AEB39A03D6DD28ED"])
     (simp_all only: chain_arith)

lemma sqrt8_chain_29:
  "(8::int) ^ 0x1FFFFFFF mod secp256k1_p
   = 0xDB6138DB7AB4CB83703689127AB7D610FD99BCF1022D820552E0A123FD8AEF7D"
  by (rule secp256k1_chain_step[OF sqrt8_chain_28, where a = 8 and b = 1
        and q = "0x53FB1B2DB38E056AA57EFB1A1215B2A3414B93FB763E1BB22D4C08366055BF025"])
     (simp_all only: chain_arith)

lemma sqrt8_chain_30:
  "(8::int) ^ 0x3FFFFFFF mod secp256k1_p
   = 0xE94A030D8B3699282E801C035E47564E260B6623AEF74789CBF1BAF0F9B01E80"
  by (rule secp256k1_chain_step[OF sqrt8_chain_29, where a = 8 and b = 1
        and q = "0x5DFFBE19D3728987B0636EBDB868D0D44A2606B7ABF068D3BCB6BDB0C7CADC8B8"])
     (simp_all only: chain_arith)

lemma sqrt8_chain_31:
  "(8::int) ^ 0x7FFFFFFF mod secp256k1_p
   = 0xA8B05F3CC705C4426DB799B5F8CBCB80C9398CD08E5D6247D266F00DEA4EF2B0"
  by (rule secp256k1_chain_step[OF sqrt8_chain_30, where a = 8 and b = 1
        and q = "0x6A4BE77A35A3982B335B7518542789A048BBD38AB05CF9C639BF88515DA58E3B0"])
     (simp_all only: chain_arith)

lemma sqrt8_chain_32:
  "(8::int) ^ 0xFFFFFFFF mod secp256k1_p
   = 0x8ACC4BE89D1C1217F3007057D62331E2FFA63FDDF620D44B299D65F88F2F77C3"
  by (rule secp256k1_chain_step[OF sqrt8_chain_31, where a = 8 and b = 1
        and q = "0x3793FB416E1BB1D49C378D0235441953C45CC1B07DFF6BF5848D2FE1ECE490353"])
     (simp_all only: chain_arith)

lemma sqrt8_chain_33:
  "(8::int) ^ 0x1FFFFFFFF mod secp256k1_p
   = 0x8B7E8E796C8CEBD768FC7D80DA17F808B1839498C2E581C34B9CAB2348457574"
  by (rule secp256k1_chain_step[OF sqrt8_chain_32, where a = 8 and b = 1
        and q = "0x25A0726FED4F63D51F070370E406B16D766A3E8DCA1FFEB09EF052795BB10D56C"])
     (simp_all only: chain_arith)

lemma sqrt8_chain_34:
  "(8::int) ^ 0x3FFFFFFFF mod secp256k1_p
   = 0xE5E600427207D552A481FAE973F4E4AE291F6E9367B911D950E87FA64619548C"
  by (rule secp256k1_chain_step[OF sqrt8_chain_33, where a = 8 and b = 1
        and q = "0x260156A43559686C1A7753BFAF85AD60B4D5FFAF754A5AE7B6FA3FFEE4292EE4C"])
     (simp_all only: chain_arith)

lemma sqrt8_chain_35:
  "(8::int) ^ 0x7FFFFFFFF mod secp256k1_p
   = 0x6B9B288A19512BD8006A09A4153AB1E33E891669526C3F6EC26C313CA2A7965B"
  by (rule secp256k1_chain_step[OF sqrt8_chain_34, where a = 8 and b = 1
        and q = "0x673AA58DABB37D7C14D28EA62760A04602AC40947CFE3CEE43339FD6064A8E1EB"])
     (simp_all only: chain_arith)

lemma sqrt8_chain_36:
  "(8::int) ^ 0xFFFFFFFFF mod secp256k1_p
   = 0x8EF248F296E7FB6625B477C1DDA434DFF725D5F6985027F6727993D65B22B069"
  by (rule secp256k1_chain_step[OF sqrt8_chain_35, where a = 8 and b = 1
        and q = "0x169D88F6C767FAAD29D06EE2B106D858893DCA8DF62763258938DF2FE9FCE70D1"])
     (simp_all only: chain_arith)

lemma sqrt8_chain_37:
  "(8::int) ^ 0x1FFFFFFFFF mod secp256k1_p
   = 0xBEEEA52879EA8F6ABBBE0DBCE57D2809E3A46D92D5FE2EAC57242BD85C2C325C"
  by (rule secp256k1_chain_step[OF sqrt8_chain_36, where a = 8 and b = 1
        and q = "0x27E8D71D8F6C022061F4769AD330D5848CCE6E4DE712617CFB9DDB0131DBD9594"])
     (simp_all only: chain_arith)

lemma sqrt8_chain_38:
  "(8::int) ^ 0x3FFFFFFFFF mod secp256k1_p
   = 0xCABDA4195457A13C48775346A98C4BB7ABD1B126724A701622222287B9D2D842"
  by (rule secp256k1_chain_step[OF sqrt8_chain_37, where a = 8 and b = 1
        and q = "0x47338DCFCB640849E4AF95D07EF5C8D618DA08C5C8AC5EA475C7E94E46E8E6E22"])
     (simp_all only: chain_arith)

lemma sqrt8_chain_39:
  "(8::int) ^ 0x7FFFFFFFFF mod secp256k1_p
   = 0x7B8FC5AEAE9300AAF30EB9A4130406AB0410942D520130699F618ECA5D9C5EE"
  by (rule secp256k1_chain_step[OF sqrt8_chain_38, where a = 8 and b = 1
        and q = "0x5047E9B9D7D8A534886DD50507FE7F63D1A0A68C57E83819F33B9718E415B7A6E"])
     (simp_all only: chain_arith)

lemma sqrt8_chain_40:
  "(8::int) ^ 0xFFFFFFFFFF mod secp256k1_p
   = 0xF7E6E2EB67253642AB3239410B1F97D53C000B446E399BE6805BA97A3DABF414"
  by (rule secp256k1_chain_step[OF sqrt8_chain_39, where a = 8 and b = 1
        and q = "0x1DD1BC5A26C74D5F8539EE502404CB50E3A6C841EAFB2280D2B9FFCE0FE0BB4"])
     (simp_all only: chain_arith)

lemma sqrt8_chain_41:
  "(8::int) ^ 0x1FFFFFFFFFF mod secp256k1_p
   = 0x7DE583DD3D8F2520B1DE8692034B599DF878AE12E0518E4F4288F51E6425A199"
  by (rule secp256k1_chain_step[OF sqrt8_chain_40, where a = 8 and b = 1
        and q = "0x7807AD0F6495D01330EA6A3BE015807EA6A77090307C78CD97DF743CA5C0BB6C9"])
     (simp_all only: chain_arith)

lemma sqrt8_chain_42:
  "(8::int) ^ 0x3FFFFFFFFFF mod secp256k1_p
   = 0xE4458525C1BF77237C6280BD6B32E01670F54C22CFBB46192E965AE00B6F042D"
  by (rule secp256k1_chain_step[OF sqrt8_chain_41, where a = 8 and b = 1
        and q = "0x1EF4F8459DED0C4719124FE022863E0F4CF1D865FAC28BBDE08B293780E206095"])
     (simp_all only: chain_arith)

lemma sqrt8_chain_43:
  "(8::int) ^ 0x7FFFFFFFFFF mod secp256k1_p
   = 0x48293FA08A186F4B4A07E8BFB06328FF159D8E0C6348A36AAA52D15BF2F6DF67"
  by (rule secp256k1_chain_step[OF sqrt8_chain_42, where a = 8 and b = 1
        and q = "0x65C5F406265BDF27FA3B0960CD9F4A309418BBC9DD3BCF8BFAA0F2BE992BED0EF"])
     (simp_all only: chain_arith)

lemma sqrt8_chain_44:
  "(8::int) ^ 0xFFFFFFFFFFF mod secp256k1_p
   = 0x9D8CD26F58C033C530EF4DB3A56D09EE8EA0FDA2805726F91BFA77E64F240D0D"
  by (rule secp256k1_chain_step[OF sqrt8_chain_43, where a = 8 and b = 1
        and q = "0xA2B9D37DF75318977C9582984B02C00C3FDC05E39C33765CD288BF8C79320375"])
     (simp_all only: chain_arith)

lemma sqrt8_chain_45:
  "(8::int) ^ 0x1FFFFFFFFFFF mod secp256k1_p
   = 0x9BDE0C4989934B12A299CE1B17E58297974CE50881494997A40DB833B99EF"
  by (rule secp256k1_chain_step[OF sqrt8_chain_44, where a = 8 and b = 1
        and q = "0x307B03C9B4CFD7E0F40A141CD2257032C9442BD684CD0EAC51B1D5087B87376F7"])
     (simp_all only: chain_arith)

lemma sqrt8_chain_46:
  "(8::int) ^ 0x3FFFFFFFFFFF mod secp256k1_p
   = 0x2AB98F1FF2C2909AE7D52144266CB92A3EA2836368402B78442E8E2899381502"
  by (rule secp256k1_chain_step[OF sqrt8_chain_45, where a = 8 and b = 1
        and q = "0x2F7351BD2E5CF9322A18E6A756355DE025D097E2B20325C6DA82158ACDA"])
     (simp_all only: chain_arith)

lemma sqrt8_chain_47:
  "(8::int) ^ 0x7FFFFFFFFFFF mod secp256k1_p
   = 0x8A6D75FCE40C286482A7E53B7C276E931110779CAF4CE95DCC171A5C60EAA7F3"
  by (rule secp256k1_chain_step[OF sqrt8_chain_46, where a = 8 and b = 1
        and q = "0x390B4BB53ECB4ECF16AC15E86542DE5844459E0D454F158A8FF966B5CB3F2E63"])
     (simp_all only: chain_arith)

lemma sqrt8_chain_48:
  "(8::int) ^ 0xFFFFFFFFFFFF mod secp256k1_p
   = 0xDAB6AB676408D17A6ABA3EDC0E83BFD2FE4F3784601CB73085965F4899887A00"
  by (rule secp256k1_chain_step[OF sqrt8_chain_47, where a = 8 and b = 1
        and q = "0x256D19012ACC3815D13AA9F9708E64DEB846747C2F57D829599F81EF880A0EF38"])
     (simp_all only: chain_arith)

lemma sqrt8_chain_49:
  "(8::int) ^ 0x1FFFFFFFFFFFF mod secp256k1_p
   = 0x891DB8FDA8698E0CF84C36FE24C9FC76C358848F7EEF05CF9AA0753F7CE4F62B"
  by (rule secp256k1_chain_step[OF sqrt8_chain_48, where a = 8 and b = 1
        and q = "0x5D6DCF2220124559E2EEF97620F37006D19348E723D9DE73D69EBFA8681E1053B"])
     (simp_all only: chain_arith)

lemma sqrt8_chain_50:
  "(8::int) ^ 0x3FFFFFFFFFFFF mod secp256k1_p
   = 0xF48C4613E640879F12B8ACE78D999655DD936D0B2C13226356306D4B11A007AE"
  by (rule secp256k1_chain_step[OF sqrt8_chain_49, where a = 8 and b = 1
        and q = "0x24B869B976B35FB10E28FA53D500540069F16F354A5A0EE7EB4E142478369E706"])
     (simp_all only: chain_arith)

lemma sqrt8_chain_51:
  "(8::int) ^ 0x7FFFFFFFFFFFF mod secp256k1_p
   = 0x67F60586F2C8F6E27553B6ACBBEB2079CC8B8250BA6CDD1C403BC88DC2750A18"
  by (rule secp256k1_chain_step[OF sqrt8_chain_50, where a = 8 and b = 1
        and q = "0x74CDD93953EEDE496C41D3B31B1726FE5753753C7DDC8BF15BCF134FB05860E78"])
     (simp_all only: chain_arith)

lemma sqrt8_chain_52:
  "(8::int) ^ 0xFFFFFFFFFFFFF mod secp256k1_p
   = 0x8C0B7842FD3C9671E0DB64EE29D89E6C484DD346FAB77771A32951283C2EA213"
  by (rule secp256k1_chain_step[OF sqrt8_chain_51, where a = 8 and b = 1
        and q = "0x151BF2709B6B6EC1CFF55C0880DBF9164BF735E0C5828AAE2FFC6767502FD82A3"])
     (simp_all only: chain_arith)

lemma sqrt8_chain_53:
  "(8::int) ^ 0x1FFFFFFFFFFFFF mod secp256k1_p
   = 0xC88F17370866B5C087AEEE4607CCF7295DEE129FDFD10B727D2DEFE6877BC8D6"
  by (rule secp256k1_chain_step[OF sqrt8_chain_52, where a = 8 and b = 1
        and q = "0x264E4606699D7358EB41373C5F1C453612359800DECAE34AE78DAD98367014E2E"])
     (simp_all only: chain_arith)

lemma sqrt8_chain_54:
  "(8::int) ^ 0x3FFFFFFFFFFFFF mod secp256k1_p
   = 0x6873388948A4CD69DD01786384EAEE10181B3BCC1C960EA8295A764B99E49FA4"
  by (rule secp256k1_chain_step[OF sqrt8_chain_53, where a = 8 and b = 1
        and q = "0x4E8FF220775B6709791517B45CAC67CF2E7FFEB5BA79B88763B420CFC6F64F544"])
     (simp_all only: chain_arith)

lemma sqrt8_chain_55:
  "(8::int) ^ 0x7FFFFFFFFFFFFF mod secp256k1_p
   = 0x6102726F55332F20BFC758B5BF64E13BE58109C5AB7540F621B2E888D9D68CB8"
  by (rule secp256k1_chain_step[OF sqrt8_chain_54, where a = 8 and b = 1
        and q = "0x154EE8E5B16CC22EBFC68562CB36B33FD05DE10F507C24196A8737654A96DE6B8"])
     (simp_all only: chain_arith)

lemma sqrt8_chain_56:
  "(8::int) ^ 0xFFFFFFFFFFFFFF mod secp256k1_p
   = 0x25FA1F35B24FE5E4A550360FFAA1899BF927D3E7457A28B5D6513DC0AF13F5E2"
  by (rule secp256k1_chain_step[OF sqrt8_chain_55, where a = 8 and b = 1
        and q = "0x12616D5F2DBABB6811479089436B08A33C43A26C455B84EFD5C7C91C67CE55842"])
     (simp_all only: chain_arith)

lemma sqrt8_chain_57:
  "(8::int) ^ 0x1FFFFFFFFFFFFFF mod secp256k1_p
   = 0xC646DBD6C6FB15317C99A50EE9966FEF5894216C99E7C612BC0B7C8C3BA50200"
  by (rule secp256k1_chain_step[OF sqrt8_chain_56, where a = 8 and b = 1
        and q = "0x2D120B33F1CB479E2A8EAD0DEB572A05CCECD5A9E60DA6F36FBEA0F4F6909FE0"])
     (simp_all only: chain_arith)

lemma sqrt8_chain_58:
  "(8::int) ^ 0x3FFFFFFFFFFFFFF mod secp256k1_p
   = 0x2A6676467B019C32E5BC8784B6C8001CA36C6ED7F56393B854B1597A6FFD9B2E"
  by (rule secp256k1_chain_step[OF sqrt8_chain_57, where a = 8 and b = 1
        and q = "0x4CC8D7D69905315D8040A227D2268A502006E95B6694414D70430BD66D43139CE"])
     (simp_all only: chain_arith)

lemma sqrt8_chain_59:
  "(8::int) ^ 0x7FFFFFFFFFFFFFF mod secp256k1_p
   = 0x56135C3F1DA345BE10124207E9D1BA6AE07E50746DD47D165DFDEF2C5948DB8"
  by (rule secp256k1_chain_step[OF sqrt8_chain_58, where a = 8 and b = 1
        and q = "0x382E3E8CB95CCAB13F5E9373D1D62265CC9B354F9A4EDB1F4C7E9CBE24ED5018"])
     (simp_all only: chain_arith)

lemma sqrt8_chain_60:
  "(8::int) ^ 0xFFFFFFFFFFFFFFF mod secp256k1_p
   = 0x28B78B2D15404B286ECF9AE13B3745EF8A25ACDCDE3414FCFBC0B5FA8B6872FD"
  by (rule secp256k1_chain_step[OF sqrt8_chain_59, where a = 8 and b = 1
        and q = "0xE7881B89D42C2FA8076FE0D8CB2352871554CB5C39B2D166F9C403EEE3616D"])
     (simp_all only: chain_arith)

lemma sqrt8_chain_61:
  "(8::int) ^ 0x1FFFFFFFFFFFFFFF mod secp256k1_p
   = 0x1EC3F4726993132A8C101B698D7FEDAFA18A6A47B1732402E91BBE3631302D1F"
  by (rule secp256k1_chain_step[OF sqrt8_chain_60, where a = 8 and b = 1
        and q = "0x33CEF8B2E613B3631359F1E4213937244780DE218D887EE2041632BA503CA827"])
     (simp_all only: chain_arith)

lemma sqrt8_chain_62:
  "(8::int) ^ 0x3FFFFFFFFFFFFFFF mod secp256k1_p
   = 0x25F2F1077BDB03ADBDB2F6FBC5DE9E0F597A9E8FF6177D3F65E988DA0018373F"
  by (rule secp256k1_chain_step[OF sqrt8_chain_61, where a = 8 and b = 1
        and q = "0x1D941A4903ACD77DD5AA708EEE14A97EEDD6054E4866785D4A464714F5600687"])
     (simp_all only: chain_arith)

lemma sqrt8_chain_63:
  "(8::int) ^ 0x7FFFFFFFFFFFFFFF mod secp256k1_p
   = 0xD4A34EE74C879570D8E8B999246B4D5A6A0F3DAC4E90D1EE71D98B037FBD7B8A"
  by (rule secp256k1_chain_step[OF sqrt8_chain_62, where a = 8 and b = 1
        and q = "0x2D0101C5F714846C611F2A9A7CF0864F0E70A3B91FBB3D914AF8170E001141E2"])
     (simp_all only: chain_arith)

lemma sqrt8_chain_64:
  "(8::int) ^ 0xFFFFFFFFFFFFFFFF mod secp256k1_p
   = 0x5B1506F9828DC91B0021F4207E1266A33283A343E910948C4BDB2878C6C54131"
  by (rule secp256k1_chain_step[OF sqrt8_chain_63, where a = 8 and b = 1
        and q = "0x584F716E54CEE3E483CB75109BBCEF9BBB18AACE003DE9BE4D8B242F319373641"])
     (simp_all only: chain_arith)

lemma sqrt8_chain_65:
  "(8::int) ^ 0x1FFFFFFFFFFFFFFFF mod secp256k1_p
   = 0x52D9D222916521A089BF5A402996CA9AFFEF8565670D04EE7B01E2BC3D59140A"
  by (rule secp256k1_chain_step[OF sqrt8_chain_64, where a = 8 and b = 1
        and q = "0x1033FA57C3F86EC5082C7937C9281DC09ED2A4AC52F0438FE11E2D0457CA3D362"])
     (simp_all only: chain_arith)

lemma sqrt8_chain_66:
  "(8::int) ^ 0x3FFFFFFFFFFFFFFFF mod secp256k1_p
   = 0xEA446F893E856E9D9AEAB803C333A6BB6FA93CE241C3D0FA9618DBAB32BA06A4"
  by (rule secp256k1_chain_step[OF sqrt8_chain_65, where a = 8 and b = 1
        and q = "0xD6821FA081E01195B82127305B94B0F75C066D16BB6FC215E82BB125DF648044"])
     (simp_all only: chain_arith)

lemma sqrt8_chain_67:
  "(8::int) ^ 0x7FFFFFFFFFFFFFFFF mod secp256k1_p
   = 0x2A9FB75CB40979E2CB3AEDA806118CEE3B70664D72729391CCDE3A557A8EDC8B"
  by (rule secp256k1_chain_step[OF sqrt8_chain_66, where a = 8 and b = 1
        and q = "0x6B3097192BE6B9734978AEA03A1F695D88E8DD06C4EC2312A5F4A3ED7FD0F1D1B"])
     (simp_all only: chain_arith)

lemma sqrt8_chain_68:
  "(8::int) ^ 0xFFFFFFFFFFFFFFFFF mod secp256k1_p
   = 0xC531B7F202B2245B67087661114AA456C9FD4BAC49AC9C42007CB31720025CB7"
  by (rule secp256k1_chain_step[OF sqrt8_chain_67, where a = 8 and b = 1
        and q = "0x38C65E7D9C8355DA20B7B3FB24DD56F6BF655D894DEB4CC54C6828DE528968BF"])
     (simp_all only: chain_arith)

lemma sqrt8_chain_69:
  "(8::int) ^ 0x1FFFFFFFFFFFFFFFFF mod secp256k1_p
   = 0x60A58B151B7466A28C15A748535F8042EBC91C5B638FE1D6FD0444B4A3F8F462"
  by (rule secp256k1_chain_step[OF sqrt8_chain_68, where a = 8 and b = 1
        and q = "0x4BF2C761337B8C65302F9309CE72AA7C691A370986230E9BA186A56A0B44658BA"])
     (simp_all only: chain_arith)

lemma sqrt8_chain_70:
  "(8::int) ^ 0x3FFFFFFFFFFFFFFFFF mod secp256k1_p
   = 0x87FA5D24CA9542CF18E44019A0829CFF305F2B3607073A3D72826CE5EB7D0A59"
  by (rule secp256k1_chain_step[OF sqrt8_chain_69, where a = 8 and b = 1
        and q = "0x123E49AE34AE4F4A110BF75EEB7D44BA4F469DF5100BBDFA37E42B163D5E5D5E9"])
     (simp_all only: chain_arith)

lemma sqrt8_chain_71:
  "(8::int) ^ 0x7FFFFFFFFFFFFFFFFF mod secp256k1_p
   = 0x11663637436DF7C26F4B78DAE22BE9B7BE885660237DA4B6EF1445BB1015108E"
  by (rule secp256k1_chain_step[OF sqrt8_chain_70, where a = 8 and b = 1
        and q = "0x241D018B6DB46C3B7AC940195CF342DEEAFBECF3C93AF9AE18C9ACF69E8AF6826"])
     (simp_all only: chain_arith)

lemma sqrt8_chain_72:
  "(8::int) ^ 0xFFFFFFFFFFFFFFFFFF mod secp256k1_p
   = 0xFEE1D74867C1BD69C7D6271BE1048DAC0FCBAED4598CBA0F99923A57F5722E8F"
  by (rule secp256k1_chain_step[OF sqrt8_chain_71, where a = 8 and b = 1
        and q = "0x975E014B3CD974D8A0F8CEDDBEB1BC2CFAC635C8C5CBAB7DAFA96A83C0E483F"])
     (simp_all only: chain_arith)

lemma sqrt8_chain_73:
  "(8::int) ^ 0x1FFFFFFFFFFFFFFFFFF mod secp256k1_p
   = 0x9AA19E68A39D9F925A579102544AEC6F495D3CF87B175EE3B0CFBFD64D22A6A6"
  by (rule secp256k1_chain_step[OF sqrt8_chain_72, where a = 8 and b = 1
        and q = "0x7EE27737E81AC49767D6F7203A1033F6EB6BBE1BEB583C16F8BA4C37B97E02B3E"])
     (simp_all only: chain_arith)

lemma sqrt8_chain_74:
  "(8::int) ^ 0x3FFFFFFFFFFFFFFFFFF mod secp256k1_p
   = 0xE53825A91A66826B7CA2935BEE14CBA1764A63CE2D2B7A0B4D69F6C28C58EBCC"
  by (rule secp256k1_chain_step[OF sqrt8_chain_73, where a = 8 and b = 1
        and q = "0x2EB36C4F433E627D5A31B2A51641274C83875AEF65DCBA120E6AF0AF6D8FFAAEC"])
     (simp_all only: chain_arith)

lemma sqrt8_chain_75:
  "(8::int) ^ 0x7FFFFFFFFFFFFFFFFFF mod secp256k1_p
   = 0x98B8CE9C2298952203F318E565B1E70D34B294ECE62E4C3E7720DFB10D304982"
  by (rule secp256k1_chain_step[OF sqrt8_chain_74, where a = 8 and b = 1
        and q = "0x669EBFD88460A1C16DE2D11F4169176679396187A76455A96813134AAF8804F62"])
     (simp_all only: chain_arith)

lemma sqrt8_chain_76:
  "(8::int) ^ 0xFFFFFFFFFFFFFFFFFFF mod secp256k1_p
   = 0x5367AF74CE5A3DF9B1410C1653799925DF9C2D35DCDA8743D112DAFB80089FBB"
  by (rule secp256k1_chain_step[OF sqrt8_chain_75, where a = 8 and b = 1
        and q = "0x2D8DFD61882349AB421DDEB15B976CE14CA1F6EB54B33741EFF950681993473AB"])
     (simp_all only: chain_arith)

lemma sqrt8_chain_77:
  "(8::int) ^ 0x1FFFFFFFFFFFFFFFFFFF mod secp256k1_p
   = 0x6C1A193A2FAB5DF2FE008D886FF3132973A6314758662D17E4EB78777DD23EE6"
  by (rule secp256k1_chain_step[OF sqrt8_chain_76, where a = 8 and b = 1
        and q = "0xD9632E23306BC1C685ADB2DA0B3E15BB50FAABA3AA29B36D059EA1AF0841C5BE"])
     (simp_all only: chain_arith)

lemma sqrt8_chain_78:
  "(8::int) ^ 0x3FFFFFFFFFFFFFFFFFFF mod secp256k1_p
   = 0x4B0AAB3A32B7AC4CFC6B05A74D615A57ADDE2E42EB82C89D7B08AEAE76FE1D72"
  by (rule secp256k1_chain_step[OF sqrt8_chain_77, where a = 8 and b = 1
        and q = "0x16D303F91D43584E9B463B3A78374C90ED948F4F99DE1D7BF55BB2EA36762F1B2"])
     (simp_all only: chain_arith)

lemma sqrt8_chain_79:
  "(8::int) ^ 0x7FFFFFFFFFFFFFFFFFFF mod secp256k1_p
   = 0x2BCA4A122BD634F8E8D6D530F5BF3F6C84538AE42E138562C2A8B9778E3CDBA2"
  by (rule secp256k1_chain_step[OF sqrt8_chain_78, where a = 8 and b = 1
        and q = "0xAFFA062F66531257BAFCE6DD78BB0A3D27CC510DA3F43DDB87977D4BEA5197E2"])
     (simp_all only: chain_arith)

lemma sqrt8_chain_80:
  "(8::int) ^ 0xFFFFFFFFFFFFFFFFFFFF mod secp256k1_p
   = 0xAD3BC3B99226372FF260BA0892C3BA4D284B5BBAA4AAD5E48A9A939129578A5"
  by (rule secp256k1_chain_step[OF sqrt8_chain_79, where a = 8 and b = 1
        and q = "0x3BECA5D8A6AD33C9FA450A6074DEEBCE3265859774F7ED75665E0EB82E544675"])
     (simp_all only: chain_arith)

lemma sqrt8_chain_81:
  "(8::int) ^ 0x1FFFFFFFFFFFFFFFFFFFF mod secp256k1_p
   = 0x910818851D010F1A68C70C210A091F1780AD66E7563B48AEE2E079A20ADD916D"
  by (rule secp256k1_chain_step[OF sqrt8_chain_80, where a = 8 and b = 1
        and q = "0x3A9CEA3E4E5A9FAF82376F9C100F0603F5CE88599390E2D6467304CDCA9A695"])
     (simp_all only: chain_arith)

lemma sqrt8_chain_82:
  "(8::int) ^ 0x3FFFFFFFFFFFFFFFFFFFF mod secp256k1_p
   = 0x638904B8E2CC7AEC88870B8097FA614C784C138E722EC7CA320DB5182E5CBBE7"
  by (rule secp256k1_chain_step[OF sqrt8_chain_81, where a = 8 and b = 1
        and q = "0x291516042AC31EEA1AC7F558BDAEE3A787E7FFCA0B452AE07645631630C42016F"])
     (simp_all only: chain_arith)

lemma sqrt8_chain_83:
  "(8::int) ^ 0x7FFFFFFFFFFFFFFFFFFFF mod secp256k1_p
   = 0x304B79508C8AD3CEE236C40A132A2C007B8C3FC18D293E0E29FE4150828E6678"
  by (rule secp256k1_chain_step[OF sqrt8_chain_82, where a = 8 and b = 1
        and q = "0x1359A17E86B19945DABC2C0B025C9986D6F2D73D8E81F3BB42CA7F9C655534FF0"])
     (simp_all only: chain_arith)

lemma sqrt8_chain_84:
  "(8::int) ^ 0xFFFFFFFFFFFFFFFFFFFFF mod secp256k1_p
   = 0x6DE2CE5E86222550179FFEB286F8259F774B8F2801B77B3000063166499B3149"
  by (rule secp256k1_chain_step[OF sqrt8_chain_83, where a = 8 and b = 1
        and q = "0x48E31DF41B1D37C881995D98F2CC896A6CA4A36924496396B68267E1EA6869F9"])
     (simp_all only: chain_arith)

lemma sqrt8_chain_85:
  "(8::int) ^ 0x1FFFFFFFFFFFFFFFFFFFFF mod secp256k1_p
   = 0x41CB309C1B0907B2AD242DE66D452E36EEFECC84BC6879B02AE54C24FDAC0DB1"
  by (rule secp256k1_chain_step[OF sqrt8_chain_84, where a = 8 and b = 1
        and q = "0x17957656C1BD156AE87802EB2C7EFFC22338E708C14E1836819BECBD240C4ABD9"])
     (simp_all only: chain_arith)

lemma sqrt8_chain_86:
  "(8::int) ^ 0x3FFFFFFFFFFFFFFFFFFFFF mod secp256k1_p
   = 0xAED7BD88CB42E5C0017FC8FD0B66732B4A552683474E8BD140F19E8D91CE836D"
  by (rule secp256k1_chain_step[OF sqrt8_chain_85, where a = 8 and b = 1
        and q = "0x87467FAB3442FC7A50520A8CFC6EBB2ACA6FC59C492E2160131DCEFFD7CADC55"])
     (simp_all only: chain_arith)

lemma sqrt8_chain_87:
  "(8::int) ^ 0x7FFFFFFFFFFFFFFFFFFFFF mod secp256k1_p
   = 0x2121007FE236466DFD3D1535FA6320A3F37FDF23F6FCBCDE428E9A990CDD303F"
  by (rule secp256k1_chain_step[OF sqrt8_chain_86, where a = 8 and b = 1
        and q = "0x3BB4FDBAEE33CFF4252080F6D1530DD5BF3ED8F6A5D4AD1494C859DDAC8B7DE47"])
     (simp_all only: chain_arith)

lemma sqrt8_chain_88:
  "(8::int) ^ 0xFFFFFFFFFFFFFFFFFFFFFF mod secp256k1_p
   = 0xD34D5559D898B06484BCD8A5E058544B57A172E301002E2793416FDFE45F7BF6"
  by (rule secp256k1_chain_step[OF sqrt8_chain_87, where a = 8 and b = 1
        and q = "0x224C3310CA548045EB1651A50FD163F3331140170C8AC3ABE103372DCE34428E"])
     (simp_all only: chain_arith)

lemma sqrt8_chain_89:
  "(8::int) ^ 0x1FFFFFFFFFFFFFFFFFFFFFF mod secp256k1_p
   = 0xFB7E4C845EBF856F5E35039C546162342A7178701ACC719500878B76F023D547"
  by (rule secp256k1_chain_step[OF sqrt8_chain_88, where a = 8 and b = 1
        and q = "0x5734490747C663FEC2EB48C083D7031E2F7DCB81B2AC352EA535F340D5E35CC77"])
     (simp_all only: chain_arith)

lemma sqrt8_chain_90:
  "(8::int) ^ 0x3FFFFFFFFFFFFFFFFFFFFFF mod secp256k1_p
   = 0xF0708C9BCEC45C646BE53D9186698B08832AC296602EBC1A2AC2058B0C841BC4"
  by (rule secp256k1_chain_step[OF sqrt8_chain_89, where a = 8 and b = 1
        and q = "0x7B88742D7D7BD871A614D0A9738A7DEBF479409604D6C83DFC076AF5BBF87657C"])
     (simp_all only: chain_arith)

lemma sqrt8_chain_91:
  "(8::int) ^ 0x7FFFFFFFFFFFFFFFFFFFFFF mod secp256k1_p
   = 0xA9AA021196F11325201E81684D0F2C6B9B72C80A0FAED52930B96E16EA9D1F0B"
  by (rule secp256k1_chain_step[OF sqrt8_chain_90, where a = 8 and b = 1
        and q = "0x70E99C8FBC9FF103F8014779AB86DAA9C49E363A1248D6230E7E69F32F7D02F9B"])
     (simp_all only: chain_arith)

lemma sqrt8_chain_92:
  "(8::int) ^ 0xFFFFFFFFFFFFFFFFFFFFFFF mod secp256k1_p
   = 0x6E5E58802FF78ADE929E42D929E4F65B57057037AEE1EB4110EC368095D196A5"
  by (rule secp256k1_chain_step[OF sqrt8_chain_91, where a = 8 and b = 1
        and q = "0x3838F3D0FC558582CD83BA2170A7F98C1FCD7DBD29A84360011402595C6598D4D"])
     (simp_all only: chain_arith)

lemma sqrt8_chain_93:
  "(8::int) ^ 0x1FFFFFFFFFFFFFFFFFFFFFFF mod secp256k1_p
   = 0xC48F84261DC6D102831EF7FD4E4B037967A7BF6AE137769FD1471CFB2F6880BA"
  by (rule secp256k1_chain_step[OF sqrt8_chain_92, where a = 8 and b = 1
        and q = "0x17CA9B69A2FA2B25B8BA32B3112EB7AC5994CEE3DFFF28B0870F004B124F60552"])
     (simp_all only: chain_arith)

lemma sqrt8_chain_94:
  "(8::int) ^ 0x3FFFFFFFFFFFFFFFFFFFFFFF mod secp256k1_p
   = 0xDB63048465C52CD9BDE3909473FFBBAB60E8889BCD405017E776CFFFBDD2BD6"
  by (rule secp256k1_chain_step[OF sqrt8_chain_93, where a = 8 and b = 1
        and q = "0x4B760967A23284459DCE99072B060FA3212B97CF14A90F3966640B3C5894422D6"])
     (simp_all only: chain_arith)

lemma sqrt8_chain_95:
  "(8::int) ^ 0x7FFFFFFFFFFFFFFFFFFFFFFF mod secp256k1_p
   = 0xE1D426C712089EBDCDCF75F9E008EB20FCB837B7885519C2B086DE0851654C51"
  by (rule secp256k1_chain_step[OF sqrt8_chain_94, where a = 8 and b = 1
        and q = "0x5E014803824D3C72403F398E4FA53132AB25FA2A7D1E734DEA5419EF90CB361"])
     (simp_all only: chain_arith)

lemma sqrt8_chain_96:
  "(8::int) ^ 0xFFFFFFFFFFFFFFFFFFFFFFFF mod secp256k1_p
   = 0x35B9ACFC53B4F4478F45D061531DA5F12FF0C7E7857D13649E78A1C303854DE4"
  by (rule secp256k1_chain_step[OF sqrt8_chain_95, where a = 8 and b = 1
        and q = "0x639B4DFD16A45CBC13F7F3E4983B9AB34089C5C6E96B85DC6247BE8B236A1761C"])
     (simp_all only: chain_arith)

lemma sqrt8_chain_97:
  "(8::int) ^ 0x1FFFFFFFFFFFFFFFFFFFFFFFF mod secp256k1_p
   = 0x77DB7DF935737AF1D2DD2E00C0D8F6C580BC696D20196611486C7E75C6AEAF71"
  by (rule secp256k1_chain_step[OF sqrt8_chain_96, where a = 8 and b = 1
        and q = "0x5A33425FA1EF8EF604FF373179555A2985808CBE8427C68486517478B4C04921"])
     (simp_all only: chain_arith)

lemma sqrt8_chain_98:
  "(8::int) ^ 0x3FFFFFFFFFFFFFFFFFFFFFFFF mod secp256k1_p
   = 0x10E2814CE38F78407705689BEFBFA6A177A49357F444865ACC2A4C77DE98B347"
  by (rule secp256k1_chain_step[OF sqrt8_chain_97, where a = 8 and b = 1
        and q = "0x1C0EE5A73B0810567BD35F44B5B125CD00933299AA37F61E395B4CA0665E10B0F"])
     (simp_all only: chain_arith)

lemma sqrt8_chain_99:
  "(8::int) ^ 0x7FFFFFFFFFFFFFFFFFFFFFFFF mod secp256k1_p
   = 0xF4E98E57E09FDFD01F132A5260271805F62C4238D3ED2FA1FFAF6FE8AAA2F817"
  by (rule secp256k1_chain_step[OF sqrt8_chain_98, where a = 8 and b = 1
        and q = "0x8E8C4914C126636FAD784219C1CB660CA2DD952A306736F3AAD33C8469CA05F"])
     (simp_all only: chain_arith)

lemma sqrt8_chain_100:
  "(8::int) ^ 0xFFFFFFFFFFFFFFFFFFFFFFFFF mod secp256k1_p
   = 0x9B1081D7DEA9F01CDB2078783844CFBB46DA2C29BDADABCE8785C7318AB6C499"
  by (rule secp256k1_chain_step[OF sqrt8_chain_99, where a = 8 and b = 1
        and q = "0x75270635F7A6A082F911238138E60B69394A9ACE9789C0B28E526B96B91187C41"])
     (simp_all only: chain_arith)

lemma sqrt8_chain_101:
  "(8::int) ^ 0x1FFFFFFFFFFFFFFFFFFFFFFFFF mod secp256k1_p
   = 0x9F5538CB736A6083475E75EEBFADC2DA3D6C8F8B53531424C889A6E2551C15F"
  by (rule secp256k1_chain_step[OF sqrt8_chain_100, where a = 8 and b = 1
        and q = "0x2EF67F25F23C7137FE072440303CCF5BDC8157F2B1CBC1A911895C7A1FAE44127"])
     (simp_all only: chain_arith)

lemma sqrt8_chain_102:
  "(8::int) ^ 0x3FFFFFFFFFFFFFFFFFFFFFFFFF mod secp256k1_p
   = 0x78F3F261B6659F5A2487BEC2EE9710A000A5438254DF98E1222F162761CE21A7"
  by (rule secp256k1_chain_step[OF sqrt8_chain_101, where a = 8 and b = 1
        and q = "0x31957C75BE89365AF965FCC7B4A2A77AD07F245C3D6EF1B9EB148D5F54E706F"])
     (simp_all only: chain_arith)

lemma sqrt8_chain_103:
  "(8::int) ^ 0x7FFFFFFFFFFFFFFFFFFFFFFFFF mod secp256k1_p
   = 0x8CEE2E2B6AB51C42392DC429C2ACBDD7A81FFAFBBFDC8B954C4C72E6F257FACC"
  by (rule secp256k1_chain_step[OF sqrt8_chain_102, where a = 8 and b = 1
        and q = "0x1C92CDD8D2FE363A71CF396B42C44E52FF7986B4726027A9F738F28A48CBBD404"])
     (simp_all only: chain_arith)

lemma sqrt8_chain_104:
  "(8::int) ^ 0xFFFFFFFFFFFFFFFFFFFFFFFFFF mod secp256k1_p
   = 0x927288AB14814F85CFD5D8EC30225943D00C03B3E3150571B513AFC93C275E72"
  by (rule secp256k1_chain_step[OF sqrt8_chain_103, where a = 8 and b = 1
        and q = "0x26CAB00CAEE210AF8A9312FCF1478FCFED5671FD2CACAFBE6B298D39C1BDDC152"])
     (simp_all only: chain_arith)

lemma sqrt8_chain_105:
  "(8::int) ^ 0x1FFFFFFFFFFFFFFFFFFFFFFFFFF mod secp256k1_p
   = 0x889DF78B89FBA88122103A90E868EB6D5B1C681D0418C2B542F976FA999A7344"
  by (rule secp256k1_chain_step[OF sqrt8_chain_104, where a = 8 and b = 1
        and q = "0x29E36B90925BFCFE9F8FF29BCEBAC35B62666FD8CDC3C25D50C42FCECF74D07E4"])
     (simp_all only: chain_arith)

lemma sqrt8_chain_106:
  "(8::int) ^ 0x3FFFFFFFFFFFFFFFFFFFFFFFFFF mod secp256k1_p
   = 0xDCED6FA667161733B54D06DD364092ED4FC5F5A5ADE2E0AF9CC31E4F0573F17A"
  by (rule secp256k1_chain_step[OF sqrt8_chain_105, where a = 8 and b = 1
        and q = "0x24741C3EE990990451B341EB16F3D68331EB17B564D1934A221ED2A3BCFB691DA"])
     (simp_all only: chain_arith)

lemma sqrt8_chain_107:
  "(8::int) ^ 0x7FFFFFFFFFFFFFFFFFFFFFFFFFF mod secp256k1_p
   = 0xA78272227A8A1B6B01F6C6C64D358727C51407FC5AE1F7897C7C3B3F06C071DF"
  by (rule secp256k1_chain_step[OF sqrt8_chain_106, where a = 8 and b = 1
        and q = "0x5F547A0EF5FD482B6BD0E5A338C7D2E785D508E40B3BB4665A42B5271221BAF8F"])
     (simp_all only: chain_arith)

lemma sqrt8_chain_108:
  "(8::int) ^ 0xFFFFFFFFFFFFFFFFFFFFFFFFFFF mod secp256k1_p
   = 0xC6D6F240F3BE8D90B2C8676742F1C5C393767568BC162DEC988DE411D219A139"
  by (rule secp256k1_chain_step[OF sqrt8_chain_107, where a = 8 and b = 1
        and q = "0x36CDB9B08CE3AEE89E803C643C725E65ABDCDC6F95AA8AB655645CFC35CCC9D61"])
     (simp_all only: chain_arith)

lemma sqrt8_chain_109:
  "(8::int) ^ 0x1FFFFFFFFFFFFFFFFFFFFFFFFFFF mod secp256k1_p
   = 0x3744CD57D386E6B70BBE659ECB9D927C4FBE2EEED03017E33009D32B616597ED"
  by (rule secp256k1_chain_step[OF sqrt8_chain_108, where a = 8 and b = 1
        and q = "0x4D38999B3170916FC6BC47FA042FB26AD23A1494E7C820CB5A3864499FE35FE55"])
     (simp_all only: chain_arith)

lemma sqrt8_chain_110:
  "(8::int) ^ 0x3FFFFFFFFFFFFFFFFFFFFFFFFFFF mod secp256k1_p
   = 0xF804ABAD65C3F6A4F4548212BD720A88E7666E1563BB7EC04B66903C1B60E9F6"
  by (rule secp256k1_chain_step[OF sqrt8_chain_109, where a = 8 and b = 1
        and q = "0x5F7515CBC210EDA5D21D6B89B766BC1069F1789C031F257E7901647D5AC7254E"])
     (simp_all only: chain_arith)

lemma sqrt8_chain_111:
  "(8::int) ^ 0x7FFFFFFFFFFFFFFFFFFFFFFFFFFF mod secp256k1_p
   = 0xBB9A1D598D3CAAE69C58F89ABE53DC1C587F2A59D21D52487825418824F27BD4"
  by (rule secp256k1_chain_step[OF sqrt8_chain_110, where a = 8 and b = 1
        and q = "0x7824865AE2DBFBB2E6ADA751AAAC06D0A627A553E5383AA9506744DB739889E74"])
     (simp_all only: chain_arith)

lemma sqrt8_chain_112:
  "(8::int) ^ 0xFFFFFFFFFFFFFFFFFFFFFFFFFFFF mod secp256k1_p
   = 0x54106CB102E0C00B81778FE5A3CD5DCFC321D29A2E4D936C1942AF16FAEC982C"
  by (rule secp256k1_chain_step[OF sqrt8_chain_111, where a = 8 and b = 1
        and q = "0x44BD41D413B8FBFEE3588652506AE71004A60C925F4DB13E1A2078E89115927EC"])
     (simp_all only: chain_arith)

lemma sqrt8_chain_113:
  "(8::int) ^ 0x1FFFFFFFFFFFFFFFFFFFFFFFFFFFF mod secp256k1_p
   = 0xD9CCD52843F2BF9202975109E9DD23E0328228F50AA94DDC077579F93D8EF10C"
  by (rule secp256k1_chain_step[OF sqrt8_chain_112, where a = 8 and b = 1
        and q = "0xDCD6430F714D77915A1196BB595D7987E9801C3F94AAB1AE7F81A3327EEB8ACC"])
     (simp_all only: chain_arith)

lemma sqrt8_chain_114:
  "(8::int) ^ 0x3FFFFFFFFFFFFFFFFFFFFFFFFFFFF mod secp256k1_p
   = 0x6FB08BC97D78742206C4CD81DF66955E683D96C36DA8A9E1215238D85B7481E2"
  by (rule secp256k1_chain_step[OF sqrt8_chain_113, where a = 8 and b = 1
        and q = "0x5CA672A1566CED870CE33A78DF965F95BE39A56BEC432448DFB27BD7E410A89C2"])
     (simp_all only: chain_arith)

lemma sqrt8_chain_115:
  "(8::int) ^ 0x7FFFFFFFFFFFFFFFFFFFFFFFFFFFF mod secp256k1_p
   = 0x96347AA183682B6C77712400CD1B0C92BAE15A280CB2B19C51D973A1543ED111"
  by (rule secp256k1_chain_step[OF sqrt8_chain_114, where a = 8 and b = 1
        and q = "0x185D497C9E17B39621B511D7ECDAA27C8D0EC465A5BCA1BC1B0A93161E5134721"])
     (simp_all only: chain_arith)

lemma sqrt8_chain_116:
  "(8::int) ^ 0xFFFFFFFFFFFFFFFFFFFFFFFFFFFFF mod secp256k1_p
   = 0x1F47EB7B3077DA0C8F4C2EBD7EB23ED9A4FA8003258A68DD218D147A993D0297"
  by (rule secp256k1_chain_step[OF sqrt8_chain_115, where a = 8 and b = 1
        and q = "0x2C10C53BA92CE62D4AF371A0FA85C389F33B83E3BE417A358249A3E83D5C84F5F"])
     (simp_all only: chain_arith)

lemma sqrt8_chain_117:
  "(8::int) ^ 0x1FFFFFFFFFFFFFFFFFFFFFFFFFFFFF mod secp256k1_p
   = 0x6FB5C2B816B0A5FE1A7EA85CB073CC1AF45430A43EAD0F76923F9814F7645CD"
  by (rule secp256k1_chain_step[OF sqrt8_chain_116, where a = 8 and b = 1
        and q = "0x1E93F9E2656A7C6D22BD84E44F9B8E849FF0CD99890031E856B3BF56B0366335"])
     (simp_all only: chain_arith)

lemma sqrt8_chain_118:
  "(8::int) ^ 0x3FFFFFFFFFFFFFFFFFFFFFFFFFFFFF mod secp256k1_p
   = 0xC4E694CCC0CB1B039D9AEDF0043EA38AC3A32192E67393E27177B7739A9815C8"
  by (rule secp256k1_chain_step[OF sqrt8_chain_117, where a = 8 and b = 1
        and q = "0x185F8FF4480C6640B7E8F07A6B74167137576A6BDC8D60319DFD968A4903C80"])
     (simp_all only: chain_arith)

lemma sqrt8_chain_119:
  "(8::int) ^ 0x7FFFFFFFFFFFFFFFFFFFFFFFFFFFFF mod secp256k1_p
   = 0xACA3D7CFFFB8C141F74548D64A25117F05C076D60C5CFFCA63EE4A1B20970A37"
  by (rule secp256k1_chain_step[OF sqrt8_chain_118, where a = 8 and b = 1
        and q = "0x4BB8F1C49ECF68805FFA7A315567312955DA5B5705225C93715032CCF2A399587"])
     (simp_all only: chain_arith)

lemma sqrt8_chain_120:
  "(8::int) ^ 0xFFFFFFFFFFFFFFFFFFFFFFFFFFFFFF mod secp256k1_p
   = 0x90E465B93412F8E7DE6A875F5BEE38A7322A09B14AA8229FC456154BA353B018"
  by (rule secp256k1_chain_step[OF sqrt8_chain_119, where a = 8 and b = 1
        and q = "0x3A36496E043778BF4F8E743B611DFC2B5B3572F5924FA23DDB14ED78825010C90"])
     (simp_all only: chain_arith)

lemma sqrt8_chain_121:
  "(8::int) ^ 0x1FFFFFFFFFFFFFFFFFFFFFFFFFFFFFF mod secp256k1_p
   = 0xCCA96497C9C790B529510F8F607B37B4590D9EF7B1C4F0EA6B4E3BF4172D205D"
  by (rule secp256k1_chain_step[OF sqrt8_chain_120, where a = 8 and b = 1
        and q = "0x2900DF1ADA72E171BED338990984A2AC95E5146DC1E1AE316D5D450252A0200CD"])
     (simp_all only: chain_arith)

lemma sqrt8_chain_122:
  "(8::int) ^ 0x3FFFFFFFFFFFFFFFFFFFFFFFFFFFFFF mod secp256k1_p
   = 0x98AC499E4BF01F21D6F5397739C771331EB6EAA900521685FB3E626710B96EF0"
  by (rule secp256k1_chain_step[OF sqrt8_chain_121, where a = 8 and b = 1
        and q = "0x51CF3433F0C2B3E0AD477C4FF296FB8F8510E051FD29E240804DC2407D16B4828"])
     (simp_all only: chain_arith)

lemma sqrt8_chain_123:
  "(8::int) ^ 0x7FFFFFFFFFFFFFFFFFFFFFFFFFFFFFF mod secp256k1_p
   = 0xFF6299C00065ADDCAF52AB00D19D14ABF59D090565CC37C54F9C6CF1DAFE2CB3"
  by (rule secp256k1_chain_step[OF sqrt8_chain_122, where a = 8 and b = 1
        and q = "0x2D8685AF7E076C6964B52DCC1ABDAD460079948802BD5097C3D787C585AD41543"])
     (simp_all only: chain_arith)

lemma sqrt8_chain_124:
  "(8::int) ^ 0xFFFFFFFFFFFFFFFFFFFFFFFFFFFFFFF mod secp256k1_p
   = 0x1252F46DDE7643E94DF7E0DF21B28F2350A921551761E2D9B1419EA6D5F046A0"
  by (rule secp256k1_chain_step[OF sqrt8_chain_123, where a = 8 and b = 1
        and q = "0x7F62CA234A10F7587249D478806AA0D4869BFE6FE51AD2CB7A1C6B90D8BB0D5D8"])
     (simp_all only: chain_arith)

lemma sqrt8_chain_125:
  "(8::int) ^ 0x1FFFFFFFFFFFFFFFFFFFFFFFFFFFFFFF mod secp256k1_p
   = 0x587C7B60601472581FBC9659A0AE3C15490B71CD4B466EBB8741AD95BB68F3BD"
  by (rule secp256k1_chain_step[OF sqrt8_chain_124, where a = 8 and b = 1
        and q = "0xA7E2A07986624479F45A11D4DFA35C66D84D6A2D12DFFFE295C87E0D688A82D"])
     (simp_all only: chain_arith)

lemma sqrt8_chain_126:
  "(8::int) ^ 0x3FFFFFFFFFFFFFFFFFFFFFFFFFFFFFFF mod secp256k1_p
   = 0x5440B25773F730D907C792140CF444793647B298CD721EAF6D5455D1BC7AEC36"
  by (rule secp256k1_chain_step[OF sqrt8_chain_125, where a = 8 and b = 1
        and q = "0xF4AE8AD017071839A3B170539EDAB46A4A12AEA856ACAD099811123CDE00628E"])
     (simp_all only: chain_arith)

lemma sqrt8_chain_127:
  "(8::int) ^ 0x7FFFFFFFFFFFFFFFFFFFFFFFFFFFFFFF mod secp256k1_p
   = 0x1B487C34E026286EFBA36F115DB085AEC58CAE7EB1D1FF6391F9271871360F5A"
  by (rule secp256k1_chain_step[OF sqrt8_chain_126, where a = 8 and b = 1
        and q = "0xDDD42B18608F765500BF146A6362EFC9993B81C260148A1AE00799B336C5011A"])
     (simp_all only: chain_arith)

lemma sqrt8_chain_128:
  "(8::int) ^ 0xFFFFFFFFFFFFFFFFFFFFFFFFFFFFFFFF mod secp256k1_p
   = 0x2091FEC2051D54E4567F316B474308516FC1DBBA46402CDA9F97C7E437F284FC"
  by (rule secp256k1_chain_step[OF sqrt8_chain_127, where a = 8 and b = 1
        and q = "0x1742F5CA0A4B30779386155789CBB796468F480A807E71298AC9856244D92D1C"])
     (simp_all only: chain_arith)

lemma sqrt8_chain_129:
  "(8::int) ^ 0x1FFFFFFFFFFFFFFFFFFFFFFFFFFFFFFFF mod secp256k1_p
   = 0xD0DCFC11580D9B5DD870B88966671AAC6529BC82365CC4BCD7D9315023A5BD5D"
  by (rule secp256k1_chain_step[OF sqrt8_chain_128, where a = 8 and b = 1
        and q = "0x21269798B4B5AD29AA6DB6AC7B93C98ECCD15BFD7F9B66FF49D0E92EDF99274D"])
     (simp_all only: chain_arith)

lemma sqrt8_chain_130:
  "(8::int) ^ 0x3FFFFFFFFFFFFFFFFFFFFFFFFFFFFFFFF mod secp256k1_p
   = 0x722EB06D96E66F7C918DBD9BA708B9F45F600BFF2F3FCB169E636F0AA22BD73D"
  by (rule secp256k1_chain_step[OF sqrt8_chain_129, where a = 8 and b = 1
        and q = "0x5533EC2F328BCD31917DF6DD63BB689C9FCE65E6C491099E67B1B5F72E5469FE5"])
     (simp_all only: chain_arith)

lemma sqrt8_chain_131:
  "(8::int) ^ 0x7FFFFFFFFFFFFFFFFFFFFFFFFFFFFFFFF mod secp256k1_p
   = 0x11A39135F4E166474529E74088983B79E51D81A17BE1895920C16D1A3B5475EE"
  by (rule secp256k1_chain_step[OF sqrt8_chain_130, where a = 8 and b = 1
        and q = "0x1976CED2BDAF2A40DA6FCF0C0D89185907E78A78BFE2FBD9CEBD2DC42411CFEC6"])
     (simp_all only: chain_arith)

lemma sqrt8_chain_132:
  "(8::int) ^ 0xFFFFFFFFFFFFFFFFFFFFFFFFFFFFFFFFF mod secp256k1_p
   = 0x5826FCB7009FA58AC762418B29C5A97D836592883CD58C39C5299DB00DFF4745"
  by (rule secp256k1_chain_step[OF sqrt8_chain_131, where a = 8 and b = 1
        and q = "0x9B90E5B3CCF8B22DB095ADFBCFAC53A40C00F8BD9B62B4F2B1506DB98651D15"])
     (simp_all only: chain_arith)

lemma sqrt8_chain_133:
  "(8::int) ^ 0x1FFFFFFFFFFFFFFFFFFFFFFFFFFFFFFFFF mod secp256k1_p
   = 0xB4B06246F4EC47E2FF14A1B5BEC5BF3F71AF1745DD3887BB5276C644BB96F133"
  by (rule secp256k1_chain_step[OF sqrt8_chain_132, where a = 8 and b = 1
        and q = "0xF2D69D6E81D5EA06037835E577DEB5A8F3A0E06FBDECA7582CEDECCCC01DA77B"])
     (simp_all only: chain_arith)

lemma sqrt8_chain_134:
  "(8::int) ^ 0x3FFFFFFFFFFFFFFFFFFFFFFFFFFFFFFFFF mod secp256k1_p
   = 0xF480E70234EC23F1E6E1F579DD45ECAF0CB6D1642483E2DD187DC33DFA288854"
  by (rule secp256k1_chain_step[OF sqrt8_chain_133, where a = 8 and b = 1
        and q = "0x3FC441DD87DBB894E8B40F29471CA7AEAA5B6A74241EFEAA48D63DE67D032D54C"])
     (simp_all only: chain_arith)

lemma sqrt8_chain_135:
  "(8::int) ^ 0x7FFFFFFFFFFFFFFFFFFFFFFFFFFFFFFFFF mod secp256k1_p
   = 0x5E77A29E6D345044A8DBC9D20D1FE6995F5E2469205649D5114CB5A52D12B795"
  by (rule secp256k1_chain_step[OF sqrt8_chain_134, where a = 8 and b = 1
        and q = "0x74C2FCA203C606180CC2C262DE86ED313771C09B05FD1B6077916151188254805"])
     (simp_all only: chain_arith)

lemma sqrt8_chain_136:
  "(8::int) ^ 0xFFFFFFFFFFFFFFFFFFFFFFFFFFFFFFFFFF mod secp256k1_p
   = 0x5B3E678885631E5AB2C8D46BF129EA345F8F63370E3634CD5247747D6EEFE912"
  by (rule secp256k1_chain_step[OF sqrt8_chain_135, where a = 8 and b = 1
        and q = "0x116E09AA77646AEB1E4AFB06D540ABFFFB52617EDE0A45D5C33B849E8CEEDF32A"])
     (simp_all only: chain_arith)

lemma sqrt8_chain_137:
  "(8::int) ^ 0x1FFFFFFFFFFFFFFFFFFFFFFFFFFFFFFFFFF mod secp256k1_p
   = 0xC5D3A39EB0B87DD145872296CD06C78BD70D04A5930DD3544BCAAE5413A7208A"
  by (rule secp256k1_chain_step[OF sqrt8_chain_136, where a = 8 and b = 1
        and q = "0x1042B668AF6A1BDD78236038F6C8C0D22E1CEBD5E2B4868858269141F8C3D1C4A"])
     (simp_all only: chain_arith)

lemma sqrt8_chain_138:
  "(8::int) ^ 0x3FFFFFFFFFFFFFFFFFFFFFFFFFFFFFFFFFF mod secp256k1_p
   = 0xE38F80D89528B5ABF42FA8495D267882B9D4014D1CA5A2F81A7831B87206F617"
  by (rule secp256k1_chain_step[OF sqrt8_chain_137, where a = 8 and b = 1
        and q = "0x4C6FB464AE135C9684F64B67EFA07727C1FC6BD0EA12FE91FC2DB831F091F5447"])
     (simp_all only: chain_arith)

lemma sqrt8_chain_139:
  "(8::int) ^ 0x7FFFFFFFFFFFFFFFFFFFFFFFFFFFFFFFFFF mod secp256k1_p
   = 0x29D12B22F4577923B4778F231D2DE07DDAB5CD826781909CD3972A8E38FE898F"
  by (rule secp256k1_chain_step[OF sqrt8_chain_138, where a = 8 and b = 1
        and q = "0x6523E778A5AB1107553720FFA363039DD17880A4C60ED69339AD045B9BA36FD57"])
     (simp_all only: chain_arith)

lemma sqrt8_chain_140:
  "(8::int) ^ 0xFFFFFFFFFFFFFFFFFFFFFFFFFFFFFFFFFFF mod secp256k1_p
   = 0xB5B618505D54676E497DB68935D50D16B29EF79BFBD39872503C01622CB857"
  by (rule secp256k1_chain_step[OF sqrt8_chain_139, where a = 8 and b = 1
        and q = "0x36A555C544DDF3E379FFFFE5810BFD20EEE9C810D2B2EC39F001B24514A7E31F"])
     (simp_all only: chain_arith)

lemma sqrt8_chain_141:
  "(8::int) ^ 0x1FFFFFFFFFFFFFFFFFFFFFFFFFFFFFFFFFFF mod secp256k1_p
   = 0x7D9499441A267B269CDC2996CAEACF24B51F768BB42E87F8B46ACE26A8BA3BF4"
  by (rule secp256k1_chain_step[OF sqrt8_chain_140, where a = 8 and b = 1
        and q = "0x407D7FF41C469C7FA77402469EC98F8816D1C51E71687C1B05021EC450FAC"])
     (simp_all only: chain_arith)

lemma sqrt8_chain_142:
  "(8::int) ^ 0x3FFFFFFFFFFFFFFFFFFFFFFFFFFFFFFFFFFF mod secp256k1_p
   = 0x353AF2936F4A1706D9BF7C691F9758DF1862081D2EB0F17C00EB9752E5E87495"
  by (rule secp256k1_chain_step[OF sqrt8_chain_141, where a = 8 and b = 1
        and q = "0x1ECD39F70A0525110012E4FE3CE0D767A78B28DBB8CBA132B4432E4049257CD05"])
     (simp_all only: chain_arith)

lemma sqrt8_chain_143:
  "(8::int) ^ 0x7FFFFFFFFFFFFFFFFFFFFFFFFFFFFFFFFFFF mod secp256k1_p
   = 0x974A771EDC44697B9C68BD76B7CB7515B3D577262D36EAEADC761ACB69942FF5"
  by (rule secp256k1_chain_step[OF sqrt8_chain_142, where a = 8 and b = 1
        and q = "0x588BB01EE5F17362C22579EA15963DDBEDDF4B3DC4600640710B45889CA0739D"])
     (simp_all only: chain_arith)

lemma sqrt8_chain_144:
  "(8::int) ^ 0xFFFFFFFFFFFFFFFFFFFFFFFFFFFFFFFFFFFF mod secp256k1_p
   = 0xC7E3C187F05D398B2E65E08748800697390F65749321811DD0A599962C245C18"
  by (rule secp256k1_chain_step[OF sqrt8_chain_143, where a = 8 and b = 1
        and q = "0x2CB47717BE8EE03E62CCA403240D65DBE7EA01175B88726FA79896F33D9DE7750"])
     (simp_all only: chain_arith)

lemma sqrt8_chain_145:
  "(8::int) ^ 0x1FFFFFFFFFFFFFFFFFFFFFFFFFFFFFFFFFFFF mod secp256k1_p
   = 0x6CBE6A1D46EB890BAFA7383F8F169BC5FD0CEA57420AE467CAD0879BA5F7B56E"
  by (rule secp256k1_chain_step[OF sqrt8_chain_144, where a = 8 and b = 1
        and q = "0x4E09F0C11089BAB331DE132B70D73450EF8ED42F179F6DDFA3556A5FAC1380E0E"])
     (simp_all only: chain_arith)

lemma sqrt8_chain_146:
  "(8::int) ^ 0x3FFFFFFFFFFFFFFFFFFFFFFFFFFFFFFFFFFFF mod secp256k1_p
   = 0x732A3C909B791C49B0F526DBBBA0CD3EB496C3C93827B417B508D1C97DA49A2"
  by (rule secp256k1_chain_step[OF sqrt8_chain_145, where a = 8 and b = 1
        and q = "0x17189B9531A421AABE071AB8573626187EC7DF5FCBD97DF5D64B66F8391C941E2"])
     (simp_all only: chain_arith)

lemma sqrt8_chain_147:
  "(8::int) ^ 0x7FFFFFFFFFFFFFFFFFFFFFFFFFFFFFFFFFFFF mod secp256k1_p
   = 0xC1787AB568509B7F25B19B8FCCCAF9D913EF598166430E88F9F5DB740588E57A"
  by (rule secp256k1_chain_step[OF sqrt8_chain_146, where a = 8 and b = 1
        and q = "0x19E77CB0ECBAF6DBC48C486092E08C847DBEA8D5437277592138778BBEF743A"])
     (simp_all only: chain_arith)

lemma sqrt8_chain_148:
  "(8::int) ^ 0xFFFFFFFFFFFFFFFFFFFFFFFFFFFFFFFFFFFFF mod secp256k1_p
   = 0x1E6EA0C403D62B3336A81389C6C471A30E60FBACCFE8070BFB7DA33447C3D723"
  by (rule secp256k1_chain_step[OF sqrt8_chain_147, where a = 8 and b = 1
        and q = "0x491B70DC66165F007F5DE6410DC813DF1392000373D3F15DEB7275F349BB0A593"])
     (simp_all only: chain_arith)

lemma sqrt8_chain_149:
  "(8::int) ^ 0x1FFFFFFFFFFFFFFFFFFFFFFFFFFFFFFFFFFFFF mod secp256k1_p
   = 0xBC2BA12A2F89E5B526020ED064CB144E9E8338F2FA5DCABEA2A9B7DC4E618013"
  by (rule secp256k1_chain_step[OF sqrt8_chain_148, where a = 8 and b = 1
        and q = "0x1CF0EBE3F278C875B699FF9297C47797C469EAB66F42768E9ED642E7A462E6DB"])
     (simp_all only: chain_arith)

lemma sqrt8_chain_150:
  "(8::int) ^ 0x3FFFFFFFFFFFFFFFFFFFFFFFFFFFFFFFFFFFFF mod secp256k1_p
   = 0xBFD1FD0972001FEC91F39DE969C5A4B14C1B9DAF7C0424A880B66F18006D8E6B"
  by (rule secp256k1_chain_step[OF sqrt8_chain_149, where a = 8 and b = 1
        and q = "0x45280E12BFBA4C3A27D7782925A81183D0422F91CFF659F5903017C8939E358B3"])
     (simp_all only: chain_arith)

lemma sqrt8_chain_151:
  "(8::int) ^ 0x7FFFFFFFFFFFFFFFFFFFFFFFFFFFFFFFFFFFFF mod secp256k1_p
   = 0xA65A765218D58D7A30DEB03456F58EF500507974DE2A03D1952727A78C0813A0"
  by (rule secp256k1_chain_step[OF sqrt8_chain_150, where a = 8 and b = 1
        and q = "0x47DD81E99DD1FFC24BF7E47B51161A45EFA78A53D0D0508391E4D97D03D895E58"])
     (simp_all only: chain_arith)

lemma sqrt8_chain_152:
  "(8::int) ^ 0xFFFFFFFFFFFFFFFFFFFFFFFFFFFFFFFFFFFFFF mod secp256k1_p
   = 0x883E478103C5F15868DD161EF22013DC0D4FB9677FA49D56E5DAFB4692804FA5"
  by (rule secp256k1_chain_step[OF sqrt8_chain_151, where a = 8 and b = 1
        and q = "0x360CB8B4F04F196D5D77968C01ADD1C1A46D521E21E1743EB5617B12DD6864795"])
     (simp_all only: chain_arith)

lemma sqrt8_chain_153:
  "(8::int) ^ 0x1FFFFFFFFFFFFFFFFFFFFFFFFFFFFFFFFFFFFFF mod secp256k1_p
   = 0x2BAB97C413EC21804E09E4F5F1C69F42B07AB7149F51C3CCDF16D697C24ED731"
  by (rule secp256k1_chain_step[OF sqrt8_chain_152, where a = 8 and b = 1
        and q = "0x24411D8FE53C7AB5B7D41A48A8B17C7143FD3D542AB86124E12C282F01D236519"])
     (simp_all only: chain_arith)

lemma sqrt8_chain_154:
  "(8::int) ^ 0x3FFFFFFFFFFFFFFFFFFFFFFFFFFFFFFFFFFFFFF mod secp256k1_p
   = 0x7C78D4C2D4020CE60F3F7A8EBD29C28861E020BE1F88A37DAA223DBC7C8F3661"
  by (rule secp256k1_chain_step[OF sqrt8_chain_153, where a = 8 and b = 1
        and q = "0x3B98BFFFC4E6B32772291B83FC911A9843A97E466990A0EEC6BEF94175D20909"])
     (simp_all only: chain_arith)

lemma sqrt8_chain_155:
  "(8::int) ^ 0x7FFFFFFFFFFFFFFFFFFFFFFFFFFFFFFFFFFFFFF mod secp256k1_p
   = 0x8FB537D26C1E9CF99411DFE40ACC0DE0166897F40D503D90E415FD9F18EFC4DA"
  by (rule secp256k1_chain_step[OF sqrt8_chain_154, where a = 8 and b = 1
        and q = "0x1E42A392726E00EA2F3FE2C754E1DAB30513E9E8B9A8F108A9CE7D38A6E4E8032"])
     (simp_all only: chain_arith)

lemma sqrt8_chain_156:
  "(8::int) ^ 0xFFFFFFFFFFFFFFFFFFFFFFFFFFFFFFFFFFFFFFF mod secp256k1_p
   = 0x26405BC9B7684964C51609FE45DAF3C43665E897E30A44424E9E5D8EAFEEC98A"
  by (rule secp256k1_chain_step[OF sqrt8_chain_155, where a = 8 and b = 1
        and q = "0x2855FA5288419709C1D6FC4CDBDEB9D8B43E36AE365E58B4C354E9B46C4A5C24A"])
     (simp_all only: chain_arith)

lemma sqrt8_chain_157:
  "(8::int) ^ 0x1FFFFFFFFFFFFFFFFFFFFFFFFFFFFFFFFFFFFFFF mod secp256k1_p
   = 0xCEF87A2CC0D12A9E1469E40D3BAF1D20DF161F77CE5E0BA62EB4C05C3DFD4588"
  by (rule secp256k1_chain_step[OF sqrt8_chain_156, where a = 8 and b = 1
        and q = "0x2DB95B6F41BD8A2231E1EE0B6235487233FA37C2CCE719F2DC5CE32B1B844DE8"])
     (simp_all only: chain_arith)

lemma sqrt8_chain_158:
  "(8::int) ^ 0x3FFFFFFFFFFFFFFFFFFFFFFFFFFFFFFFFFFFFFFF mod secp256k1_p
   = 0x95581A2604EB11105E79B606FAEF60C4CB500F940421283673E2554D117A2618"
  by (rule secp256k1_chain_step[OF sqrt8_chain_157, where a = 8 and b = 1
        and q = "0x53AA6AE67BAA72B99870DA6769A47171767CEE343E99239131650F864E4192098"])
     (simp_all only: chain_arith)

lemma sqrt8_chain_159:
  "(8::int) ^ 0x7FFFFFFFFFFFFFFFFFFFFFFFFFFFFFFFFFFFFFFF mod secp256k1_p
   = 0xA0944E9ABB63EB85D087C24EE520360D1B51A2982A3EDCC067BF9DBD3A1407BF"
  by (rule secp256k1_chain_step[OF sqrt8_chain_158, where a = 8 and b = 1
        and q = "0x2B8FD6611F44610EFF499AFF7113877F9FCC9292A71E87E6AD360E0741044948F"])
     (simp_all only: chain_arith)

lemma sqrt8_chain_160:
  "(8::int) ^ 0xFFFFFFFFFFFFFFFFFFFFFFFFFFFFFFFFFFFFFFFF mod secp256k1_p
   = 0xFBA260DA297C941958E512F9D9C2C7D8D1E3444825D5B8C62A1C17D2130EC0F9"
  by (rule secp256k1_chain_step[OF sqrt8_chain_159, where a = 8 and b = 1
        and q = "0x325CDC1632A41CD33C256C813419CE82A7354727D9E907A460F20759165250F21"])
     (simp_all only: chain_arith)

lemma sqrt8_chain_161:
  "(8::int) ^ 0x1FFFFFFFFFFFFFFFFFFFFFFFFFFFFFFFFFFFFFFFF mod secp256k1_p
   = 0x52CBF38C4DC215D030229516A224951D8C40721E1572B9D6C2720E8E9A2F4748"
  by (rule secp256k1_chain_step[OF sqrt8_chain_160, where a = 8 and b = 1
        and q = "0x7BABE875430D928EA12F0B848B280945697A40C4AB2469BDC3E02EA0F632E89C0"])
     (simp_all only: chain_arith)

lemma sqrt8_chain_162:
  "(8::int) ^ 0x3FFFFFFFFFFFFFFFFFFFFFFFFFFFFFFFFFFFFFFFF mod secp256k1_p
   = 0xE2AC118D5282A919D0D40AAC7ECB474FC22777F61E9F0A77475A61E29C90EFBD"
  by (rule secp256k1_chain_step[OF sqrt8_chain_161, where a = 8 and b = 1
        and q = "0xD63A5410503A825C828F4DAC67D18B5DBADD07FD8A50A2D53330A44560D8822D"])
     (simp_all only: chain_arith)

lemma sqrt8_chain_163:
  "(8::int) ^ 0x7FFFFFFFFFFFFFFFFFFFFFFFFFFFFFFFFFFFFFFFF mod secp256k1_p
   = 0x819A7926148105283476EBD47B6C41BEB1A8F54C1304FC5EA50B6A517E23B4C0"
  by (rule secp256k1_chain_step[OF sqrt8_chain_162, where a = 8 and b = 1
        and q = "0x645A21528E64D28F1431557BE92D7E3789D2E859C3CF6076A3D35912AA9D096F8"])
     (simp_all only: chain_arith)

lemma sqrt8_chain_164:
  "(8::int) ^ 0xFFFFFFFFFFFFFFFFFFFFFFFFFFFFFFFFFFFFFFFFF mod secp256k1_p
   = 0x498AA51259807CC5E374900C97BCD9424B8EBA673D76E9F5680A200BAE51CA85"
  by (rule secp256k1_chain_step[OF sqrt8_chain_163, where a = 8 and b = 1
        and q = "0x20CE85A72DE7DBBC6408760E2C8B42A91BA8D158D72CD1C109E0542CCFE81CC75"])
     (simp_all only: chain_arith)

lemma sqrt8_chain_165:
  "(8::int) ^ 0x1FFFFFFFFFFFFFFFFFFFFFFFFFFFFFFFFFFFFFFFFF mod secp256k1_p
   = 0xA4770884650AC0EEA8F6B0695D4851CC5D69A240EC4261695CD6C1177679EA60"
  by (rule secp256k1_chain_step[OF sqrt8_chain_164, where a = 8 and b = 1
        and q = "0xA902E9D6CA2372FDBA2770CAA864B753328DEDDBE1DAF5B2E4A8D4B87E836618"])
     (simp_all only: chain_arith)

lemma sqrt8_chain_166:
  "(8::int) ^ 0x3FFFFFFFFFFFFFFFFFFFFFFFFFFFFFFFFFFFFFFFFF mod secp256k1_p
   = 0xAD722C9E1AF75C80CE5FA1FD5106FFC945BDD2BBAFC8CBC5B3132B10736CBE6D"
  by (rule secp256k1_chain_step[OF sqrt8_chain_165, where a = 8 and b = 1
        and q = "0x34D45D21466A20FD16B2425E50224D78150437FC2BBD4E4DF5F2284B23B4AE3DD"])
     (simp_all only: chain_arith)

lemma sqrt8_chain_167:
  "(8::int) ^ 0x7FFFFFFFFFFFFFFFFFFFFFFFFFFFFFFFFFFFFFFFFF mod secp256k1_p
   = 0xA8A281770369A8BB9A37AA981A3EF7F5818D5FA71261F183D199D8849FA440AE"
  by (rule secp256k1_chain_step[OF sqrt8_chain_166, where a = 8 and b = 1
        and q = "0x3AC1C19CBA84891F66CF58ED0760938908E5BDDF43E81723BC01F8B3CBAED0E86"])
     (simp_all only: chain_arith)

lemma sqrt8_chain_168:
  "(8::int) ^ 0xFFFFFFFFFFFFFFFFFFFFFFFFFFFFFFFFFFFFFFFFFF mod secp256k1_p
   = 0x19D5EC4475F397E550A9A81D2C66BD2D1BE342F6CC55B374C5EDA7E03E8FB60F"
  by (rule secp256k1_chain_step[OF sqrt8_chain_167, where a = 8 and b = 1
        and q = "0x378AD88A284A13FA3815E9E0A1AD2A46925B2D6093F24B2A340D0D16D78703BBF"])
     (simp_all only: chain_arith)

lemma sqrt8_chain_169:
  "(8::int) ^ 0x1FFFFFFFFFFFFFFFFFFFFFFFFFFFFFFFFFFFFFFFFFF mod secp256k1_p
   = 0xC85AD941B1BA1CD3DDBA3CB70F84F7A255FFAE804593B83CB9CE188112D342F6"
  by (rule secp256k1_chain_step[OF sqrt8_chain_168, where a = 8 and b = 1
        and q = "0x14DBD7431821366C694B62A3740CACBFF8F29570CC86CA04D4302C552D441E8E"])
     (simp_all only: chain_arith)

lemma sqrt8_chain_170:
  "(8::int) ^ 0x3FFFFFFFFFFFFFFFFFFFFFFFFFFFFFFFFFFFFFFFFFF mod secp256k1_p
   = 0x6B9BFAFD24ECBB99FD198CD447DB55438075681B5AA9B3E0F5496341A365DAEE"
  by (rule secp256k1_chain_step[OF sqrt8_chain_169, where a = 8 and b = 1
        and q = "0x4E6709DA10221A084817CD3BF6184E0F36D347E4CBFA40843D0FD5379286DD46E"])
     (simp_all only: chain_arith)

lemma sqrt8_chain_171:
  "(8::int) ^ 0x7FFFFFFFFFFFFFFFFFFFFFFFFFFFFFFFFFFFFFFFFFF mod secp256k1_p
   = 0x30C8E7D14BEE161FCD8378FF399A8B79097C1749543DE4ECE3CCBC8004F79D0A"
  by (rule secp256k1_chain_step[OF sqrt8_chain_170, where a = 8 and b = 1
        and q = "0x169DE16CC0BE00F722D96C85F2A1BFF4A4A61BC2874BD68D262E16344FCFFF0CA"])
     (simp_all only: chain_arith)

lemma sqrt8_chain_172:
  "(8::int) ^ 0xFFFFFFFFFFFFFFFFFFFFFFFFFFFFFFFFFFFFFFFFFFF mod secp256k1_p
   = 0x238F8701D1EE24D127A03AD9C6C13D8DA5374F1AA8D02BA4F48952871F97E39F"
  by (rule secp256k1_chain_step[OF sqrt8_chain_171, where a = 8 and b = 1
        and q = "0x4A5FA4CC2B5A7399DFAA700B071628C685416BBF2BC6DD17A188FD602657234F"])
     (simp_all only: chain_arith)

lemma sqrt8_chain_173:
  "(8::int) ^ 0x1FFFFFFFFFFFFFFFFFFFFFFFFFFFFFFFFFFFFFFFFFFF mod secp256k1_p
   = 0x2EAE00A68634A613D59329A3A958DBBF86C262147E6DC8DAFAB07D0D0AF1C072"
  by (rule secp256k1_chain_step[OF sqrt8_chain_172, where a = 8 and b = 1
        and q = "0x27847B14D5148C566ABD6164AEDEA0B54CF1B25EF0B6A1071E373EADC919C04A"])
     (simp_all only: chain_arith)

lemma sqrt8_chain_174:
  "(8::int) ^ 0x3FFFFFFFFFFFFFFFFFFFFFFFFFFFFFFFFFFFFFFFFFFF mod secp256k1_p
   = 0x860422388808C30417B8D0C78367AE32F4879A410379E2F22BBFA088C18C1329"
  by (rule secp256k1_chain_step[OF sqrt8_chain_173, where a = 8 and b = 1
        and q = "0x4417F405D4CE3C99B2CE0B686C958F3D5E93FE9667CF8B7DC52FC9A8E2B9CBB9"])
     (simp_all only: chain_arith)

lemma sqrt8_chain_175:
  "(8::int) ^ 0x7FFFFFFFFFFFFFFFFFFFFFFFFFFFFFFFFFFFFFFFFFFF mod secp256k1_p
   = 0xAB66AD1ABD7742534A081F476F1FFBFFAB9DC9B0222FF4676B7045933127D49D"
  by (rule secp256k1_chain_step[OF sqrt8_chain_174, where a = 8 and b = 1
        and q = "0x231429F222603E864070F7F7FD1108B093AB75F2CD229E4E876EFA98C20794D05"])
     (simp_all only: chain_arith)

lemma sqrt8_chain_176:
  "(8::int) ^ 0xFFFFFFFFFFFFFFFFFFFFFFFFFFFFFFFFFFFFFFFFFFFF mod secp256k1_p
   = 0x1AB096FF4D591ADB62EA51CECC7E9B1033916C8E12886F71040CF51DE5299D0D"
  by (rule secp256k1_chain_step[OF sqrt8_chain_175, where a = 8 and b = 1
        and q = "0x39612A380FBCBA412BAE995D0A9E06ED00B2526CE07CF5018460CF26BC34B28B5"])
     (simp_all only: chain_arith)

lemma sqrt8_chain_177:
  "(8::int) ^ 0x1FFFFFFFFFFFFFFFFFFFFFFFFFFFFFFFFFFFFFFFFFFFF mod secp256k1_p
   = 0xD86814AEBCC5CB58AE2BE6B2F700822360DDC6D3EB9327BCB0B63764BFF664BC"
  by (rule secp256k1_chain_step[OF sqrt8_chain_176, where a = 8 and b = 1
        and q = "0x1642C3DE9E8509C8C0D7679E6B69FB8C39E743F3599961DB9DFD2D52BA5CB934"])
     (simp_all only: chain_arith)

lemma sqrt8_chain_178:
  "(8::int) ^ 0x3FFFFFFFFFFFFFFFFFFFFFFFFFFFFFFFFFFFFFFFFFFFF mod secp256k1_p
   = 0x2335310977D54372B66BF5894B38DCC93FC94536ADF37D344DFFCAD1AA4EEFEE"
  by (rule secp256k1_chain_step[OF sqrt8_chain_177, where a = 8 and b = 1
        and q = "0x5B77E69BD719764F76E87E1CF4E2B59F840136627AC1A06A54134C7A55B494A0E"])
     (simp_all only: chain_arith)

lemma sqrt8_chain_179:
  "(8::int) ^ 0x7FFFFFFFFFFFFFFFFFFFFFFFFFFFFFFFFFFFFFFFFFFFF mod secp256k1_p
   = 0x7D30A4C1B364D5360E9EFD4FB64099C93AD84B074741E7AEFEEC0729F137C6EC"
  by (rule secp256k1_chain_step[OF sqrt8_chain_178, where a = 8 and b = 1
        and q = "0x26BCB3AF70A477C4A24D60DA8A0D8969C2D2382653DBA3B745C46323B4AB5F0C"])
     (simp_all only: chain_arith)

lemma sqrt8_chain_180:
  "(8::int) ^ 0xFFFFFFFFFFFFFFFFFFFFFFFFFFFFFFFFFFFFFFFFFFFFF mod secp256k1_p
   = 0x4029AE711EAB7798CE1C61CEC2E8C9F2B9C48B4036139975869F0E15F40729C8"
  by (rule secp256k1_chain_step[OF sqrt8_chain_179, where a = 8 and b = 1
        and q = "0x1E9C4511ADEE3F37F5BCD38EB9342226EEF98109B51C33C95C520DE45FAE942C8"])
     (simp_all only: chain_arith)

lemma sqrt8_chain_181:
  "(8::int) ^ 0x1FFFFFFFFFFFFFFFFFFFFFFFFFFFFFFFFFFFFFFFFFFFFF mod secp256k1_p
   = 0xAADA8DC56A4C19E9F031C8CBE10471C2BB20CE7FA50FD9624DC0C18920DE9DF1"
  by (rule secp256k1_chain_step[OF sqrt8_chain_180, where a = 8 and b = 1
        and q = "0x80A6F00F337C332F1D012FA0701D458BD9282805E5755FE1829A9D8ED74A5E21"])
     (simp_all only: chain_arith)

lemma sqrt8_chain_182:
  "(8::int) ^ 0x3FFFFFFFFFFFFFFFFFFFFFFFFFFFFFFFFFFFFFFFFFFFFF mod secp256k1_p
   = 0x81245DC1667DDDD016F1201F5DE743E70B4D72398217309D59168A44C8775B15"
  by (rule secp256k1_chain_step[OF sqrt8_chain_181, where a = 8 and b = 1
        and q = "0x39037F6FF9F495ADB79EF218332A106C3D77EF07B276D339F288F0A758E18E77D"])
     (simp_all only: chain_arith)

lemma sqrt8_chain_183:
  "(8::int) ^ 0x7FFFFFFFFFFFFFFFFFFFFFFFFFFFFFFFFFFFFFFFFFFFFF mod secp256k1_p
   = 0x9678E81CA07405B4E360F0F8513BBE37F530C780CBF5C782E8A8044B6B53D100"
  by (rule secp256k1_chain_step[OF sqrt8_chain_182, where a = 8 and b = 1
        and q = "0x2092D5D3B502E1C29FCFD2A14F071969C49C14964BFA3163FACD3BCCFF30685B8"])
     (simp_all only: chain_arith)

lemma sqrt8_chain_184:
  "(8::int) ^ 0xFFFFFFFFFFFFFFFFFFFFFFFFFFFFFFFFFFFFFFFFFFFFFF mod secp256k1_p
   = 0x8CA7E7E9CB12C0BE3B904DD83BCF02D641D9B1F639F8428956D0CB9CC3D2330D"
  by (rule secp256k1_chain_step[OF sqrt8_chain_183, where a = 8 and b = 1
        and q = "0x2C38F48DFCA924BD8E2A8E56D11E611E87F3FE4173E64BA039E626791EC26767D"])
     (simp_all only: chain_arith)

lemma sqrt8_chain_185:
  "(8::int) ^ 0x1FFFFFFFFFFFFFFFFFFFFFFFFFFFFFFFFFFFFFFFFFFFFFF mod secp256k1_p
   = 0x48802C2DB08C75B19778599E05122FBFF31750609C51A01E0A214A94371712E1"
  by (rule secp256k1_chain_step[OF sqrt8_chain_184, where a = 8 and b = 1
        and q = "0x26A409E40D9D9BA355343A1F2483C298A7CC2685885909FDED9694BDFEED0D749"])
     (simp_all only: chain_arith)

lemma sqrt8_chain_186:
  "(8::int) ^ 0x3FFFFFFFFFFFFFFFFFFFFFFFFFFFFFFFFFFFFFFFFFFFFFF mod secp256k1_p
   = 0xCD661FDE38518253E4014968921F3BF08E46A9E0B0CEE330CE73E3AE52F39FEA"
  by (rule secp256k1_chain_step[OF sqrt8_chain_185, where a = 8 and b = 1
        and q = "0xA442C82F44FA5C0B5318314204E0B6CEEA18B48456D4ABE2D21D4800B10D7642"])
     (simp_all only: chain_arith)

lemma sqrt8_chain_187:
  "(8::int) ^ 0x7FFFFFFFFFFFFFFFFFFFFFFFFFFFFFFFFFFFFFFFFFFFFFF mod secp256k1_p
   = 0x680FD7E1B03DE3C8294E79A62F69E0E21B864BDF8A8E1C91628CC3EF2B567755"
  by (rule secp256k1_chain_step[OF sqrt8_chain_186, where a = 8 and b = 1
        and q = "0x52665BE3A79F7F1BD6AAEF241546A1D096677F8255D57FE9CEC69F935A301EB25"])
     (simp_all only: chain_arith)

lemma sqrt8_chain_188:
  "(8::int) ^ 0xFFFFFFFFFFFFFFFFFFFFFFFFFFFFFFFFFFFFFFFFFFFFFFF mod secp256k1_p
   = 0xB85607CF304CF0DC29BC3ECB897A0959D97B536E606C45AEE5A560A508575AF8"
  by (rule secp256k1_chain_step[OF sqrt8_chain_187, where a = 8 and b = 1
        and q = "0x1526703130D8E6A946DF2EB6A2915DA7BC0F51C1FE33029CC0CEFE46759BAF230"])
     (simp_all only: chain_arith)

lemma sqrt8_chain_189:
  "(8::int) ^ 0x1FFFFFFFFFFFFFFFFFFFFFFFFFFFFFFFFFFFFFFFFFFFFFFF mod secp256k1_p
   = 0xBD3118CA19557DA448110FE89999908AA8D32C27432384B4E61A561E8EEFE3C4"
  by (rule secp256k1_chain_step[OF sqrt8_chain_188, where a = 8 and b = 1
        and q = "0x425DE4118A700520D5509242829CB28362AE1D0B81ABC4077F13CE1F376694A84"])
     (simp_all only: chain_arith)

lemma sqrt8_chain_190:
  "(8::int) ^ 0x3FFFFFFFFFFFFFFFFFFFFFFFFFFFFFFFFFFFFFFFFFFFFFFF mod secp256k1_p
   = 0x8B9107F6A3AC74762467DF773987D4C4319A877B5A16193E49F95F3ACD6E95A2"
  by (rule secp256k1_chain_step[OF sqrt8_chain_189, where a = 8 and b = 1
        and q = "0x45E8C402749639455823D5F09D4AA6292AF9D56957788141FED08E0FB24162582"])
     (simp_all only: chain_arith)

lemma sqrt8_chain_191:
  "(8::int) ^ 0x7FFFFFFFFFFFFFFFFFFFFFFFFFFFFFFFFFFFFFFFFFFFFFFF mod secp256k1_p
   = 0x3E51746D316AD428BACD9853AB065262B55DB150D386DBA81B630046A751FCFB"
  by (rule secp256k1_chain_step[OF sqrt8_chain_190, where a = 8 and b = 1
        and q = "0x260B6867EDB10D334FE8B1EEB4BD926EF2DCAD3B19FDFDAA8715947954C6628EB"])
     (simp_all only: chain_arith)

lemma sqrt8_chain_192:
  "(8::int) ^ 0xFFFFFFFFFFFFFFFFFFFFFFFFFFFFFFFFFFFFFFFFFFFFFFFF mod secp256k1_p
   = 0xD4C9F44375FD7F7C18A530B7C3001449D45CF94BD797CB2D8CAB547F88AF07BF"
  by (rule secp256k1_chain_step[OF sqrt8_chain_191, where a = 8 and b = 1
        and q = "0x795C727E2FE13DCF584B8D424FCDB4B74FBB21EC46BA29ED21EBAB7AC59E8847"])
     (simp_all only: chain_arith)

lemma sqrt8_chain_193:
  "(8::int) ^ 0x1FFFFFFFFFFFFFFFFFFFFFFFFFFFFFFFFFFFFFFFFFFFFFFFF mod secp256k1_p
   = 0xF628264CCDE39A59D557149062CA8626B4D6442AD835AA78AD541E5269428CA"
  by (rule secp256k1_chain_step[OF sqrt8_chain_192, where a = 8 and b = 1
        and q = "0x586F8DF09B35E6F4F6E3A3C9A8151AA434499E242B82BC2D92743C6708A113322"])
     (simp_all only: chain_arith)

lemma sqrt8_chain_194:
  "(8::int) ^ 0x3FFFFFFFFFFFFFFFFFFFFFFFFFFFFFFFFFFFFFFFFFFFFFFFF mod secp256k1_p
   = 0xEA2F764785DB7DCE455695595F4747BA4A07D4489E0D7B6E0EA01C1371E069D3"
  by (rule secp256k1_chain_step[OF sqrt8_chain_193, where a = 8 and b = 1
        and q = "0x765897F3CCB653F7AC51537BB46C97DDCD8984DF108552B6885AA8CAAA13F43"])
     (simp_all only: chain_arith)

lemma sqrt8_chain_195:
  "(8::int) ^ 0x7FFFFFFFFFFFFFFFFFFFFFFFFFFFFFFFFFFFFFFFFFFFFFFFF mod secp256k1_p
   = 0x9DAA139490D5F6BDEB76B092001F34EC9751CB4C4D56B211361CF291E691F12"
  by (rule secp256k1_chain_step[OF sqrt8_chain_194, where a = 8 and b = 1
        and q = "0x6B1D6683B2CF35FB931BBE08A8BF1AF908A4C2D88A4C90A98530D2D57B729C7AA"])
     (simp_all only: chain_arith)

lemma sqrt8_chain_196:
  "(8::int) ^ 0xFFFFFFFFFFFFFFFFFFFFFFFFFFFFFFFFFFFFFFFFFFFFFFFFF mod secp256k1_p
   = 0xB70A5E46FAEF4BBF8E619C3EAE0DEFE07A0FF74D70F76C29B029E6584C31803C"
  by (rule secp256k1_chain_step[OF sqrt8_chain_195, where a = 8 and b = 1
        and q = "0x308D06811E3B184419819995D22096627B03AD3F31A44BCD6FD41E16A42875C"])
     (simp_all only: chain_arith)

lemma sqrt8_chain_197:
  "(8::int) ^ 0x1FFFFFFFFFFFFFFFFFFFFFFFFFFFFFFFFFFFFFFFFFFFFFFFFF mod secp256k1_p
   = 0x12D94E000341EDED6C96387FAE73F4AA80048D75F0A908BE48F50A38556D8F76"
  by (rule secp256k1_chain_step[OF sqrt8_chain_196, where a = 8 and b = 1
        and q = "0x416FE99A7D82F679DA7E82FA0304A6291B9A74E8055F875E4D64784508F39DB16"])
     (simp_all only: chain_arith)

lemma sqrt8_chain_198:
  "(8::int) ^ 0x3FFFFFFFFFFFFFFFFFFFFFFFFFFFFFFFFFFFFFFFFFFFFFFFFF mod secp256k1_p
   = 0x2E174101D32E83A053C42CA37B3A2077EB900616360C502227DF0E25C765C893"
  by (rule secp256k1_chain_step[OF sqrt8_chain_197, where a = 8 and b = 1
        and q = "0xB1A3B6AA1F669B766740ABC3D4FF13BDF17EBD8F49EB90416DCE27ECAD34A03"])
     (simp_all only: chain_arith)

lemma sqrt8_chain_199:
  "(8::int) ^ 0x7FFFFFFFFFFFFFFFFFFFFFFFFFFFFFFFFFFFFFFFFFFFFFFFFF mod secp256k1_p
   = 0x42E09E164B98743C57274EC4D4AF2CBD89241D20BF89A4C5C0CEC8FF567B7CE4"
  by (rule secp256k1_chain_step[OF sqrt8_chain_198, where a = 8 and b = 1
        and q = "0x4262EBCB35D4B751C29DA41739EAE1843AB9F63A878EB1CCEBB76EC1539572DC"])
     (simp_all only: chain_arith)

lemma sqrt8_chain_200:
  "(8::int) ^ 0xFFFFFFFFFFFFFFFFFFFFFFFFFFFFFFFFFFFFFFFFFFFFFFFFFF mod secp256k1_p
   = 0xEBD5052F966BEE71A3A23E067B5A52E97EEABBE5E4393EA45DF4418DD6B5DDA5"
  by (rule secp256k1_chain_step[OF sqrt8_chain_199, where a = 8 and b = 1
        and q = "0x8BC4B4C43CF36FDE544F72036CD250322C94172C28B5FD9C0116A7F96C0B2515"])
     (simp_all only: chain_arith)

lemma sqrt8_chain_201:
  "(8::int) ^ 0x1FFFFFFFFFFFFFFFFFFFFFFFFFFFFFFFFFFFFFFFFFFFFFFFFFF mod secp256k1_p
   = 0x2D26CC01EC21A2DFD773A6DBC89BF0B0AC3DED1EC5D3ABCEE1B3ED62AF0F1F0D"
  by (rule secp256k1_chain_step[OF sqrt8_chain_200, where a = 8 and b = 1
        and q = "0x6CA064637FBAAE0C1B6D6873F30C445E3A8BBFEA8D9CD3F88855EDDD226A35235"])
     (simp_all only: chain_arith)

lemma sqrt8_chain_202:
  "(8::int) ^ 0x3FFFFFFFFFFFFFFFFFFFFFFFFFFFFFFFFFFFFFFFFFFFFFFFFFF mod secp256k1_p
   = 0x807A0A0F11792DB6376CAFB8B348D70BCEEF68362A66D13D1CB87742F60F3ED0"
  by (rule secp256k1_chain_step[OF sqrt8_chain_201, where a = 8 and b = 1
        and q = "0x3FB54CCF0147ECC2CEC566B7497671BAC2CF57734D6BE7A848D2F1690800FB08"])
     (simp_all only: chain_arith)

lemma sqrt8_chain_203:
  "(8::int) ^ 0x7FFFFFFFFFFFFFFFFFFFFFFFFFFFFFFFFFFFFFFFFFFFFFFFFFF mod secp256k1_p
   = 0xA352DDCF05FD5EF001B31D130EF2EB249EB1E4522EA6DC4F705A0FE23E377691"
  by (rule secp256k1_chain_step[OF sqrt8_chain_202, where a = 8 and b = 1
        and q = "0x203D221E541D81BB27083636CEC891B197204B54F6C4CF69FC32E3C296ECDEEC1"])
     (simp_all only: chain_arith)

lemma sqrt8_chain_204:
  "(8::int) ^ 0xFFFFFFFFFFFFFFFFFFFFFFFFFFFFFFFFFFFFFFFFFFFFFFFFFFF mod secp256k1_p
   = 0xEE93428FCE8B374047BAEE29196730B731533DCC7B44314FB18007A01E6E1926"
  by (rule secp256k1_chain_step[OF sqrt8_chain_203, where a = 8 and b = 1
        and q = "0x341950A43D37CA7C4CDC7CA887622A8EE5EB10C29361047DF429A2A7D4BF9E3BE"])
     (simp_all only: chain_arith)

lemma sqrt8_chain_205:
  "(8::int) ^ 0x1FFFFFFFFFFFFFFFFFFFFFFFFFFFFFFFFFFFFFFFFFFFFFFFFFFF mod secp256k1_p
   = 0x58DD8478CD8EEBC7FE2C03074B9E1D57E2438E0B6A967FA4818F08E617D28D40"
  by (rule secp256k1_chain_step[OF sqrt8_chain_204, where a = 8 and b = 1
        and q = "0x6F2B123C734042F293ED9577799EDCAC98F4F68FDB8F04B9DDBFEC911C545A620"])
     (simp_all only: chain_arith)

lemma sqrt8_chain_206:
  "(8::int) ^ 0x3FFFFFFFFFFFFFFFFFFFFFFFFFFFFFFFFFFFFFFFFFFFFFFFFFFF mod secp256k1_p
   = 0xBF7E3E4B1363553DF130D427199698CCC9B6C048B6F9EA8E38E3F102EE7AC588"
  by (rule secp256k1_chain_step[OF sqrt8_chain_205, where a = 8 and b = 1
        and q = "0xF6C85608538FBECAA1E4C8B51886F4602A9EA15C77BC4A0D6F0F7E4727B87708"])
     (simp_all only: chain_arith)

lemma sqrt8_chain_207:
  "(8::int) ^ 0x7FFFFFFFFFFFFFFFFFFFFFFFFFFFFFFFFFFFFFFFFFFFFFFFFFFF mod secp256k1_p
   = 0x547C1016553FCF86E13E4E75A6BD6008B6EE564C182A31E5254A399D85498580"
  by (rule secp256k1_chain_step[OF sqrt8_chain_206, where a = 8 and b = 1
        and q = "0x479ECF9AB3FEE13168EB107A321191FB8A22160791876699BE9C9C55170D2EB80"])
     (simp_all only: chain_arith)

lemma sqrt8_chain_208:
  "(8::int) ^ 0xFFFFFFFFFFFFFFFFFFFFFFFFFFFFFFFFFFFFFFFFFFFFFFFFFFFF mod secp256k1_p
   = 0x7479A649914F5DE9E4BEAB4CF21FB4E085439F88D6070F465D17CA561DA8CBCD"
  by (rule secp256k1_chain_step[OF sqrt8_chain_207, where a = 8 and b = 1
        and q = "0xDF0D3571F4BA14E25E387738B0DD1D194FC0361C563F7C0944214CEBF1CF733D"])
     (simp_all only: chain_arith)

lemma sqrt8_chain_209:
  "(8::int) ^ 0x1FFFFFFFFFFFFFFFFFFFFFFFFFFFFFFFFFFFFFFFFFFFFFFFFFFFF mod secp256k1_p
   = 0x44576F70EE665A43527FBEC55BA2E90C5A0F21721F546E3040FFA190DEFB2B93"
  by (rule secp256k1_chain_step[OF sqrt8_chain_208, where a = 8 and b = 1
        and q = "0x1A7F3C40A49F63DCEEF87642B97F05B3A2AF6D7C06C914F9055F816090EC28F5B"])
     (simp_all only: chain_arith)

lemma sqrt8_chain_210:
  "(8::int) ^ 0x3FFFFFFFFFFFFFFFFFFFFFFFFFFFFFFFFFFFFFFFFFFFFFFFFFFFF mod secp256k1_p
   = 0x6AC49A870FDC8631B561EB23A5EF59534111579602AEEE076D54F785D57B91BB"
  by (rule secp256k1_chain_step[OF sqrt8_chain_209, where a = 8 and b = 1
        and q = "0x91F488876F5C509ABB6E2B05A73C974C11042E5DEC8E40B74669D4A4EFDC6303"])
     (simp_all only: chain_arith)

lemma sqrt8_chain_211:
  "(8::int) ^ 0x7FFFFFFFFFFFFFFFFFFFFFFFFFFFFFFFFFFFFFFFFFFFFFFFFFFFF mod secp256k1_p
   = 0x3FDD92CFADC290E89E2C7E1566B366C31E639789B0FF0EF1C845DD8F9139A204"
  by (rule secp256k1_chain_step[OF sqrt8_chain_210, where a = 8 and b = 1
        and q = "0x1643B37A6A9CD792D9ABE080B79B3E8D3C13482BD38ADBE45FAE7AB287748947C"])
     (simp_all only: chain_arith)

lemma sqrt8_chain_212:
  "(8::int) ^ 0xFFFFFFFFFFFFFFFFFFFFFFFFFFFFFFFFFFFFFFFFFFFFFFFFFFFFF mod secp256k1_p
   = 0x8F2D65DB0FCDB2F1DBED6B6AD6156FD6314B3825C8FEE3B10523970AF945CF4C"
  by (rule secp256k1_chain_step[OF sqrt8_chain_211, where a = 8 and b = 1
        and q = "0x7F767048324A7F689AD9B9A8ED1289EA951F49DCB46C0A4D26937B3B8708510C"])
     (simp_all only: chain_arith)

lemma sqrt8_chain_213:
  "(8::int) ^ 0x1FFFFFFFFFFFFFFFFFFFFFFFFFFFFFFFFFFFFFFFFFFFFFFFFFFFFF mod secp256k1_p
   = 0x824AF477487107BABA57B7E4F34A8F8E9FA40BE933C355D0DFE28ED9D2485328"
  by (rule secp256k1_chain_step[OF sqrt8_chain_212, where a = 8 and b = 1
        and q = "0x2809DFEBD998F913BB6BA88894F449AE2C68FE67CD5A8559055B2A376651AE628"])
     (simp_all only: chain_arith)

lemma sqrt8_chain_214:
  "(8::int) ^ 0x3FFFFFFFFFFFFFFFFFFFFFFFFFFFFFFFFFFFFFFFFFFFFFFFFFFFFF mod secp256k1_p
   = 0xA3B97AF8AD7042AD07615CDDE34E1D334D571632359C787EEE8EF951D94D2604"
  by (rule secp256k1_chain_step[OF sqrt8_chain_213, where a = 8 and b = 1
        and q = "0x21281B1DB1FE236F00C2DD4613B9AF66B2D924D950E1307847C42065964D408C4"])
     (simp_all only: chain_arith)

lemma sqrt8_chain_215:
  "(8::int) ^ 0x7FFFFFFFFFFFFFFFFFFFFFFFFFFFFFFFFFFFFFFFFFFFFFFFFFFFFF mod secp256k1_p
   = 0x11EB03B3B54B9948908D86D2D074E452808C9ED7597C8F2E0910AC0CD3EA7472"
  by (rule secp256k1_chain_step[OF sqrt8_chain_214, where a = 8 and b = 1
        and q = "0x345ADC7DD1ACCC041A04D64D1306920D5C6F82227285D3F06BCAEEDB09429CB52"])
     (simp_all only: chain_arith)

lemma sqrt8_chain_216:
  "(8::int) ^ 0xFFFFFFFFFFFFFFFFFFFFFFFFFFFFFFFFFFFFFFFFFFFFFFFFFFFFFF mod secp256k1_p
   = 0x36071662517A4DCCCB93179F1E6A6FC09C24D33B5C629BBFC464981F3B5BF7E7"
  by (rule secp256k1_chain_step[OF sqrt8_chain_215, where a = 8 and b = 1
        and q = "0xA0871ED5084BC6EE101DD763412EC726055956D613DDBD317F34C2FFBDB6A17"])
     (simp_all only: chain_arith)

lemma sqrt8_chain_217:
  "(8::int) ^ 0x1FFFFFFFFFFFFFFFFFFFFFFFFFFFFFFFFFFFFFFFFFFFFFFFFFFFFFF mod secp256k1_p
   = 0xC9C3A22DDDEF290303A73E802B91A275BE3043337DEE6498199AC7B45342D8BC"
  by (rule secp256k1_chain_step[OF sqrt8_chain_216, where a = 8 and b = 1
        and q = "0x5B37ED1DADA8CA3140349BAB3EFF9BADC4487BBEE9031F75D933C045E3FB02F4"])
     (simp_all only: chain_arith)

lemma sqrt8_chain_218:
  "(8::int) ^ 0x3FFFFFFFFFFFFFFFFFFFFFFFFFFFFFFFFFFFFFFFFFFFFFFFFFFFFFF mod secp256k1_p
   = 0x5F68AF933CDEC6581C5EA773FF1BA2503C8E59AA3A61C586E66D0980B6FE1939"
  by (rule secp256k1_chain_step[OF sqrt8_chain_217, where a = 8 and b = 1
        and q = "0x4F8265163F8FDEECD65B9C6D1F0A664956B029A18BB1C6C49E8BDEBB0E7D0B869"])
     (simp_all only: chain_arith)

lemma sqrt8_chain_219:
  "(8::int) ^ 0x7FFFFFFFFFFFFFFFFFFFFFFFFFFFFFFFFFFFFFFFFFFFFFFFFFFFFFF mod secp256k1_p
   = 0x6613E23E8032D9EE95915597936369189B0FE9D428DF48E718F9329D5F2A4F30"
  by (rule secp256k1_chain_step[OF sqrt8_chain_218, where a = 8 and b = 1
        and q = "0x11C76E8F339CB70F0B115E00058255E475E5E193B1ED8D273B8FD5597F0697128"])
     (simp_all only: chain_arith)

lemma sqrt8_chain_220:
  "(8::int) ^ 0xFFFFFFFFFFFFFFFFFFFFFFFFFFFFFFFFFFFFFFFFFFFFFFFFFFFFFFF mod secp256k1_p
   = 0x8B6EA4881353061827211FFBE3A98E915C034F1BF563361A1D4FDB734E30F313"
  by (rule secp256k1_chain_step[OF sqrt8_chain_219, where a = 8 and b = 1
        and q = "0x1459ECEA95B0FB694D1BDBBA7DE12437FB1FD315DE1A13B55C8F9362AA195ADA3"])
     (simp_all only: chain_arith)

lemma sqrt8_chain_221:
  "(8::int) ^ 0x1FFFFFFFFFFFFFFFFFFFFFFFFFFFFFFFFFFFFFFFFFFFFFFFFFFFFFFF mod secp256k1_p
   = 0x88E6D8CD92F6935AC6B4F9823C4FCEBA3E997F04DF77F5FA65738D31B68A2594"
  by (rule secp256k1_chain_step[OF sqrt8_chain_220, where a = 8 and b = 1
        and q = "0x25F8AB3EC9D5B287305D3969C9BDF619463D0C108208C2DAF0703D6254409348C"])
     (simp_all only: chain_arith)

lemma sqrt8_chain_222:
  "(8::int) ^ 0x3FFFFFFFFFFFFFFFFFFFFFFFFFFFFFFFFFFFFFFFFFFFFFFFFFFFFFFF mod secp256k1_p
   = 0x1FEDAD898F752366DEFC10C571CDEE4107AFCB5FA625286CEB95C5FB076CA56"
  by (rule secp256k1_chain_step[OF sqrt8_chain_221, where a = 8 and b = 1
        and q = "0x249B0B425A92CE5B03165948B5751E1A6C7AAB4CE36E1510DA93020E342CAC3F6"])
     (simp_all only: chain_arith)

lemma sqrt8_chain_223:
  "(8::int) ^ 0x7FFFFFFFFFFFFFFFFFFFFFFFFFFFFFFFFFFFFFFFFFFFFFFFFFFFFFFF mod secp256k1_p
   = 0x33986DD6BFE2AD77450AB1323DF131FC0AF2E18521CEE6870204C7B44F053F9"
  by (rule secp256k1_chain_step[OF sqrt8_chain_222, where a = 8 and b = 1
        and q = "0x1FDB6590B8A99A2D20B75B442D20ECB27FEA571386B903F15466B710C80289"])
     (simp_all only: chain_arith)

lemma sqrt8_chain_224:
  "(8::int) ^ 0xFFFFFFFFFFFFFFFFFFFFFFFFFFFFFFFFFFFFFFFFFFFFFFFFFFFFFFFE mod secp256k1_p
   = 0xF5FDB6E34D4C24B0E71DC76D3CFC7E24C75DF81FFC4591CB6A49F77777286D3C"
  by (rule secp256k1_chain_step[OF sqrt8_chain_223, where a = 1 and b = 0
        and q = "0xA6616862E98C1D7E9A9DB0DAE42F74046AAA7D350C93EB1196160A6D03E1B"])
     (simp_all only: chain_arith)

lemma sqrt8_chain_225:
  "(8::int) ^ 0x1FFFFFFFFFFFFFFFFFFFFFFFFFFFFFFFFFFFFFFFFFFFFFFFFFFFFFFFD mod secp256k1_p
   = 0xA1593B758DA5C4E0676E015CD3C7E9C5A1790F6EFC5DC52D5C585B81D34696A"
  by (rule secp256k1_chain_step[OF sqrt8_chain_224, where a = 8 and b = 1
        and q = "0x762FCDC108F1413AC849A7D1DA2C18ECFF55DBF154103FFCB8DAF819B2A8856CA"])
     (simp_all only: chain_arith)

lemma sqrt8_chain_226:
  "(8::int) ^ 0x3FFFFFFFFFFFFFFFFFFFFFFFFFFFFFFFFFFFFFFFFFFFFFFFFFFFFFFFB mod secp256k1_p
   = 0x9555A55D92ABD70B676800CA6F3E7C6DB49A5612BE8BB30D9796F606314C085"
  by (rule secp256k1_chain_step[OF sqrt8_chain_225, where a = 8 and b = 1
        and q = "0x32D8ADF220DB32152B62D99AC35BD0F33D2B627DB081513046AA7A453AAED55"])
     (simp_all only: chain_arith)

lemma sqrt8_chain_227:
  "(8::int) ^ 0x7FFFFFFFFFFFFFFFFFFFFFFFFFFFFFFFFFFFFFFFFFFFFFFFFFFFFFFF7 mod secp256k1_p
   = 0x4A53C463FC1BB898C240ED5CC015FF00390B48BE6DF3A5D7B8024E5BDE321E62"
  by (rule secp256k1_chain_step[OF sqrt8_chain_226, where a = 8 and b = 1
        and q = "0x2B8E679313D897DABE049119AF2A886E341F1FDF4822B647BFB7AAB288CE47A"])
     (simp_all only: chain_arith)

lemma sqrt8_chain_228:
  "(8::int) ^ 0xFFFFFFFFFFFFFFFFFFFFFFFFFFFFFFFFFFFFFFFFFFFFFFFFFFFFFFFEF mod secp256k1_p
   = 0x472529A14ABE562673C3EE24890C452BC378E49945775247BEE245E202E6167B"
  by (rule secp256k1_chain_step[OF sqrt8_chain_227, where a = 8 and b = 1
        and q = "0xACA44795E9F60E4B5DE62AD3351D0797E0649065CE4D20FE3F547C7B2930F26B"])
     (simp_all only: chain_arith)

lemma sqrt8_chain_229:
  "(8::int) ^ 0x1FFFFFFFFFFFFFFFFFFFFFFFFFFFFFFFFFFFFFFFFFFFFFFFFFFFFFFFDF mod secp256k1_p
   = 0x5C5004CA5539A5AE573E1C79AC2475B64E5AAE1A4B688EC05C4909CAABD3D6A"
  by (rule secp256k1_chain_step[OF sqrt8_chain_228, where a = 8 and b = 1
        and q = "0x9E2D13E436D1F2F2613B4BFD92650EAB452FC390A4351FD5AF7BC2DDF1DEAD02"])
     (simp_all only: chain_arith)

lemma sqrt8_chain_230:
  "(8::int) ^ 0x3FFFFFFFFFFFFFFFFFFFFFFFFFFFFFFFFFFFFFFFFFFFFFFFFFFFFFFFBF mod secp256k1_p
   = 0xCD5E1A0179A147C0E633AA5CFE129838910687994CE5771C08694F51221E67F1"
  by (rule secp256k1_chain_step[OF sqrt8_chain_229, where a = 8 and b = 1
        and q = "0x10A4CE3A35E6D2D8A218B512EBBD6A45D46BA70B98667EE39D8466466B4D501"])
     (simp_all only: chain_arith)

lemma sqrt8_chain_231:
  "(8::int) ^ 0x7FFFFFFFFFFFFFFFFFFFFFFFFFFFFFFFFFFFFFFFFFFFFFFFFFFFFFFF7F mod secp256k1_p
   = 0xF6F77221F5C0A35D972AB9010D23B2380F365D328C96B2D99E8C50D9A3294B10"
  by (rule secp256k1_chain_step[OF sqrt8_chain_230, where a = 8 and b = 1
        and q = "0x525FEC1EBC42F60948FBB33F0248C56D8D82660F2B6E5FF766B23E87D1D6D2D88"])
     (simp_all only: chain_arith)

lemma sqrt8_chain_232:
  "(8::int) ^ 0xFFFFFFFFFFFFFFFFFFFFFFFFFFFFFFFFFFFFFFFFFFFFFFFFFFFFFFFEFF mod secp256k1_p
   = 0x9B349456447EAE2091E1AFC5CA4F297FB98E8BA78828709946570973CA966DEA"
  by (rule secp256k1_chain_step[OF sqrt8_chain_231, where a = 8 and b = 1
        and q = "0x77203F435A5C5B89FB19C9345185B723F6FB76C7B73253E0FB6192715ED11F3CA"])
     (simp_all only: chain_arith)

lemma sqrt8_chain_233:
  "(8::int) ^ 0x1FFFFFFFFFFFFFFFFFFFFFFFFFFFFFFFFFFFFFFFFFFFFFFFFFFFFFFFDFF mod secp256k1_p
   = 0xCF5A92907D3AC46FA88506C47B3B98CD249319A2F3827B6394FB888EAF730879"
  by (rule secp256k1_chain_step[OF sqrt8_chain_232, where a = 8 and b = 1
        and q = "0x2F0C5B3687F88B4B5F546024871A509B563681F33F1EC2838A5A175CC55D16709"])
     (simp_all only: chain_arith)

lemma sqrt8_chain_234:
  "(8::int) ^ 0x3FFFFFFFFFFFFFFFFFFFFFFFFFFFFFFFFFFFFFFFFFFFFFFFFFFFFFFFBFF mod secp256k1_p
   = 0x3840E81744DA9C7F583FAE00AE660632EA265FF30CC5717E86DEA3B850FE3EAB"
  by (rule secp256k1_chain_step[OF sqrt8_chain_233, where a = 8 and b = 1
        and q = "0x53F9CC8886031BB16C3C34D13B5B18200260915B0BC1EE8104EC374131DDD2AB3"])
     (simp_all only: chain_arith)

lemma sqrt8_chain_235:
  "(8::int) ^ 0x7FFFFFFFFFFFFFFFFFFFFFFFFFFFFFFFFFFFFFFFFFFFFFFFFFFFFFFF7FF mod secp256k1_p
   = 0xD9476BB3CC2EF7BFAADA5A2AAC794E79E8917A88E9AA9B39447E52C3250A2F46"
  by (rule secp256k1_chain_step[OF sqrt8_chain_234, where a = 8 and b = 1
        and q = "0x62E3AFF86162057D1DDE44F9172F4DE5078E63A3F27687B8C3C27D362F609B1E"])
     (simp_all only: chain_arith)

lemma sqrt8_chain_236:
  "(8::int) ^ 0xFFFFFFFFFFFFFFFFFFFFFFFFFFFFFFFFFFFFFFFFFFFFFFFFFFFFFFFEFFF mod secp256k1_p
   = 0x36747E3ED0A24784FEBBB861909F5D315CE092D440EBB53AA771149CF14A9015"
  by (rule secp256k1_chain_step[OF sqrt8_chain_235, where a = 8 and b = 1
        and q = "0x5C351441DD99568365CD4226A0DDF3C67A991C3D9D2FA9073D87024C012EE5DE5"])
     (simp_all only: chain_arith)

lemma sqrt8_chain_237:
  "(8::int) ^ 0x1FFFFFFFFFFFFFFFFFFFFFFFFFFFFFFFFFFFFFFFFFFFFFFFFFFFFFFFDFFF mod secp256k1_p
   = 0x60AAC98DA49C7B0BB08AA0C4A248A46F32B36853F0EB70720B940776DD60D616"
  by (rule secp256k1_chain_step[OF sqrt8_chain_236, where a = 8 and b = 1
        and q = "0x5CAAD229399B7033183DB15920D1079F555FA266D681B6DD330F245883F77CEE"])
     (simp_all only: chain_arith)

lemma sqrt8_chain_238:
  "(8::int) ^ 0x3FFFFFFFFFFFFFFFFFFFFFFFFFFFFFFFFFFFFFFFFFFFFFFFFFFFFFFFBFFF mod secp256k1_p
   = 0x4537635E42146ABDBA5E2D6F2AB65882250CB8B78B05CEBDE868930DC49EB5E2"
  by (rule secp256k1_chain_step[OF sqrt8_chain_237, where a = 8 and b = 1
        and q = "0x1240448D4521DB7C53AF9A0C29CE732E2DD51667E83B945BA7FD347EFA43BD522"])
     (simp_all only: chain_arith)

lemma sqrt8_chain_239:
  "(8::int) ^ 0x7FFFFFFFFFFFFFFFFFFFFFFFFFFFFFFFFFFFFFFFFFFFFFFFFFFFFFFF7FFF mod secp256k1_p
   = 0x9C7A850D8A0741901279B3A66DB5B4746F261E5D2C067563DEBE8E69938F2B05"
  by (rule secp256k1_chain_step[OF sqrt8_chain_238, where a = 8 and b = 1
        and q = "0x95B73C65458B810434C418CEAABABE9DB01A1CAA6E1F313697978D21784182D5"])
     (simp_all only: chain_arith)

lemma sqrt8_chain_240:
  "(8::int) ^ 0xFFFFFFFFFFFFFFFFFFFFFFFFFFFFFFFFFFFFFFFFFFFFFFFFFFFFFFFEFFFF mod secp256k1_p
   = 0xED4A07D49972B8DAE782512344A34C7DF68F301BED178D8F0E3220B2B987434A"
  by (rule secp256k1_chain_step[OF sqrt8_chain_239, where a = 8 and b = 1
        and q = "0x2FD2C665CB23BC7A768F0ED52FF9F268D8A0C89A9A7B3BB9696F4D1FB14B834E2"])
     (simp_all only: chain_arith)

lemma sqrt8_chain_241:
  "(8::int) ^ 0x1FFFFFFFFFFFFFFFFFFFFFFFFFFFFFFFFFFFFFFFFFFFFFFFFFFFFFFFDFFFF mod secp256k1_p
   = 0x446B07A3DF57EA5CE067B3EE84B1DA6544BE8042EEDC70E2DF6A01B8A5A1FB25"
  by (rule secp256k1_chain_step[OF sqrt8_chain_240, where a = 8 and b = 1
        and q = "0x6DF913F415A238C57BA6CC94CB75DB9D75B1722B19A6DD8F6DB1A6A92ED5279F5"])
     (simp_all only: chain_arith)

lemma sqrt8_chain_242:
  "(8::int) ^ 0x3FFFFFFFFFFFFFFFFFFFFFFFFFFFFFFFFFFFFFFFFFFFFFFFFFFFFFFFBFFFF mod secp256k1_p
   = 0x1296C4DBCAD0B73EBD29FCAC84BE4E52BF3CB4E8522F22A3051AFB2591F7EF22"
  by (rule secp256k1_chain_step[OF sqrt8_chain_241, where a = 8 and b = 1
        and q = "0x924846738EEE38E1E3D3EA8C03559CB468AB030E75FF785A0793C72A5533C73A"])
     (simp_all only: chain_arith)

lemma sqrt8_chain_243:
  "(8::int) ^ 0x7FFFFFFFFFFFFFFFFFFFFFFFFFFFFFFFFFFFFFFFFFFFFFFFFFFFFFFF7FFFF mod secp256k1_p
   = 0x56D9269630D62C34860E07A442075FFA719535EDBC5D5E7EDA055FAD9E73D5CB"
  by (rule secp256k1_chain_step[OF sqrt8_chain_242, where a = 8 and b = 1
        and q = "0xACC63D18BC28CFE53F9B8ACC9C9AA17F4AB99459E14FA3742B1CB9C7BA688BB"])
     (simp_all only: chain_arith)

lemma sqrt8_chain_244:
  "(8::int) ^ 0xFFFFFFFFFFFFFFFFFFFFFFFFFFFFFFFFFFFFFFFFFFFFFFFFFFFFFFFEFFFFF mod secp256k1_p
   = 0xAF9C6C0E1C194482D1F6D041A01A893D5E5355044AC3F7677C3722C88663CBA8"
  by (rule secp256k1_chain_step[OF sqrt8_chain_243, where a = 8 and b = 1
        and q = "0xEBB4F0FAC9FCFB38A448D031AA10C213CF786758B890E873125249B1C6456DE0"])
     (simp_all only: chain_arith)

lemma sqrt8_chain_245:
  "(8::int) ^ 0x1FFFFFFFFFFFFFFFFFFFFFFFFFFFFFFFFFFFFFFFFFFFFFFFFFFFFFFFDFFFFF mod secp256k1_p
   = 0xAEB8EB036D1C9C3E84723753E853238C2B02D40BAE3ECE522147F3D1EADB68F4"
  by (rule secp256k1_chain_step[OF sqrt8_chain_244, where a = 8 and b = 1
        and q = "0x3C3B9DA7949C597961135F3CE8B3283290E707808CDE2B02F5D997885B47748B4"])
     (simp_all only: chain_arith)

lemma sqrt8_chain_246:
  "(8::int) ^ 0x3FFFFFFFFFFFFFFFFFFFFFFFFFFFFFFFFFFFFFFFFFFFFFFFFFFFFFFFBFFFFF mod secp256k1_p
   = 0x571C64ACB36E852448AD54B16242A45E023080166DE33982FF60267346702091"
  by (rule secp256k1_chain_step[OF sqrt8_chain_245, where a = 8 and b = 1
        and q = "0x3B9FF285AA7F83F1ECF8BC231741688F73524169DF16F93B51C28EACAB4C4A441"])
     (simp_all only: chain_arith)

lemma sqrt8_chain_247:
  "(8::int) ^ 0x7FFFFFFFFFFFFFFFFFFFFFFFFFFFFFFFFFFFFFFFFFFFFFFFFFFFFFFF7FFFFE mod secp256k1_p
   = 0xBE55FD443AD7CA9F38AEFF95ACC578198B085B5D506D7DD5E3766D2FF9174F3"
  by (rule secp256k1_chain_step[OF sqrt8_chain_246, where a = 1 and b = 0
        and q = "0x1DA44F938F53BF5BBBA0B4EB98BABF796B3F7BD10D40EA390A32AD1E8246E432"])
     (simp_all only: chain_arith)

lemma sqrt8_chain_248:
  "(8::int) ^ 0xFFFFFFFFFFFFFFFFFFFFFFFFFFFFFFFFFFFFFFFFFFFFFFFFFFFFFFFEFFFFFC mod secp256k1_p
   = 0x1B0395625582C1A1660C5355A6D6B23BDE9F6A905DD4A2285481B08961B5D75F"
  by (rule secp256k1_chain_step[OF sqrt8_chain_247, where a = 1 and b = 0
        and q = "0x8D83C0D37137528EBC883FEE057FA2A684996BAD0754814C3D9733761108D6"])
     (simp_all only: chain_arith)

lemma sqrt8_chain_249:
  "(8::int) ^ 0x1FFFFFFFFFFFFFFFFFFFFFFFFFFFFFFFFFFFFFFFFFFFFFFFFFFFFFFFDFFFFF8 mod secp256k1_p
   = 0x603A10176755B8DB6152F9202A4D9A04D747A0B94D18B8DFBBA6263B140E154E"
  by (rule secp256k1_chain_step[OF sqrt8_chain_248, where a = 1 and b = 0
        and q = "0x2D9C18F958333385F613598E7C949E613D4CDE77CD07D980058DF6940AD137D"])
     (simp_all only: chain_arith)

lemma sqrt8_chain_250:
  "(8::int) ^ 0x3FFFFFFFFFFFFFFFFFFFFFFFFFFFFFFFFFFFFFFFFFFFFFFFFFFFFFFFBFFFFF0 mod secp256k1_p
   = 0xAD67D8A6C8524D624073AB107D67FA7F6F7DBC3FB04F18023F67A7874474F503"
  by (rule secp256k1_chain_step[OF sqrt8_chain_249, where a = 1 and b = 0
        and q = "0x242B993CD91E0C8ABE9F0F7BADD5A536F9548BC6767816338C98F268A827580F"])
     (simp_all only: chain_arith)

lemma sqrt8_chain_251:
  "(8::int) ^ 0x7FFFFFFFFFFFFFFFFFFFFFFFFFFFFFFFFFFFFFFFFFFFFFFFFFFFFFFF7FFFFE1 mod secp256k1_p
   = 0x19A897C7E895F106A26A9264A234F5E92A38A2EC1D68B188EBF5E4CED405D3B9"
  by (rule secp256k1_chain_step[OF sqrt8_chain_250, where a = 8 and b = 1
        and q = "0x3ABAC278BC2726C22D1F86EAF33DB28E207FA671EF1F346697DA28C9C74B5EDA1"])
     (simp_all only: chain_arith)

lemma sqrt8_chain_252:
  "(8::int) ^ 0xFFFFFFFFFFFFFFFFFFFFFFFFFFFFFFFFFFFFFFFFFFFFFFFFFFFFFFFEFFFFFC3 mod secp256k1_p
   = 0xB60D663E37BBC23CEB67B54549192B98D92FAB5DE9B9D1238F0D1DA0603CBFD9"
  by (rule secp256k1_chain_step[OF sqrt8_chain_251, where a = 8 and b = 1
        and q = "0x1492E564DE5FF2DF99852884096A25B37C306CBC1D5C196BE5D9E2D1D8D31681"])
     (simp_all only: chain_arith)

lemma sqrt8_chain_253:
  "(8::int) ^ 0x1FFFFFFFFFFFFFFFFFFFFFFFFFFFFFFFFFFFFFFFFFFFFFFFFFFFFFFFDFFFFF86 mod secp256k1_p
   = 0x48073BE17EEA6C43B9C4028B61335ED43A314D95778835A9253A48D49D646267"
  by (rule secp256k1_chain_step[OF sqrt8_chain_252, where a = 1 and b = 0
        and q = "0x81770E14026644C902C4368B1D2F170A31B7E9327A53BE7DA1341218CFE2A096"])
     (simp_all only: chain_arith)

lemma sqrt8_chain_254:
  "(8::int) ^ 0x3FFFFFFFFFFFFFFFFFFFFFFFFFFFFFFFFFFFFFFFFFFFFFFFFFFFFFFFBFFFFF0C mod secp256k1_p
   = 0x4218F20AE6C646B363DB68605822FB14264CA8D2587FDD6FBC750D587E76A7EE"
  by (rule secp256k1_chain_step[OF sqrt8_chain_253, where a = 1 and b = 0
        and q = "0x144411E32BBA84D869178A10327AB1731A6182332BEF9B4771C910BC990EFAED"])
     (simp_all only: chain_arith)

lemma exponent_quarter:
  "nat ((secp256k1_p + 1) div 4) = 0x3FFFFFFFFFFFFFFFFFFFFFFFFFFFFFFFFFFFFFFFFFFFFFFFFFFFFFFFBFFFFF0C"
proof -
  have "secp256k1_p + 1 = 4 * 0x3FFFFFFFFFFFFFFFFFFFFFFFFFFFFFFFFFFFFFFFFFFFFFFFFFFFFFFFBFFFFF0C"
    by (simp add: secp256k1_p_def)
  then have "(secp256k1_p + 1) div 4 = 0x3FFFFFFFFFFFFFFFFFFFFFFFFFFFFFFFFFFFFFFFFFFFFFFFFFFFFFFFBFFFFF0C"
    by simp
  then show ?thesis by simp
qed

lemma sqrt8:
  "(8::int) ^ nat ((secp256k1_p + 1) div 4) mod secp256k1_p
   = 0x4218F20AE6C646B363DB68605822FB14264CA8D2587FDD6FBC750D587E76A7EE"
  unfolding exponent_quarter by (rule sqrt8_chain_254)

lemma sqrt8_square:
  "(0x4218F20AE6C646B363DB68605822FB14264CA8D2587FDD6FBC750D587E76A7EE * 0x4218F20AE6C646B363DB68605822FB14264CA8D2587FDD6FBC750D587E76A7EE :: int) mod secp256k1_p = 8"
proof (rule mod_certificate)
  show "(0x4218F20AE6C646B363DB68605822FB14264CA8D2587FDD6FBC750D587E76A7EE * 0x4218F20AE6C646B363DB68605822FB14264CA8D2587FDD6FBC750D587E76A7EE :: int)
        = 0x1110DF3BE5E21E6776516A5FA6702D71D937B2614804CCE0315F9575458FF784 * secp256k1_p + 8"
    unfolding secp256k1_p_def by (simp only: chain_arith)
  show "(0::int) \<le> 8" by simp
  show "8 < secp256k1_p" by (simp add: secp256k1_p_def)
qed

lemma euler_from_root:
  fixes g y p inv :: int
  assumes root: "g ^ n2 mod p = y" and sq: "y * y mod p = g mod p"
      and n: "2 * n2 = n1 + 1" and inv: "inv * g = p + 1" and p: "1 < p"
  shows "g ^ n1 mod p = 1"
proof -
  have "g * g ^ n1 = g ^ n2 * g ^ n2"
    using n by (metis mult_2 power_add power_Suc Suc_eq_plus1)
  then have "(g * g ^ n1) mod p = ((g ^ n2 mod p) * (g ^ n2 mod p)) mod p"
    by (simp add: mod_mult_eq)
  then have a: "(g * g ^ n1) mod p = g mod p" using root sq by simp
  have "(p + 1) * g ^ n1 = g ^ n1 + p * g ^ n1" by (simp add: algebra_simps)
  then have "((p + 1) * g ^ n1) mod p = g ^ n1 mod p" by (simp only: mod_mult_self2)
  moreover have "(p + 1) * g ^ n1 = inv * (g * g ^ n1)"
    unfolding inv[symmetric] by (simp only: mult.assoc)
  ultimately have "g ^ n1 mod p = (inv * (g * g ^ n1)) mod p" by simp
  also have "\<dots> = (inv * ((g * g ^ n1) mod p)) mod p" by (simp only: mod_mult_right_eq)
  also have "\<dots> = (inv * (g mod p)) mod p" by (simp only: a)
  also have "\<dots> = (inv * g) mod p" by (simp only: mod_mult_right_eq)
  also have "\<dots> = (p + 1) mod p" by (simp only: inv)
  also have "\<dots> = 1" using p by simp
  finally show ?thesis .
qed

lemma euler8:
  "(8::int) ^ nat ((secp256k1_p - 1) div 2) mod secp256k1_p = 1"
proof (rule euler_from_root[OF sqrt8 _ secp256k1_p_facts(6)])
  show "(0x4218F20AE6C646B363DB68605822FB14264CA8D2587FDD6FBC750D587E76A7EE * 0x4218F20AE6C646B363DB68605822FB14264CA8D2587FDD6FBC750D587E76A7EE :: int) mod secp256k1_p = 8 mod secp256k1_p"
    unfolding sqrt8_square by (simp add: secp256k1_p_def)
  show "(0x1FFFFFFFFFFFFFFFFFFFFFFFFFFFFFFFFFFFFFFFFFFFFFFFFFFFFFFFDFFFFF86 :: int) * 8 = secp256k1_p + 1"
    by (simp add: secp256k1_p_def)
  show "1 < secp256k1_p" using secp256k1_p_facts(2) by simp
qed

subsection \<open>Hexadecimal text of a number read from hexadecimal text\<close>

lemma lower_hex_digit:
  assumes "ch \<in> set ''0123456789abcdef''"
  shows "hexChar (nat (the (hexDigitValue ch))) = ch"
    and "0 \<le> the (hexDigitValue ch)" and "the (hexDigitValue ch) < 16"
    and "ch \<noteq> CHR ''0'' \<Longrightarrow> 0 < the (hexDigitValue ch)"
  using assms by (auto simp: hexDigitValue_def hexChar_def)

lemma toHexNat_digit: "d < 16 \<Longrightarrow> toHexNat d = [hexChar d]"
  by (subst toHexNat.simps) simp

lemma toHexNat_step:
  "0 < n \<Longrightarrow> d < 16 \<Longrightarrow> toHexNat (16 * n + d) = toHexNat n @ [hexChar d]"
  by (subst toHexNat.simps) simp

lemma toHexNat_foldl:
  "set s \<subseteq> set ''0123456789abcdef'' \<Longrightarrow> 0 < acc \<Longrightarrow>
   0 < foldl (\<lambda>acc ch. 16 * acc + the (hexDigitValue ch)) acc s
   \<and> toHexNat (nat (foldl (\<lambda>acc ch. 16 * acc + the (hexDigitValue ch)) acc s))
       = toHexNat (nat acc) @ s"
proof (induction s arbitrary: acc)
  case Nil
  then show ?case by simp
next
  case (Cons ch s)
  let ?v = "the (hexDigitValue ch)"
  have ch: "ch \<in> set ''0123456789abcdef''" using Cons.prems(1) by simp
  note d = lower_hex_digit(1-3)[OF ch]
  have pos: "0 < 16 * acc + ?v" using Cons.prems(2) d(2) by simp
  have "nat (16 * acc + ?v) = 16 * nat acc + nat ?v"
    using Cons.prems(2) d(2) by (simp add: nat_add_distrib nat_mult_distrib)
  moreover have "toHexNat (16 * nat acc + nat ?v) = toHexNat (nat acc) @ [hexChar (nat ?v)]"
    using Cons.prems(2) d(3) d(2) by (intro toHexNat_step) simp_all
  ultimately have step: "toHexNat (nat (16 * acc + ?v)) = toHexNat (nat acc) @ [ch]"
    using d(1) by simp
  have s: "set s \<subseteq> set ''0123456789abcdef''" using Cons.prems(1) by simp
  show ?case using Cons.IH[OF s pos] step by simp
qed

lemma toString16_hexValue:
  assumes "set (ch # s) \<subseteq> set ''0123456789abcdef''" and "ch \<noteq> CHR ''0''"
  shows "toString16 (hexValue (ch # s)) = ch # s"
proof -
  let ?v = "the (hexDigitValue ch)"
  have ch: "ch \<in> set ''0123456789abcdef''" using assms(1) by simp
  note d = lower_hex_digit[OF ch]
  have pos: "0 < ?v" using d(4) assms(2) by simp
  have s: "set s \<subseteq> set ''0123456789abcdef''" using assms(1) by simp
  have h: "hexValue (ch # s) = foldl (\<lambda>acc ch. 16 * acc + the (hexDigitValue ch)) ?v s"
    by (simp add: hexValue_def)
  note f = toHexNat_foldl[OF s pos]
  have "toHexNat (nat ?v) = [ch]"
    using toHexNat_digit[of "nat ?v"] d(1,3) pos by simp
  then have "toHexNat (nat (hexValue (ch # s))) = ch # s" using f h by simp
  moreover have "\<not> hexValue (ch # s) < 0" using f h by simp
  ultimately show ?thesis by (simp add: toString16_def)
qed

subsection \<open>The key \<open>p + 1\<close>\<close>

lemma big_key_value:
  "hexValue ''fffffffffffffffffffffffffffffffffffffffffffffffffffffffefffffc30''
     = 0xFFFFFFFFFFFFFFFFFFFFFFFFFFFFFFFFFFFFFFFFFFFFFFFFFFFFFFFEFFFFFC30"
  by (simp add: hexValue_def hexDigitValue_def)

lemma big_root_value:
  "hexValue ''4218f20ae6c646b363db68605822fb14264ca8d2587fdd6fbc750d587e76a7ee''
     = 0x4218F20AE6C646B363DB68605822FB14264CA8D2587FDD6FBC750D587E76A7EE"
  by (simp add: hexValue_def hexDigitValue_def)

lemma big_root_neg_value:
  "hexValue ''bde70df51939b94c9c24979fa7dd04ebd9b3572da7802290438af2a681895441''
     = 0xBDE70DF51939B94C9C24979FA7DD04EBD9B3572DA7802290438AF2A681895441"
  by (simp add: hexValue_def hexDigitValue_def)

lemma big_key_text:
  "padStart 64 CHR ''0'' (toString16 0xFFFFFFFFFFFFFFFFFFFFFFFFFFFFFFFFFFFFFFFFFFFFFFFFFFFFFFFEFFFFFC30)
     = ''fffffffffffffffffffffffffffffffffffffffffffffffffffffffefffffc30''"
  unfolding big_key_value[symmetric]
  by (subst toString16_hexValue) (simp_all add: padStart_def)

lemma big_root_text:
  "padStart 64 CHR ''0'' (toString16 0x4218F20AE6C646B363DB68605822FB14264CA8D2587FDD6FBC750D587E76A7EE)
     = ''4218f20ae6c646b363db68605822fb14264ca8d2587fdd6fbc750d587e76a7ee''"
  unfolding big_root_value[symmetric]
  by (subst toString16_hexValue) (simp_all add: padStart_def)

lemma big_root_neg_text:
  "padStart 64 CHR ''0'' (toString16 0xBDE70DF51939B94C9C24979FA7DD04EBD9B3572DA7802290438AF2A681895441)
     = ''bde70df51939b94c9c24979fa7dd04ebd9b3572da7802290438af2a681895441''"
  unfolding big_root_neg_value[symmetric]
  by (subst toString16_hexValue) (simp_all add: padStart_def)

lemma big_key_wellformed:
  "length ''02fffffffffffffffffffffffffffffffffffffffffffffffffffffffefffffc30'' = 66"
  "take 2 ''02fffffffffffffffffffffffffffffffffffffffffffffffffffffffefffffc30'' = ''02''"
  "list_all isHexDigit (drop 2 ''02fffffffffffffffffffffffffffffffffffffffffffffffffffffffefffffc30'')"
  "length ''03fffffffffffffffffffffffffffffffffffffffffffffffffffffffefffffc30'' = 66"
  "take 2 ''03fffffffffffffffffffffffffffffffffffffffffffffffffffffffefffffc30'' = ''03''"
  "list_all isHexDigit (drop 2 ''03fffffffffffffffffffffffffffffffffffffffffffffffffffffffefffffc30'')"
  by (simp_all add: isHexDigit_def hexDigitValue_def)

lemma big_key_range: "secp256k1_p \<le> 0xFFFFFFFFFFFFFFFFFFFFFFFFFFFFFFFFFFFFFFFFFFFFFFFFFFFFFFFEFFFFFC30"
  by (simp add: secp256k1_p_def)

lemma big_key_reduced: "(0xFFFFFFFFFFFFFFFFFFFFFFFFFFFFFFFFFFFFFFFFFFFFFFFFFFFFFFFEFFFFFC30 :: int) mod secp256k1_p = 1"
proof (rule mod_certificate)
  show "(0xFFFFFFFFFFFFFFFFFFFFFFFFFFFFFFFFFFFFFFFFFFFFFFFFFFFFFFFEFFFFFC30 :: int) = 1 * secp256k1_p + 1"
    by (simp add: secp256k1_p_def)
  show "(0::int) \<le> 1" by simp
  show "1 < secp256k1_p" using secp256k1_p_facts(2) by simp
qed

lemma big_key_rhs:
  "(modPow 0xFFFFFFFFFFFFFFFFFFFFFFFFFFFFFFFFFFFFFFFFFFFFFFFFFFFFFFFEFFFFFC30 3 secp256k1_p + 7) mod secp256k1_p = 8"
proof -
  have "modPow 0xFFFFFFFFFFFFFFFFFFFFFFFFFFFFFFFFFFFFFFFFFFFFFFFFFFFFFFFEFFFFFC30 3 secp256k1_p
          = (0xFFFFFFFFFFFFFFFFFFFFFFFFFFFFFFFFFFFFFFFFFFFFFFFFFFFFFFFEFFFFFC30 mod secp256k1_p) ^ 3 mod secp256k1_p"
    by (simp only: power_mod) (simp add: modPow_correct)
  also have "\<dots> = 1" unfolding big_key_reduced using secp256k1_p_facts(2) by simp
  finally show ?thesis by (simp add: secp256k1_p_def)
qed

lemma big_key_euler: "modPow 8 ((secp256k1_p - 1) div 2) secp256k1_p = 1"
  using euler8 by (simp add: modPow_correct secp256k1_p_facts(4))

lemma big_key_root:
  "modPow 8 ((secp256k1_p + 1) div 4) secp256k1_p
     = 0x4218F20AE6C646B363DB68605822FB14264CA8D2587FDD6FBC750D587E76A7EE"
  using sqrt8 by (simp add: modPow_correct secp256k1_p_facts(5))

lemma big_root_even:
  "(0x4218F20AE6C646B363DB68605822FB14264CA8D2587FDD6FBC750D587E76A7EE :: int) mod 2 = 0"
  by simp

lemma big_root_neg:
  "secp256k1_p - 0x4218F20AE6C646B363DB68605822FB14264CA8D2587FDD6FBC750D587E76A7EE
     = 0xBDE70DF51939B94C9C24979FA7DD04EBD9B3572DA7802290438AF2A681895441"
  by (simp add: secp256k1_p_def)

text \<open>
  Claim C5, as stated, fails.  The 33-byte input \<open>02\<close> \<parallel> \<open>p + 1\<close> has an \<open>x\<close> that is not
  below \<open>p\<close>, and \<open>decompressPublicKey\<close> does not reject it: it returns the unreduced \<open>x\<close>
  with the even square root of 8.
\<close>

theorem abscissa_above_p_accepted:
  "secp256k1_p \<le> hexValue (drop 2 ''02fffffffffffffffffffffffffffffffffffffffffffffffffffffffefffffc30'')
   \<and> decompressPublicKey ''02fffffffffffffffffffffffffffffffffffffffffffffffffffffffefffffc30''
       = Inr ''fffffffffffffffffffffffffffffffffffffffffffffffffffffffefffffc304218f20ae6c646b363db68605822fb14264ca8d2587fdd6fbc750d587e76a7ee''"
proof -
  have v: "hexValue (drop 2 ''02fffffffffffffffffffffffffffffffffffffffffffffffffffffffefffffc30'')
             = 0xFFFFFFFFFFFFFFFFFFFFFFFFFFFFFFFFFFFFFFFFFFFFFFFFFFFFFFFEFFFFFC30"
    using big_key_value by simp
  have 1: "secp256k1_p \<le> hexValue (drop 2 ''02fffffffffffffffffffffffffffffffffffffffffffffffffffffffefffffc30'')"
    unfolding v by (rule big_key_range)
  have 2: "decompressPublicKey ''02fffffffffffffffffffffffffffffffffffffffffffffffffffffffefffffc30''
       = Inr ''fffffffffffffffffffffffffffffffffffffffffffffffffffffffefffffc304218f20ae6c646b363db68605822fb14264ca8d2587fdd6fbc750d587e76a7ee''"
    unfolding decompress_wellformed[OF big_key_wellformed(1) disjI1[OF big_key_wellformed(2)]
        big_key_wellformed(3)] Let_def v big_key_rhs big_key_euler big_key_root big_root_even
      big_key_wellformed(2)
    by (simp add: big_key_text big_root_text)
  show ?thesis using 1 2 by (rule conjI)
qed

text \<open>
  Claim C5, amended.  \<open>decompressPublicKey\<close> makes no range check on \<open>x\<close>.  For every 33-byte
  compressed input with prefix \<open>02\<close> or \<open>03\<close>, whether \<open>x\<close> is below \<open>p\<close> or not, \<open>x\<close> is reduced
  modulo \<open>p\<close> when \<open>\<alpha> = x\<^sup>3 + 7 mod p\<close> is computed; the input is rejected, with `Invalid public
  key - no valid y coordinate', exactly when \<open>\<alpha>\<close> fails Euler's test
  \<open>\<alpha>\<^bsup>(p-1)/2\<^esup> \<equiv> 1 (mod p)\<close>; otherwise it is accepted, and the result is the unreduced \<open>x\<close>
  with the \<open>y\<close> among \<open>\<alpha>\<^bsup>(p+1)/4\<^esup> mod p\<close> and its negative that has the parity of the
  prefix.
\<close>

theorem decompress_no_range_check:
  assumes len: "length c = 66"
      and pre: "take 2 c = ''02'' \<or> take 2 c = ''03''"
      and hex: "list_all isHexDigit (drop 2 c)"
  shows "decompressPublicKey c =
     (let x = hexValue (drop 2 c);
          \<alpha> = ((x mod secp256k1_p) ^ 3 + 7) mod secp256k1_p
      in if \<alpha> ^ nat ((secp256k1_p - 1) div 2) mod secp256k1_p \<noteq> 1
         then Inl NoValidYCoordinate
         else let y0 = \<alpha> ^ nat ((secp256k1_p + 1) div 4) mod secp256k1_p;
                  y = (if even y0 \<noteq> (take 2 c = ''02'') then secp256k1_p - y0 else y0)
              in Inr (padStart 64 CHR ''0'' (toString16 x) @
                      padStart 64 CHR ''0'' (toString16 y)))"
proof -
  have a: "\<And>x. (modPow x 3 secp256k1_p + 7) mod secp256k1_p
             = ((x mod secp256k1_p) ^ 3 + 7) mod secp256k1_p"
  proof -
    fix x :: int
    have "((x mod secp256k1_p) ^ 3 + 7) mod secp256k1_p
            = ((x mod secp256k1_p) ^ 3 mod secp256k1_p + 7) mod secp256k1_p"
      by (simp only: mod_add_left_eq)
    also have "\<dots> = (x ^ 3 mod secp256k1_p + 7) mod secp256k1_p"
      by (simp only: power_mod)
    also have "\<dots> = (modPow x 3 secp256k1_p + 7) mod secp256k1_p"
      by (simp add: modPow_correct)
    finally show "(modPow x 3 secp256k1_p + 7) mod secp256k1_p
             = ((x mod secp256k1_p) ^ 3 + 7) mod secp256k1_p" by (rule sym)
  qed
  have l: "\<And>y. modPow y ((secp256k1_p - 1) div 2) secp256k1_p
             = y ^ nat ((secp256k1_p - 1) div 2) mod secp256k1_p"
    using secp256k1_p_facts(4) by (rule modPow_correct)
  have r: "\<And>y. modPow y ((secp256k1_p + 1) div 4) secp256k1_p
             = y ^ nat ((secp256k1_p + 1) div 4) mod secp256k1_p"
    using secp256k1_p_facts(5) by (rule modPow_correct)
  have e: "\<And>y0 :: int. (y0 mod 2 = 0) = even y0" by presburger
  show ?thesis
    unfolding decompress_wellformed[OF len pre hex] Let_def a l r e by (rule refl)
qed

theorem decompress_no_range_check_witness:
  "length ''03fffffffffffffffffffffffffffffffffffffffffffffffffffffffefffffc30'' = 66
   \<and> take 2 ''03fffffffffffffffffffffffffffffffffffffffffffffffffffffffefffffc30'' = ''03''
   \<and> list_all isHexDigit (drop 2 ''03fffffffffffffffffffffffffffffffffffffffffffffffffffffffefffffc30'')
   \<and> secp256k1_p \<le> hexValue (drop 2 ''03fffffffffffffffffffffffffffffffffffffffffffffffffffffffefffffc30'')
   \<and> decompressPublicKey ''03fffffffffffffffffffffffffffffffffffffffffffffffffffffffefffffc30''
       = Inr ''fffffffffffffffffffffffffffffffffffffffffffffffffffffffefffffc30bde70df51939b94c9c24979fa7dd04ebd9b3572da7802290438af2a681895441''"
proof -
  have v: "hexValue (drop 2 ''03fffffffffffffffffffffffffffffffffffffffffffffffffffffffefffffc30'')
             = 0xFFFFFFFFFFFFFFFFFFFFFFFFFFFFFFFFFFFFFFFFFFFFFFFFFFFFFFFEFFFFFC30"
    using big_key_value by simp
  have 1: "secp256k1_p \<le> hexValue (drop 2 ''03fffffffffffffffffffffffffffffffffffffffffffffffffffffffefffffc30'')"
    unfolding v by (rule big_key_range)
  have a: "((0xFFFFFFFFFFFFFFFFFFFFFFFFFFFFFFFFFFFFFFFFFFFFFFFFFFFFFFFEFFFFFC30 mod secp256k1_p) ^ 3 + 7) mod secp256k1_p = 8"
    unfolding big_key_reduced by (simp add: secp256k1_p_def)
  have 2: "decompressPublicKey ''03fffffffffffffffffffffffffffffffffffffffffffffffffffffffefffffc30''
       = Inr ''fffffffffffffffffffffffffffffffffffffffffffffffffffffffefffffc30bde70df51939b94c9c24979fa7dd04ebd9b3572da7802290438af2a681895441''"
    unfolding decompress_no_range_check[OF big_key_wellformed(4)
        disjI2[OF big_key_wellformed(5)] big_key_wellformed(6)] Let_def v a euler8 sqrt8
      big_key_wellformed(5)
    by (simp add: big_root_neg big_key_text big_root_neg_text)
  show ?thesis using big_key_wellformed(4,5,6) 1 2 by (intro conjI)
qed

section \<open>Routing of frames\<close>

lemma clone_same: "clone m = m"
  by (simp add: clone_def)

lemma map_clone: "map clone msgs = msgs"
  by (induction msgs) (simp_all add: clone_same)

lemma filterMessages_filter: "filterMessages msgs p = filter (\<lambda>m. from_id m \<noteq> p) msgs"
  by (simp add: filterMessages_def map_clone)

lemma selectMessages_filter: "selectMessages msgs p = filter (\<lambda>m. to_id m = Some p) msgs"
  by (simp add: selectMessages_def map_clone)

lemma filterIncomingMessages_filter:
  "filterIncomingMessages party ws =
     filter (\<lambda>m. (to_id m = None \<or> to_id m = Some (partyId (config party)))
                 \<and> from_id m \<noteq> partyId (config party)) ws"
  by (simp add: filterIncomingMessages_def conj_commute)

text \<open>
  Claim C7, as stated, fails.  \<open>filterMessages\<close> looks at the sender only: it hands party 0
  a frame that party 1 addressed to party 2, which is no inbound broadcast frame of party
  0.  \<open>selectMessages\<close> looks at the recipient only: it hands party 0 a frame that party 0
  addressed to itself.
\<close>

theorem broadcast_leg_delivers_p2p_frames:
  "filterMessages [\<lparr>from_id = 1, to_id = Some 2, payload = []\<rparr>] 0
     = [\<lparr>from_id = 1, to_id = Some 2, payload = []\<rparr>]
   \<and> spec_broadcast_select 0 [\<lparr>from_id = 1, to_id = Some 2, payload = ([] :: byte list)\<rparr>] = []
   \<and> selectMessages [\<lparr>from_id = 0, to_id = Some 0, payload = []\<rparr>] 0
     = [\<lparr>from_id = 0, to_id = Some 0, payload = []\<rparr>]
   \<and> spec_p2p_select 0 [\<lparr>from_id = 0, to_id = Some 0, payload = ([] :: byte list)\<rparr>] = []"
  by (simp add: filterMessages_filter selectMessages_filter spec_broadcast_select_def
      spec_p2p_select_def)

text \<open>
  Claim C7, amended.  \<open>filterMessages\<close> delivers exactly the frames whose sender is
  not \<open>p\<close>, whatever their recipient; \<open>selectMessages\<close> delivers exactly the frames
  addressed to \<open>p\<close>, whatever their sender; \<open>DKLSParty.filterIncomingMessages\<close> delivers
  exactly the frames that are broadcast or addressed to the party and not sent by it, that
  is the union of the two selections of the specification.  On a batch of broadcast
  frames \<open>filterMessages\<close> is the broadcast selection, and on a batch in which no frame is
  addressed to its own sender \<open>selectMessages\<close> is the point-to-point selection.
\<close>

theorem routing_selects:
  "filterMessages msgs p = filter (\<lambda>m. from_id m \<noteq> p) msgs
   \<and> selectMessages msgs p = filter (\<lambda>m. to_id m = Some p) msgs
   \<and> filterIncomingMessages party ws =
       filter (\<lambda>m. (to_id m = None \<or> to_id m = Some (partyId (config party)))
                   \<and> from_id m \<noteq> partyId (config party)) ws
   \<and> set (filterIncomingMessages party ws) =
       set (spec_broadcast_select (partyId (config party)) ws)
       \<union> set (spec_p2p_select (partyId (config party)) ws)
   \<and> ((\<forall>m \<in> set msgs. to_id m = None)
        \<longrightarrow> filterMessages msgs p = spec_broadcast_select p msgs)
   \<and> ((\<forall>m \<in> set msgs. to_id m \<noteq> Some (from_id m))
        \<longrightarrow> selectMessages msgs p = spec_p2p_select p msgs)"
proof -
  have inc: "set (filterIncomingMessages party ws) =
       set (spec_broadcast_select (partyId (config party)) ws)
       \<union> set (spec_p2p_select (partyId (config party)) ws)"
    by (auto simp: filterIncomingMessages_filter spec_broadcast_select_def spec_p2p_select_def)
  have bc: "(\<forall>m \<in> set msgs. to_id m = None)
        \<longrightarrow> filterMessages msgs p = spec_broadcast_select p msgs"
    by (auto simp: filterMessages_filter spec_broadcast_select_def intro: filter_cong)
  have pp: "(\<forall>m \<in> set msgs. to_id m \<noteq> Some (from_id m))
        \<longrightarrow> selectMessages msgs p = spec_p2p_select p msgs"
    by (auto simp: selectMessages_filter spec_p2p_select_def intro!: filter_cong)
  show ?thesis
    using inc bc pp filterMessages_filter selectMessages_filter filterIncomingMessages_filter
    by blast
qed

theorem routing_selects_witness:
  "filterMessages [\<lparr>from_id = 0, to_id = None, payload = [1]\<rparr>,
                   \<lparr>from_id = 2, to_id = None, payload = [2]\<rparr>] 0
     = spec_broadcast_select 0 [\<lparr>from_id = 0, to_id = None, payload = [1]\<rparr>,
                                \<lparr>from_id = 2, to_id = None, payload = [2]\<rparr>]
   \<and> filterMessages [\<lparr>from_id = 0, to_id = None, payload = [1]\<rparr>,
                   \<lparr>from_id = 2, to_id = None, payload = [2]\<rparr>] 0
     = [\<lparr>from_id = 2, to_id = None, payload = [2]\<rparr>]
   \<and> selectMessages [\<lparr>from_id = 0, to_id = Some 2, payload = [1]\<rparr>,
                     \<lparr>from_id = 2, to_id = Some 0, payload = [2]\<rparr>] 0
     = spec_p2p_select 0 [\<lparr>from_id = 0, to_id = Some 2, payload = [1]\<rparr>,
                          \<lparr>from_id = 2, to_id = Some 0, payload = [2]\<rparr>]
   \<and> selectMessages [\<lparr>from_id = 0, to_id = Some 2, payload = [1]\<rparr>,
                     \<lparr>from_id = 2, to_id = Some 0, payload = [2]\<rparr>] 0
     = [\<lparr>from_id = 2, to_id = Some 0, payload = [2]\<rparr>]
   \<and> filterIncomingMessages
       \<lparr>config = \<lparr>partyId = 0, totalParties = 3, party_threshold = 2, role = None\<rparr>,
        keygenSession = (None :: unit option), signSession = (None :: unit option),
        party_keyshare = None, messageQueue = []\<rparr>
       [\<lparr>from_id = 0, to_id = None, payload = ''YQ==''\<rparr>,
        \<lparr>from_id = 1, to_id = Some 0, payload = ''Yg==''\<rparr>,
        \<lparr>from_id = 1, to_id = Some 2, payload = ''Yw==''\<rparr>,
        \<lparr>from_id = 2, to_id = None, payload = ''ZA==''\<rparr>]
     = [\<lparr>from_id = 1, to_id = Some 0, payload = ''Yg==''\<rparr>,
        \<lparr>from_id = 2, to_id = None, payload = ''ZA==''\<rparr>]"
proof -
  let ?B = "[\<lparr>from_id = 0, to_id = None, payload = [1]\<rparr>,
             \<lparr>from_id = 2, to_id = None, payload = [2]\<rparr>] :: Message list"
  let ?P = "[\<lparr>from_id = 0, to_id = Some 2, payload = [1]\<rparr>,
             \<lparr>from_id = 2, to_id = Some 0, payload = [2]\<rparr>] :: Message list"
  let ?party = "\<lparr>config = \<lparr>partyId = 0, totalParties = 3, party_threshold = 2, role = None\<rparr>,
        keygenSession = (None :: unit option), signSession = (None :: unit option),
        party_keyshare = None, messageQueue = []\<rparr>"
  let ?W = "[\<lparr>from_id = 0, to_id = None, payload = ''YQ==''\<rparr>,
        \<lparr>from_id = 1, to_id = Some 0, payload = ''Yg==''\<rparr>,
        \<lparr>from_id = 1, to_id = Some 2, payload = ''Yw==''\<rparr>,
        \<lparr>from_id = 2, to_id = None, payload = ''ZA==''\<rparr>]"
  have b: "\<forall>m \<in> set ?B. to_id m = None" by simp
  have p: "\<forall>m \<in> set ?P. to_id m \<noteq> Some (from_id m)" by simp
  note tb = routing_selects[of ?B 0 ?party ?W]
  note tp = routing_selects[of ?P 0 ?party ?W]
  have 1: "filterMessages ?B 0 = spec_broadcast_select 0 ?B" using tb b by blast
  have 2: "filterMessages ?B 0 = [\<lparr>from_id = 2, to_id = None, payload = [2]\<rparr>]"
    using tb by simp
  have 3: "selectMessages ?P 0 = spec_p2p_select 0 ?P" using tp p by blast
  have 4: "selectMessages ?P 0 = [\<lparr>from_id = 2, to_id = Some 0, payload = [2]\<rparr>]"
    using tp by simp
  have 5: "filterIncomingMessages ?party ?W
     = [\<lparr>from_id = 1, to_id = Some 0, payload = ''Yg==''\<rparr>,
        \<lparr>from_id = 2, to_id = None, payload = ''ZA==''\<rparr>]"
    using tb by simp
  show ?thesis using 1 2 3 4 5 by (intro conjI)
qed

section \<open>The chain-code commitments vector\<close>

lemma js_get_set_same: "js_get (js_set a i v) i = Some v"
  by (simp add: js_get_def js_set_def nth_append)

lemma js_get_set_other: "j \<noteq> i \<Longrightarrow> js_get (js_set a i v) j = js_get a j"
  by (auto simp: js_get_def js_set_def nth_append)

lemma foldl_js_set_snoc:
  "foldl (\<lambda>commitments (id, c). js_set commitments id c) a (ps @ [x])
   = js_set (foldl (\<lambda>commitments (id, c). js_set commitments id c) a ps) (fst x) (snd x)"
  by (cases x) simp

lemma foldl_js_set_last:
  "idx < length ps \<Longrightarrow>
   \<exists>j. idx \<le> j \<and> j < length ps \<and> fst (ps ! j) = fst (ps ! idx)
      \<and> (\<forall>k. j < k \<and> k < length ps \<longrightarrow> fst (ps ! k) \<noteq> fst (ps ! idx))
      \<and> js_get (foldl (\<lambda>commitments (id, c). js_set commitments id c) a ps) (fst (ps ! idx))
          = Some (snd (ps ! j))"
proof (induction ps rule: rev_induct)
  case Nil
  then show ?case by simp
next
  case (snoc x ps)
  let ?F = "\<lambda>commitments (id, c). js_set commitments id c"
  show ?case
  proof (cases "fst x = fst ((ps @ [x]) ! idx)")
    case True
    have "js_get (foldl ?F a (ps @ [x])) (fst ((ps @ [x]) ! idx)) = Some (snd x)"
      unfolding foldl_js_set_snoc True[symmetric] by (rule js_get_set_same)
    then show ?thesis
      using snoc.prems True
      by (intro exI[of _ "length ps"]) (simp add: nth_append)
  next
    case False
    then have i: "idx < length ps" using snoc.prems
      by (cases "idx = length ps") (auto simp: nth_append)
    then have e: "(ps @ [x]) ! idx = ps ! idx" by (simp add: nth_append)
    from snoc.IH[OF i] obtain j where j: "idx \<le> j" "j < length ps"
      "fst (ps ! j) = fst (ps ! idx)"
      "\<forall>k. j < k \<and> k < length ps \<longrightarrow> fst (ps ! k) \<noteq> fst (ps ! idx)"
      "js_get (foldl ?F a ps) (fst (ps ! idx)) = Some (snd (ps ! j))" by blast
    have g: "js_get (foldl ?F a (ps @ [x])) (fst (ps ! idx)) = Some (snd (ps ! j))"
      unfolding foldl_js_set_snoc using False e j(5) by (simp add: js_get_set_other)
    have k: "\<forall>k. j < k \<and> k < length (ps @ [x]) \<longrightarrow> fst ((ps @ [x]) ! k) \<noteq> fst (ps ! idx)"
    proof (intro allI impI)
      fix k assume "j < k \<and> k < length (ps @ [x])"
      then show "fst ((ps @ [x]) ! k) \<noteq> fst (ps ! idx)"
        using j(4) False e by (cases "k = length ps") (auto simp: nth_append)
    qed
    show ?thesis
      unfolding e using j(1,2,3) g k
      by (intro exI[of _ j]) (simp add: nth_append)
  qed
qed

lemma indexCommitments_last:
  assumes "length commitmentsRaw = length msg1" and "idx < length msg1"
  shows "\<exists>j. idx \<le> j \<and> j < length msg1 \<and> from_id (msg1 ! j) = from_id (msg1 ! idx)
      \<and> (\<forall>k. j < k \<and> k < length msg1 \<longrightarrow> from_id (msg1 ! k) \<noteq> from_id (msg1 ! idx))
      \<and> js_get (indexCommitments n (map from_id msg1) commitmentsRaw) (from_id (msg1 ! idx))
          = Some (commitmentsRaw ! j)"
proof -
  let ?ps = "zip (map from_id msg1) commitmentsRaw"
  have l: "length ?ps = length msg1" using assms(1) by simp
  have f: "\<And>k. k < length msg1 \<Longrightarrow> fst (?ps ! k) = from_id (msg1 ! k)"
    using assms(1) by simp
  have s: "\<And>k. k < length msg1 \<Longrightarrow> snd (?ps ! k) = commitmentsRaw ! k"
    using assms(1) by simp
  have "idx < length ?ps" using assms by simp
  from foldl_js_set_last[OF this, of "replicate n None"] obtain j where
    j: "idx \<le> j" "j < length ?ps" "fst (?ps ! j) = fst (?ps ! idx)"
       "\<forall>k. j < k \<and> k < length ?ps \<longrightarrow> fst (?ps ! k) \<noteq> fst (?ps ! idx)"
       "js_get (foldl (\<lambda>commitments (id, c). js_set commitments id c) (replicate n None) ?ps)
          (fst (?ps ! idx)) = Some (snd (?ps ! j))" by blast
  have jl: "j < length msg1" using j(2) l by simp
  have 3: "from_id (msg1 ! j) = from_id (msg1 ! idx)" using j(3) f jl assms(2) by simp
  have 4: "\<forall>k. j < k \<and> k < length msg1 \<longrightarrow> from_id (msg1 ! k) \<noteq> from_id (msg1 ! idx)"
  proof (intro allI impI)
    fix k assume k: "j < k \<and> k < length msg1"
    then have "j < k \<and> k < length ?ps" unfolding l .
    with j(4) have "fst (?ps ! k) \<noteq> fst (?ps ! idx)" by blast
    then show "from_id (msg1 ! k) \<noteq> from_id (msg1 ! idx)"
      using f[of k] f[OF assms(2)] k by simp
  qed
  have 5: "js_get (indexCommitments n (map from_id msg1) commitmentsRaw) (from_id (msg1 ! idx))
          = Some (commitmentsRaw ! j)"
    using j(5) f[OF assms(2)] s[OF jl] unfolding indexCommitments_def by simp
  show ?thesis using j(1) jl 3 4 5 by blast
qed

lemma indexCommitments_distinct:
  assumes "distinct (map from_id msg1)"
      and "length commitmentsRaw = length msg1"
      and "idx < length msg1"
  shows "js_get (indexCommitments n (map from_id msg1) commitmentsRaw) (from_id (msg1 ! idx))
         = Some (commitmentsRaw ! idx)"
proof -
  from indexCommitments_last[OF assms(2,3), of n] obtain j where
    j: "j < length msg1" "from_id (msg1 ! j) = from_id (msg1 ! idx)"
       "js_get (indexCommitments n (map from_id msg1) commitmentsRaw) (from_id (msg1 ! idx))
          = Some (commitmentsRaw ! j)" by blast
  have e: "map from_id msg1 ! j = map from_id msg1 ! idx" using j(1,2) assms(3) by simp
  have "(map from_id msg1 ! j = map from_id msg1 ! idx) = (j = idx)"
    using assms(1) by (rule nth_eq_iff_index_eq) (use j(1) assms(3) in simp_all)
  then have "j = idx" using e by blast
  then show ?thesis using j(3) by simp
qed

lemma mapParties_Inr:
  "mapParties f i ps = (Inr rs, ps') \<Longrightarrow>
   length rs = length ps \<and> length ps' = length ps
   \<and> (\<forall>k < length ps. f (i + k) (ps ! k) = (Inr (rs ! k), ps' ! k))"
proof (induction ps arbitrary: i rs ps')
  case Nil
  then show ?case by simp
next
  case (Cons p ps)
  obtain r1 p1 where h: "f i p = (r1, p1)" by (cases "f i p")
  obtain r2 ps2 where t: "mapParties f (Suc i) ps = (r2, ps2)"
    by (cases "mapParties f (Suc i) ps")
  from Cons.prems h t obtain r rs2 where
    r1: "r1 = Inr r" and r2: "r2 = Inr rs2" and rs: "rs = r # rs2" and ps': "ps' = p1 # ps2"
    by (auto split: sum.splits)
  note ih = Cons.IH[OF t[unfolded r2]]
  show ?case
  proof (intro conjI allI impI)
    show "length rs = length (p # ps)" using ih rs by simp
    show "length ps' = length (p # ps)" using ih ps' by simp
    fix k assume k: "k < length (p # ps)"
    show "f (i + k) ((p # ps) ! k) = (Inr (rs ! k), ps' ! k)"
    proof (cases k)
      case 0
      then show ?thesis using h r1 rs ps' by simp
    next
      case (Suc m)
      then have "m < length ps" using k by simp
      then have "f (Suc i + m) (ps ! m) = (Inr (rs2 ! m), ps2 ! m)" using ih by blast
      then show ?thesis using Suc rs ps' by simp
    qed
  qed
qed

lemma andThen_Inr:
  "andThen r k = Inr y \<Longrightarrow> \<exists>a p. r = (Inr a, p) \<and> k a p = Inr y"
  by (auto simp: andThen_def split: prod.splits sum.splits)

lemma executeDKG_rounds:
  assumes "executeDKG L parties = Inr keyshares"
  shows "\<exists>msg1 s1 out2 s2 commitmentsRaw s3 out3 s4 out4 s5.
      mapParties (\<lambda>idx p. keygenSession_createFirstMessage L p) 0 parties = (Inr msg1, s1)
    \<and> mapParties (\<lambda>idx p. keygenSession_handleMessages L p
          (filterMessages msg1 (map from_id msg1 ! idx)) None) 0 s1 = (Inr out2, s2)
    \<and> mapParties (\<lambda>idx p. keygenSession_calculateChainCodeCommitment L p) 0 s2
          = (Inr commitmentsRaw, s3)
    \<and> mapParties (\<lambda>idx p. keygenSession_handleMessages L p
          (selectMessages (concat out2) (map from_id msg1 ! idx)) None) 0 s3 = (Inr out3, s4)
    \<and> mapParties (\<lambda>idx p. keygenSession_handleMessages L p
          (selectMessages (concat out3) (map from_id msg1 ! idx))
          (Some (indexCommitments (length s3) (map from_id msg1) commitmentsRaw))) 0 s4
          = (Inr out4, s5)"
proof -
  from assms[unfolded executeDKG_def Let_def] show ?thesis
    apply -
    apply (drule andThen_Inr, elim exE conjE)+
    apply blast
    done
qed


text \<open>
  Claim C8.  A key generation that \<open>executeDKG\<close> completes has run these steps: every
  party's \<open>createFirstMessage\<close> returned its round-1 frame, \<open>msg1\<close>, in the order of the
  parties; after round 2 every party's \<open>calculateChainCodeCommitment\<close> returned its
  commitment, \<open>commitmentsRaw\<close>, in the same order; and in the round that takes the
  commitments every party's \<open>handleMessages\<close> was given the vector
  \<open>indexCommitments\<close> builds from the \<open>from_id\<close>s of \<open>msg1\<close> and \<open>commitmentsRaw\<close>.  In that
  vector the slot \<open>from_id\<close> of the frame of the party at position \<open>idx\<close> holds the commitment
  of the last party that sent this \<open>from_id\<close>: when the ids are distinct, of the party at
  \<open>idx\<close> itself, wherever the id lies (the vector grows when an id is not below the number
  of parties).
\<close>

theorem executeDKG_commitments_by_from_id:
  assumes "executeDKG L parties = Inr keyshares"
  shows "\<exists>msg1 sessions1 out2 sessions2 commitmentsRaw sessions3 out3 sessions4 out4 sessions5.
      mapParties (\<lambda>idx p. keygenSession_createFirstMessage L p) 0 parties
        = (Inr msg1, sessions1)
    \<and> mapParties (\<lambda>idx p. keygenSession_handleMessages L p
          (filterMessages msg1 (map from_id msg1 ! idx)) None) 0 sessions1
        = (Inr out2, sessions2)
    \<and> mapParties (\<lambda>idx p. keygenSession_calculateChainCodeCommitment L p) 0 sessions2
        = (Inr commitmentsRaw, sessions3)
    \<and> mapParties (\<lambda>idx p. keygenSession_handleMessages L p
          (selectMessages (concat out2) (map from_id msg1 ! idx)) None) 0 sessions3
        = (Inr out3, sessions4)
    \<and> mapParties (\<lambda>idx p. keygenSession_handleMessages L p
          (selectMessages (concat out3) (map from_id msg1 ! idx))
          (Some (indexCommitments (length parties) (map from_id msg1) commitmentsRaw)))
          0 sessions4
        = (Inr out4, sessions5)
    \<and> length msg1 = length parties \<and> length commitmentsRaw = length parties
    \<and> (\<forall>idx < length parties.
          keygenSession_createFirstMessage L (parties ! idx)
            = (Inr (msg1 ! idx), sessions1 ! idx)
        \<and> keygenSession_calculateChainCodeCommitment L (sessions2 ! idx)
            = (Inr (commitmentsRaw ! idx), sessions3 ! idx)
        \<and> keygenSession_handleMessages L (sessions4 ! idx)
            (selectMessages (concat out3) (from_id (msg1 ! idx)))
            (Some (indexCommitments (length parties) (map from_id msg1) commitmentsRaw))
            = (Inr (out4 ! idx), sessions5 ! idx)
        \<and> (\<exists>j. idx \<le> j \<and> j < length parties
               \<and> from_id (msg1 ! j) = from_id (msg1 ! idx)
               \<and> (\<forall>k. j < k \<and> k < length parties
                      \<longrightarrow> from_id (msg1 ! k) \<noteq> from_id (msg1 ! idx))
               \<and> js_get (indexCommitments (length parties) (map from_id msg1) commitmentsRaw)
                    (from_id (msg1 ! idx)) = Some (commitmentsRaw ! j))
        \<and> (distinct (map from_id msg1) \<longrightarrow>
               js_get (indexCommitments (length parties) (map from_id msg1) commitmentsRaw)
                 (from_id (msg1 ! idx)) = Some (commitmentsRaw ! idx)))"
proof -
  from executeDKG_rounds[OF assms] obtain msg1 s1 out2 s2 commitmentsRaw s3 out3 s4 out4 s5
    where r1: "mapParties (\<lambda>idx p. keygenSession_createFirstMessage L p) 0 parties
                 = (Inr msg1, s1)"
      and r2: "mapParties (\<lambda>idx p. keygenSession_handleMessages L p
                 (filterMessages msg1 (map from_id msg1 ! idx)) None) 0 s1 = (Inr out2, s2)"
      and cc: "mapParties (\<lambda>idx p. keygenSession_calculateChainCodeCommitment L p) 0 s2
                 = (Inr commitmentsRaw, s3)"
      and r3: "mapParties (\<lambda>idx p. keygenSession_handleMessages L p
                 (selectMessages (concat out2) (map from_id msg1 ! idx)) None) 0 s3
                 = (Inr out3, s4)"
      and r4: "mapParties (\<lambda>idx p. keygenSession_handleMessages L p
                 (selectMessages (concat out3) (map from_id msg1 ! idx))
                 (Some (indexCommitments (length s3) (map from_id msg1) commitmentsRaw))) 0 s4
                 = (Inr out4, s5)"
    by blast
  note m1 = mapParties_Inr[OF r1] and m2 = mapParties_Inr[OF r2] and mc = mapParties_Inr[OF cc]
    and m3 = mapParties_Inr[OF r3] and m4 = mapParties_Inr[OF r4]
  have l1: "length msg1 = length parties" and ls1: "length s1 = length parties"
    using m1 by simp_all
  have ls2: "length s2 = length parties" using m2 ls1 by simp
  have lc: "length commitmentsRaw = length parties" and ls3: "length s3 = length parties"
    using mc ls2 by simp_all
  have ls4: "length s4 = length parties" using m3 ls3 by simp
  note r4' = r4[unfolded ls3]
  note m4' = m4[unfolded ls3]
  have lc1: "length commitmentsRaw = length msg1" using lc l1 by simp
  have each: "\<forall>idx < length parties.
          keygenSession_createFirstMessage L (parties ! idx)
            = (Inr (msg1 ! idx), s1 ! idx)
        \<and> keygenSession_calculateChainCodeCommitment L (s2 ! idx)
            = (Inr (commitmentsRaw ! idx), s3 ! idx)
        \<and> keygenSession_handleMessages L (s4 ! idx)
            (selectMessages (concat out3) (from_id (msg1 ! idx)))
            (Some (indexCommitments (length parties) (map from_id msg1) commitmentsRaw))
            = (Inr (out4 ! idx), s5 ! idx)
        \<and> (\<exists>j. idx \<le> j \<and> j < length parties
               \<and> from_id (msg1 ! j) = from_id (msg1 ! idx)
               \<and> (\<forall>k. j < k \<and> k < length parties
                      \<longrightarrow> from_id (msg1 ! k) \<noteq> from_id (msg1 ! idx))
               \<and> js_get (indexCommitments (length parties) (map from_id msg1) commitmentsRaw)
                    (from_id (msg1 ! idx)) = Some (commitmentsRaw ! j))
        \<and> (distinct (map from_id msg1) \<longrightarrow>
               js_get (indexCommitments (length parties) (map from_id msg1) commitmentsRaw)
                 (from_id (msg1 ! idx)) = Some (commitmentsRaw ! idx))"
  proof (intro allI impI conjI)
    fix idx assume i: "idx < length parties"
    show "keygenSession_createFirstMessage L (parties ! idx) = (Inr (msg1 ! idx), s1 ! idx)"
      using m1 i by simp
    show "keygenSession_calculateChainCodeCommitment L (s2 ! idx)
            = (Inr (commitmentsRaw ! idx), s3 ! idx)"
      using mc i ls2 by simp
    have "keygenSession_handleMessages L (s4 ! idx)
            (selectMessages (concat out3) (map from_id msg1 ! (0 + idx)))
            (Some (indexCommitments (length parties) (map from_id msg1) commitmentsRaw))
            = (Inr (out4 ! idx), s5 ! idx)"
      using m4' i ls4 by simp
    then show "keygenSession_handleMessages L (s4 ! idx)
            (selectMessages (concat out3) (from_id (msg1 ! idx)))
            (Some (indexCommitments (length parties) (map from_id msg1) commitmentsRaw))
            = (Inr (out4 ! idx), s5 ! idx)"
      using i l1 by simp
    have i1: "idx < length msg1" using i l1 by simp
    show "\<exists>j. idx \<le> j \<and> j < length parties
               \<and> from_id (msg1 ! j) = from_id (msg1 ! idx)
               \<and> (\<forall>k. j < k \<and> k < length parties
                      \<longrightarrow> from_id (msg1 ! k) \<noteq> from_id (msg1 ! idx))
               \<and> js_get (indexCommitments (length parties) (map from_id msg1) commitmentsRaw)
                    (from_id (msg1 ! idx)) = Some (commitmentsRaw ! j)"
      using indexCommitments_last[OF lc1 i1, of "length parties"] unfolding l1 .
    assume "distinct (map from_id msg1)"
    then show "js_get (indexCommitments (length parties) (map from_id msg1) commitmentsRaw)
                 (from_id (msg1 ! idx)) = Some (commitmentsRaw ! idx)"
      using lc1 i1 by (rule indexCommitments_distinct)
  qed
  show ?thesis
    using r1 r2 cc r3 r4' l1 lc each by blast
qed

lemma demo_executeDKG:
  "executeDKG demo_dkls [(0, []), (5, []), (2, [])]
     = Inr [[0, 100, 0, 102, 0, 0, 105], [5, 100, 0, 102, 0, 0, 105],
            [2, 100, 0, 102, 0, 0, 105]]"
  by (simp add: executeDKG_def andThen_def demo_dkls_def indexCommitments_def js_set_def
      filterMessages_def selectMessages_def clone_def Let_def numeral_3_eq_3)

theorem executeDKG_commitments_by_from_id_witness:
  "executeDKG demo_dkls [(0, []), (5, []), (2, [])]
     = Inr [[0, 100, 0, 102, 0, 0, 105], [5, 100, 0, 102, 0, 0, 105],
            [2, 100, 0, 102, 0, 0, 105]]
   \<and> fst (keygenSession_createFirstMessage demo_dkls (5, []))
       = Inr \<lparr>from_id = 5, to_id = None, payload = []\<rparr>
   \<and> fst (keygenSession_calculateChainCodeCommitment demo_dkls (5, [])) = Inr 105
   \<and> distinct [0 :: nat, 5, 2]
   \<and> indexCommitments 3 [0, 5, 2] [100 :: nat, 105, 102]
       = [Some 100, None, Some 102, None, None, Some 105]
   \<and> js_get (indexCommitments 3 [0, 5, 2] [100 :: nat, 105, 102]) 5 = Some 105
   \<and> js_get (indexCommitments 3 [0, 5, 2] [100 :: nat, 105, 102]) 2 = Some 102"
proof -
  let ?P = "[(0, []), (5, []), (2, [])] :: (nat \<times> nat option list) list"
  let ?m = "[\<lparr>from_id = 0, to_id = None, payload = ([] :: byte list)\<rparr>,
             \<lparr>from_id = 5, to_id = None, payload = []\<rparr>,
             \<lparr>from_id = 2, to_id = None, payload = []\<rparr>]"
  from executeDKG_commitments_by_from_id[OF demo_executeDKG]
  obtain msg1 sessions1 out2 sessions2 commitmentsRaw sessions3 where
    r1: "mapParties (\<lambda>idx p. keygenSession_createFirstMessage demo_dkls p) 0 ?P
           = (Inr msg1, sessions1)"
    and r2: "mapParties (\<lambda>idx p. keygenSession_handleMessages demo_dkls p
          (filterMessages msg1 (map from_id msg1 ! idx)) None) 0 sessions1
        = (Inr out2, sessions2)"
    and cc: "mapParties (\<lambda>idx p. keygenSession_calculateChainCodeCommitment demo_dkls p) 0
               sessions2 = (Inr commitmentsRaw, sessions3)"
    and each: "\<forall>idx < length ?P. distinct (map from_id msg1) \<longrightarrow>
               js_get (indexCommitments (length ?P) (map from_id msg1) commitmentsRaw)
                 (from_id (msg1 ! idx)) = Some (commitmentsRaw ! idx)"
    by blast
  have m: "msg1 = ?m" and s1: "sessions1 = ?P"
    using r1 by (simp_all add: demo_dkls_def)
  have s2: "sessions2 = ?P"
    using r2 unfolding m s1 by (simp add: demo_dkls_def)
  have c: "commitmentsRaw = [100, 105, 102]"
    using cc unfolding s2 by (simp add: demo_dkls_def)
  have d: "distinct [0 :: nat, 5, 2]" by simp
  have 1: "js_get (indexCommitments 3 [0, 5, 2] [100 :: nat, 105, 102]) 5 = Some 105"
    using each[rule_format, of 1] unfolding m c by (simp add: numeral_3_eq_3)
  have 2: "js_get (indexCommitments 3 [0, 5, 2] [100 :: nat, 105, 102]) 2 = Some 102"
    using each[rule_format, of 2] unfolding m c by (simp add: numeral_3_eq_3)
  have v: "indexCommitments 3 [0, 5, 2] [100 :: nat, 105, 102]
       = [Some 100, None, Some 102, None, None, Some 105]"
    by (simp add: indexCommitments_def js_set_def numeral_3_eq_3)
  have f: "fst (keygenSession_createFirstMessage demo_dkls (5, []))
       = Inr \<lparr>from_id = 5, to_id = None, payload = []\<rparr>"
    by (simp add: demo_dkls_def)
  have g: "fst (keygenSession_calculateChainCodeCommitment demo_dkls (5, [])) = Inr 105"
    by (simp add: demo_dkls_def)
  show ?thesis using demo_executeDKG f g d v 1 2 by (intro conjI)
qed

section \<open>Evaluation on the example library\<close>

lemmas demo_defs =
  signMessage_def signRounds_def andThen_def slice0_def Keyshare_toBytes_def
  Keyshare_fromBytes_def SignSession_new_def filterMessages_def selectMessages_def clone_def
  bytesToHex_def hexChar_def calculateV_def demo_dkls_def demo_env_def demo_keyshares_def
  Let_def

section \<open>One-shot signing sessions and pre-signatures\<close>

lemma combine_spends_session:
  assumes "combine L E party messages = (Inr sg, party')"
  shows "signSession party' = None" and "keygenSession party' = keygenSession party"
  using assms
  by (auto simp: combine_def Let_def split: option.splits sum.splits prod.splits if_splits)

lemma no_session_lastMessage:
  "signSession party = None \<Longrightarrow> lastMessage L E party h = (Inl NoActiveSignSession, party)"
  by (simp add: lastMessage_def)

lemma no_session_combine:
  "signSession party = None \<Longrightarrow> combine L E party ms = (Inl NoActiveSignSession, party)"
  by (simp add: combine_def)

lemma session_lastMessage:
  "signSession party = Some session \<Longrightarrow>
   fst (lastMessage L E party h) =
     (case fst (signSession_lastMessage L session h) of
        Inl e \<Rightarrow> Inl (LibraryError e)
      | Inr msg \<Rightarrow> Inr (toWireMessage E msg))"
  by (simp add: lastMessage_def split: prod.splits sum.splits)

lemma session_combine:
  "signSession party = Some session \<Longrightarrow>
   fst (combine L E party ms) \<noteq> Inl NoActiveSignSession"
  by (simp add: combine_def Let_def split: prod.splits sum.splits)

lemma combine_library_throws:
  assumes "signSession party = Some session"
      and "signSession_combine L session (map (fromWireMessage E) messages) = (Inl e, session')"
  shows "combine L E party messages
           = (Inl (LibraryError e), party\<lparr>signSession := Some session'\<rparr>)"
  using assms by (simp add: combine_def)

lemma signWithPreSignature_marks:
  assumes "signWithPreSignature L this objects h ps = (res, this', objects')"
  shows "presig_id (objects' ps) \<in> consumedPreSignatures this' \<or> consumed (objects' ps)"
    and "(\<exists>sg. res = Inr sg) \<Longrightarrow>
           presig_id (objects' ps) \<in> consumedPreSignatures this' \<and> consumed (objects' ps)"
  using assms
  by (auto simp: signWithPreSignature_def Let_def split: if_splits prod.splits sum.splits)

lemma signWithPreSignature_refuses:
  assumes "presig_id (objects ps) \<in> consumedPreSignatures this \<or> consumed (objects ps)"
  shows "signWithPreSignature L this objects h ps = (Inl PreSignatureAlreadyUsed, this, objects)
       \<or> signWithPreSignature L this objects h ps
            = (Inl PreSignatureAlreadyConsumed, this, objects)"
  using assms by (auto simp: signWithPreSignature_def)

text \<open>
  Claim C1, as stated, fails for a \<open>DKLSParty\<close> whose \<open>combine\<close> did not return a signature.
  The party has finished its pre-signature rounds; \<open>combine\<close> is called once, with an empty
  batch, and the library refuses it.  \<open>DKLSParty.combine\<close> passes the exception on before it
  reaches \<open>this.signSession = undefined\<close>: the party is as it was, \<open>getSessionType\<close> still says
  `signing', \<open>hasActiveSession\<close> is true, and a further \<open>lastMessage\<close> or \<open>combine\<close> is not
  refused with `No active sign session' but handed to the library.
\<close>

theorem failed_combine_keeps_session:
  "combine demo_dkls demo_env demo_party []
     = (Inl (LibraryError ''missing messages''), demo_party)
   \<and> getSessionType demo_party = ''signing''
   \<and> hasActiveSession demo_party
   \<and> fst (lastMessage demo_dkls demo_env demo_party [0x2C, 0xF2, 0x4D, 0xBA, 0x5F, 0xB0, 0xA3, 0x0E, 0x26, 0xE8, 0x3B, 0x2A, 0xC5, 0xB9, 0xE2, 0x9E, 0x1B, 0x16, 0x1E, 0x5C, 0x1F, 0xA7, 0x42, 0x5E, 0x73, 0x04, 0x33, 0x62, 0x93, 0x8B, 0x98, 0x24])
       \<noteq> Inl NoActiveSignSession
   \<and> fst (combine demo_dkls demo_env demo_party
            [\<lparr>from_id = 1, to_id = None, payload = []\<rparr>])
       \<noteq> Inl NoActiveSignSession"
proof -
  have s: "signSession demo_party = Some 0" by (simp add: demo_party_def)
  have 1: "combine demo_dkls demo_env demo_party []
     = (Inl (LibraryError ''missing messages''), demo_party)"
    by (simp add: combine_def demo_dkls_def demo_party_def)
  have 2: "getSessionType demo_party = ''signing''"
    by (simp add: getSessionType_def demo_party_def)
  have 3: "hasActiveSession demo_party"
    by (simp add: hasActiveSession_def demo_party_def)
  have 4: "fst (lastMessage demo_dkls demo_env demo_party [0x2C, 0xF2, 0x4D, 0xBA, 0x5F, 0xB0, 0xA3, 0x0E, 0x26, 0xE8, 0x3B, 0x2A, 0xC5, 0xB9, 0xE2, 0x9E, 0x1B, 0x16, 0x1E, 0x5C, 0x1F, 0xA7, 0x42, 0x5E, 0x73, 0x04, 0x33, 0x62, 0x93, 0x8B, 0x98, 0x24])
       \<noteq> Inl NoActiveSignSession"
    unfolding session_lastMessage[OF s] by (simp split: sum.splits)
  have 5: "fst (combine demo_dkls demo_env demo_party
            [\<lparr>from_id = 1, to_id = None, payload = []\<rparr>])
       \<noteq> Inl NoActiveSignSession"
    using s by (rule session_combine)
  show ?thesis using 1 2 3 4 5 by (intro conjI)
qed

text \<open>
  Claim C1, amended.  Once \<open>DKLSParty.combine\<close> has returned a signature, the party has no
  signing session: a further \<open>lastMessage\<close> or \<open>combine\<close> fails with `No active sign
  session', and \<open>getSessionType\<close> and \<open>hasActiveSession\<close> show that the session is gone.
  Whatever a call of \<open>signWithPreSignature\<close> on a pre-signature did, a second call on the
  same pre-signature fails, with `CRITICAL: Pre-signature has already been used!' or
  `Pre-signature has already been consumed', and changes nothing; after a call that
  returned a signature, \<open>isConsumed\<close> and the \<open>consumed\<close> flag of the pre-signature both
  say so.  When the library's \<open>combine\<close> throws, \<open>DKLSParty.combine\<close> throws the same and
  the party keeps its session (in the state the library left it): \<open>hasActiveSession\<close> is
  true, \<open>getSessionType\<close> is `signing' when no key generation is active, and the outcome of
  a further \<open>lastMessage\<close> or \<open>combine\<close> is the library's, not `No active sign session'.
\<close>

theorem one_shot_enforcement:
  "(combine L E party messages = (Inr sg, party') \<longrightarrow>
        lastMessage L E party' digest = (Inl NoActiveSignSession, party')
      \<and> combine L E party' messages2 = (Inl NoActiveSignSession, party')
      \<and> signSession party' = None
      \<and> getSessionType party' \<noteq> ''signing''
      \<and> hasActiveSession party' = (keygenSession party \<noteq> None))
   \<and> (signWithPreSignature L this objects digest ps = (res, this', objects') \<longrightarrow>
        (signWithPreSignature L this' objects' digest2 ps
           = (Inl PreSignatureAlreadyUsed, this', objects')
         \<or> signWithPreSignature L this' objects' digest2 ps
           = (Inl PreSignatureAlreadyConsumed, this', objects'))
      \<and> ((\<exists>signature. res = Inr signature) \<longrightarrow>
            isConsumed this' (presig_id (objects' ps)) \<and> consumed (objects' ps)))
   \<and> (signSession party = Some session
        \<and> signSession_combine L session (map (fromWireMessage E) messages) = (Inl e, session')
      \<longrightarrow>
        combine L E party messages
          = (Inl (LibraryError e), party\<lparr>signSession := Some session'\<rparr>)
      \<and> hasActiveSession (party\<lparr>signSession := Some session'\<rparr>)
      \<and> (keygenSession party = None \<longrightarrow>
            getSessionType (party\<lparr>signSession := Some session'\<rparr>) = ''signing'')
      \<and> fst (lastMessage L E (party\<lparr>signSession := Some session'\<rparr>) digest) =
          (case fst (signSession_lastMessage L session' digest) of
             Inl e \<Rightarrow> Inl (LibraryError e)
           | Inr msg \<Rightarrow> Inr (toWireMessage E msg))
      \<and> fst (lastMessage L E (party\<lparr>signSession := Some session'\<rparr>) digest)
          \<noteq> Inl NoActiveSignSession
      \<and> fst (combine L E (party\<lparr>signSession := Some session'\<rparr>) messages2)
          \<noteq> Inl NoActiveSignSession)"
proof (intro conjI)
  show "combine L E party messages = (Inr sg, party') \<longrightarrow>
        lastMessage L E party' digest = (Inl NoActiveSignSession, party')
      \<and> combine L E party' messages2 = (Inl NoActiveSignSession, party')
      \<and> signSession party' = None
      \<and> getSessionType party' \<noteq> ''signing''
      \<and> hasActiveSession party' = (keygenSession party \<noteq> None)"
  proof (intro impI conjI)
    assume c: "combine L E party messages = (Inr sg, party')"
    note s = combine_spends_session[OF c]
    show "lastMessage L E party' digest = (Inl NoActiveSignSession, party')"
      using s(1) by (rule no_session_lastMessage)
    show "combine L E party' messages2 = (Inl NoActiveSignSession, party')"
      using s(1) by (rule no_session_combine)
    show "signSession party' = None" by (rule s(1))
    show "getSessionType party' \<noteq> ''signing''"
      using s(1) by (simp add: getSessionType_def)
    show "hasActiveSession party' = (keygenSession party \<noteq> None)"
      using s by (simp add: hasActiveSession_def)
  qed
next
  show "signWithPreSignature L this objects digest ps = (res, this', objects') \<longrightarrow>
        (signWithPreSignature L this' objects' digest2 ps
           = (Inl PreSignatureAlreadyUsed, this', objects')
         \<or> signWithPreSignature L this' objects' digest2 ps
           = (Inl PreSignatureAlreadyConsumed, this', objects'))
      \<and> ((\<exists>signature. res = Inr signature) \<longrightarrow>
            isConsumed this' (presig_id (objects' ps)) \<and> consumed (objects' ps))"
  proof (rule impI, rule conjI)
    assume p: "signWithPreSignature L this objects digest ps = (res, this', objects')"
    show "signWithPreSignature L this' objects' digest2 ps
           = (Inl PreSignatureAlreadyUsed, this', objects')
         \<or> signWithPreSignature L this' objects' digest2 ps
           = (Inl PreSignatureAlreadyConsumed, this', objects')"
      using signWithPreSignature_marks(1)[OF p] by (rule signWithPreSignature_refuses)
    show "(\<exists>signature. res = Inr signature) \<longrightarrow>
            isConsumed this' (presig_id (objects' ps)) \<and> consumed (objects' ps)"
      using signWithPreSignature_marks(2)[OF p] by (simp add: isConsumed_def)
  qed
next
  show "signSession party = Some session
        \<and> signSession_combine L session (map (fromWireMessage E) messages) = (Inl e, session')
      \<longrightarrow>
        combine L E party messages
          = (Inl (LibraryError e), party\<lparr>signSession := Some session'\<rparr>)
      \<and> hasActiveSession (party\<lparr>signSession := Some session'\<rparr>)
      \<and> (keygenSession party = None \<longrightarrow>
            getSessionType (party\<lparr>signSession := Some session'\<rparr>) = ''signing'')
      \<and> fst (lastMessage L E (party\<lparr>signSession := Some session'\<rparr>) digest) =
          (case fst (signSession_lastMessage L session' digest) of
             Inl e \<Rightarrow> Inl (LibraryError e)
           | Inr msg \<Rightarrow> Inr (toWireMessage E msg))
      \<and> fst (lastMessage L E (party\<lparr>signSession := Some session'\<rparr>) digest)
          \<noteq> Inl NoActiveSignSession
      \<and> fst (combine L E (party\<lparr>signSession := Some session'\<rparr>) messages2)
          \<noteq> Inl NoActiveSignSession"
  proof (rule impI)
    assume a: "signSession party = Some session
        \<and> signSession_combine L session (map (fromWireMessage E) messages) = (Inl e, session')"
    let ?p = "party\<lparr>signSession := Some session'\<rparr>"
    have s: "signSession ?p = Some session'" by simp
    have 1: "combine L E party messages = (Inl (LibraryError e), ?p)"
      using a by (simp add: combine_library_throws)
    have 2: "hasActiveSession ?p" by (simp add: hasActiveSession_def)
    have 3: "keygenSession party = None \<longrightarrow> getSessionType ?p = ''signing''"
      by (simp add: getSessionType_def)
    note 4 = session_lastMessage[OF s, of L E digest]
    have 5: "fst (lastMessage L E ?p digest) \<noteq> Inl NoActiveSignSession"
      unfolding 4 by (simp split: sum.splits)
    have 6: "fst (combine L E ?p messages2) \<noteq> Inl NoActiveSignSession"
      using s by (rule session_combine)
    show "combine L E party messages = (Inl (LibraryError e), ?p)
      \<and> hasActiveSession ?p
      \<and> (keygenSession party = None \<longrightarrow> getSessionType ?p = ''signing'')
      \<and> fst (lastMessage L E ?p digest) =
          (case fst (signSession_lastMessage L session' digest) of
             Inl e \<Rightarrow> Inl (LibraryError e)
           | Inr msg \<Rightarrow> Inr (toWireMessage E msg))
      \<and> fst (lastMessage L E ?p digest) \<noteq> Inl NoActiveSignSession
      \<and> fst (combine L E ?p messages2) \<noteq> Inl NoActiveSignSession"
      using 1 2 3 4 5 6 by (intro conjI)
  qed
qed

theorem one_shot_enforcement_witness:
  "combine demo_dkls demo_env demo_party [\<lparr>from_id = 1, to_id = None, payload = []\<rparr>]
     = (Inr (demo_r, demo_s), demo_party\<lparr>signSession := None\<rparr>)
   \<and> lastMessage demo_dkls demo_env (demo_party\<lparr>signSession := None\<rparr>) [0x2C, 0xF2, 0x4D, 0xBA, 0x5F, 0xB0, 0xA3, 0x0E, 0x26, 0xE8, 0x3B, 0x2A, 0xC5, 0xB9, 0xE2, 0x9E, 0x1B, 0x16, 0x1E, 0x5C, 0x1F, 0xA7, 0x42, 0x5E, 0x73, 0x04, 0x33, 0x62, 0x93, 0x8B, 0x98, 0x24]
       = (Inl NoActiveSignSession, demo_party\<lparr>signSession := None\<rparr>)
   \<and> combine demo_dkls demo_env (demo_party\<lparr>signSession := None\<rparr>)
        [\<lparr>from_id = 1, to_id = None, payload = []\<rparr>]
       = (Inl NoActiveSignSession, demo_party\<lparr>signSession := None\<rparr>)
   \<and> getSessionType demo_party = ''signing''
   \<and> getSessionType (demo_party\<lparr>signSession := None\<rparr>) = ''none''
   \<and> fst (signWithPreSignature demo_dkls demo_manager demo_presignatures [0x2C, 0xF2, 0x4D, 0xBA, 0x5F, 0xB0, 0xA3, 0x0E, 0x26, 0xE8, 0x3B, 0x2A, 0xC5, 0xB9, 0xE2, 0x9E, 0x1B, 0x16, 0x1E, 0x5C, 0x1F, 0xA7, 0x42, 0x5E, 0x73, 0x04, 0x33, 0x62, 0x93, 0x8B, 0x98, 0x24] 0)
       = Inr (Some [demo_r, demo_s])
   \<and> fst (signWithPreSignature demo_dkls
            (fst (snd (signWithPreSignature demo_dkls demo_manager demo_presignatures [0x2C, 0xF2, 0x4D, 0xBA, 0x5F, 0xB0, 0xA3, 0x0E, 0x26, 0xE8, 0x3B, 0x2A, 0xC5, 0xB9, 0xE2, 0x9E, 0x1B, 0x16, 0x1E, 0x5C, 0x1F, 0xA7, 0x42, 0x5E, 0x73, 0x04, 0x33, 0x62, 0x93, 0x8B, 0x98, 0x24] 0)))
            (snd (snd (signWithPreSignature demo_dkls demo_manager demo_presignatures [0x2C, 0xF2, 0x4D, 0xBA, 0x5F, 0xB0, 0xA3, 0x0E, 0x26, 0xE8, 0x3B, 0x2A, 0xC5, 0xB9, 0xE2, 0x9E, 0x1B, 0x16, 0x1E, 0x5C, 0x1F, 0xA7, 0x42, 0x5E, 0x73, 0x04, 0x33, 0x62, 0x93, 0x8B, 0x98, 0x24] 0)))
            [0x48, 0x6E, 0xA4, 0x62, 0x24, 0xD1, 0xBB, 0x4F, 0xB6, 0x80, 0xF3, 0x4F, 0x7C, 0x9A, 0xD9, 0x6A, 0x8F, 0x24, 0xEC, 0x88, 0xBE, 0x73, 0xEA, 0x8E, 0x5A, 0x6C, 0x65, 0x26, 0x0E, 0x9C, 0xB8, 0xA7] 0)
       = Inl PreSignatureAlreadyUsed
   \<and> \<not> isConsumed demo_manager ''presig-1''
   \<and> isConsumed
        (fst (snd (signWithPreSignature demo_dkls demo_manager demo_presignatures [0x2C, 0xF2, 0x4D, 0xBA, 0x5F, 0xB0, 0xA3, 0x0E, 0x26, 0xE8, 0x3B, 0x2A, 0xC5, 0xB9, 0xE2, 0x9E, 0x1B, 0x16, 0x1E, 0x5C, 0x1F, 0xA7, 0x42, 0x5E, 0x73, 0x04, 0x33, 0x62, 0x93, 0x8B, 0x98, 0x24] 0)))
        ''presig-1''
   \<and> signSession demo_party = Some 0
   \<and> signSession_combine demo_dkls 0 (map (fromWireMessage demo_env) [])
       = (Inl ''missing messages'', 0)
   \<and> combine demo_dkls demo_env demo_party []
       = (Inl (LibraryError ''missing messages''), demo_party\<lparr>signSession := Some 0\<rparr>)
   \<and> hasActiveSession (demo_party\<lparr>signSession := Some 0\<rparr>)
   \<and> getSessionType (demo_party\<lparr>signSession := Some 0\<rparr>) = ''signing''"
proof -
  let ?spent = "demo_party\<lparr>signSession := None\<rparr>"
  let ?kept = "demo_party\<lparr>signSession := Some 0\<rparr>"
  let ?batch = "[\<lparr>from_id = 1, to_id = None, payload = []\<rparr>] :: WireMessage list"
  let ?X = "signWithPreSignature demo_dkls demo_manager demo_presignatures [0x2C, 0xF2, 0x4D, 0xBA, 0x5F, 0xB0, 0xA3, 0x0E, 0x26, 0xE8, 0x3B, 0x2A, 0xC5, 0xB9, 0xE2, 0x9E, 0x1B, 0x16, 0x1E, 0x5C, 0x1F, 0xA7, 0x42, 0x5E, 0x73, 0x04, 0x33, 0x62, 0x93, 0x8B, 0x98, 0x24] 0"
  have c: "combine demo_dkls demo_env demo_party ?batch = (Inr (demo_r, demo_s), ?spent)"
    by (simp add: combine_def demo_dkls_def demo_party_def)
  have x: "?X = (fst ?X, fst (snd ?X), snd (snd ?X))" by simp
  have r: "fst ?X = Inr (Some [demo_r, demo_s])"
    by (simp add: signWithPreSignature_def demo_dkls_def demo_manager_def demo_presignatures_def
        filterMessages_def clone_def Let_def)
  have i: "presig_id (snd (snd ?X) 0) = ''presig-1''"
    by (simp add: signWithPreSignature_def demo_dkls_def demo_manager_def demo_presignatures_def
        filterMessages_def clone_def Let_def)
  have n: "\<not> isConsumed demo_manager ''presig-1''"
    by (simp add: isConsumed_def demo_manager_def)
  have g1: "getSessionType demo_party = ''signing''"
    by (simp add: getSessionType_def demo_party_def)
  have g2: "getSessionType ?spent = ''none''"
    by (simp add: getSessionType_def demo_party_def)
  have s: "signSession demo_party = Some 0" by (simp add: demo_party_def)
  have k: "keygenSession demo_party = None" by (simp add: demo_party_def)
  have f: "signSession_combine demo_dkls 0 (map (fromWireMessage demo_env) [])
       = (Inl ''missing messages'', 0)"
    by (simp add: demo_dkls_def)
  note t = one_shot_enforcement[of demo_dkls demo_env demo_party ?batch "(demo_r, demo_s)"
      ?spent "[0x2C, 0xF2, 0x4D, 0xBA, 0x5F, 0xB0, 0xA3, 0x0E, 0x26, 0xE8, 0x3B, 0x2A, 0xC5, 0xB9, 0xE2, 0x9E, 0x1B, 0x16, 0x1E, 0x5C, 0x1F, 0xA7, 0x42, 0x5E, 0x73, 0x04, 0x33, 0x62, 0x93, 0x8B, 0x98, 0x24]" ?batch demo_manager demo_presignatures 0 "fst ?X" "fst (snd ?X)"
      "snd (snd ?X)" "[0x48, 0x6E, 0xA4, 0x62, 0x24, 0xD1, 0xBB, 0x4F, 0xB6, 0x80, 0xF3, 0x4F, 0x7C, 0x9A, 0xD9, 0x6A, 0x8F, 0x24, 0xEC, 0x88, 0xBE, 0x73, 0xEA, 0x8E, 0x5A, 0x6C, 0x65, 0x26, 0x0E, 0x9C, 0xB8, 0xA7]"]
  note t2 = one_shot_enforcement[where L = demo_dkls and E = demo_env and party = demo_party
      and messages = "[]" and session = 0 and e = "''missing messages''" and session' = 0]
  have second: "signWithPreSignature demo_dkls (fst (snd ?X)) (snd (snd ?X)) [0x48, 0x6E, 0xA4, 0x62, 0x24, 0xD1, 0xBB, 0x4F, 0xB6, 0x80, 0xF3, 0x4F, 0x7C, 0x9A, 0xD9, 0x6A, 0x8F, 0x24, 0xEC, 0x88, 0xBE, 0x73, 0xEA, 0x8E, 0x5A, 0x6C, 0x65, 0x26, 0x0E, 0x9C, 0xB8, 0xA7] 0
           = (Inl PreSignatureAlreadyUsed, fst (snd ?X), snd (snd ?X))
         \<or> signWithPreSignature demo_dkls (fst (snd ?X)) (snd (snd ?X)) [0x48, 0x6E, 0xA4, 0x62, 0x24, 0xD1, 0xBB, 0x4F, 0xB6, 0x80, 0xF3, 0x4F, 0x7C, 0x9A, 0xD9, 0x6A, 0x8F, 0x24, 0xEC, 0x88, 0xBE, 0x73, 0xEA, 0x8E, 0x5A, 0x6C, 0x65, 0x26, 0x0E, 0x9C, 0xB8, 0xA7] 0
           = (Inl PreSignatureAlreadyConsumed, fst (snd ?X), snd (snd ?X))"
    using t x by blast
  have cons: "isConsumed (fst (snd ?X)) ''presig-1''"
    using t x r i by auto
  have "presig_id (snd (snd ?X) 0) \<in> consumedPreSignatures (fst (snd ?X))"
    using cons i by (simp add: isConsumed_def)
  then have used: "fst (signWithPreSignature demo_dkls (fst (snd ?X)) (snd (snd ?X)) [0x48, 0x6E, 0xA4, 0x62, 0x24, 0xD1, 0xBB, 0x4F, 0xB6, 0x80, 0xF3, 0x4F, 0x7C, 0x9A, 0xD9, 0x6A, 0x8F, 0x24, 0xEC, 0x88, 0xBE, 0x73, 0xEA, 0x8E, 0x5A, 0x6C, 0x65, 0x26, 0x0E, 0x9C, 0xB8, 0xA7] 0)
       = Inl PreSignatureAlreadyUsed"
    by (simp add: signWithPreSignature_def)
  have l: "lastMessage demo_dkls demo_env ?spent [0x2C, 0xF2, 0x4D, 0xBA, 0x5F, 0xB0, 0xA3, 0x0E, 0x26, 0xE8, 0x3B, 0x2A, 0xC5, 0xB9, 0xE2, 0x9E, 0x1B, 0x16, 0x1E, 0x5C, 0x1F, 0xA7, 0x42, 0x5E, 0x73, 0x04, 0x33, 0x62, 0x93, 0x8B, 0x98, 0x24] = (Inl NoActiveSignSession, ?spent)"
    using t c by blast
  have c2: "combine demo_dkls demo_env ?spent ?batch = (Inl NoActiveSignSession, ?spent)"
    using t c by blast
  have e1: "combine demo_dkls demo_env demo_party []
       = (Inl (LibraryError ''missing messages''), ?kept)"
    using t2 s f by blast
  have e2: "hasActiveSession ?kept" using t2 s f by blast
  have e3: "getSessionType ?kept = ''signing''" using t2 s f k by blast
  show ?thesis using c l c2 g1 g2 r used n cons s f e1 e2 e3 by (intro conjI)
qed

section \<open>The recovery value v of signMessage\<close>

lemma tryRecoveryIds_27_28:
  "tryRecoveryIds E msgHashHex r s expected [27, 28] 27 =
     (if (\<exists>a. recoverAddress E msgHashHex (''0x'' @ r, ''0x'' @ s, 27) = Some a
              \<and> toLowerCase a = toLowerCase expected) then 27
      else if (\<exists>a. recoverAddress E msgHashHex (''0x'' @ r, ''0x'' @ s, 28) = Some a
              \<and> toLowerCase a = toLowerCase expected) then 28
      else 27)"
  by (auto split: option.splits)

lemma calculateV_None: "calculateV E messageHash r s None = Inr 27"
  by (simp add: calculateV_def)

lemma calculateV_empty: "calculateV E messageHash r s (Some []) = Inr 27"
  by (simp add: calculateV_def)

lemma calculateV_Some:
  "pk \<noteq> [] \<Longrightarrow> deriveEthereumAddress E pk = Inr expected \<Longrightarrow>
   calculateV E messageHash r s (Some pk) =
     Inr (if (\<exists>a. recoverAddress E (''0x'' @ bytesToHex messageHash)
                    (''0x'' @ r, ''0x'' @ s, 27) = Some a
                  \<and> toLowerCase a = toLowerCase expected) then 27
          else if (\<exists>a. recoverAddress E (''0x'' @ bytesToHex messageHash)
                         (''0x'' @ r, ''0x'' @ s, 28) = Some a
                       \<and> toLowerCase a = toLowerCase expected) then 28
          else 27)"
  unfolding calculateV_def Let_def by (simp only: tryRecoveryIds_27_28) simp

lemma calculateV_fail:
  "pk \<noteq> [] \<Longrightarrow> deriveEthereumAddress E pk = Inl e \<Longrightarrow>
   calculateV E messageHash r s (Some pk) = Inl e"
  by (simp add: calculateV_def)

text \<open>The result of \<open>signRounds\<close> is built from the two byte strings of \<open>combine\<close>.\<close>

lemma signRounds_result:
  assumes "signRounds L E parties messageHash publicKey = Inr result"
  shows "\<exists>r s. calculateV E messageHash r s publicKey = Inr (sig_v result)
             \<and> sig_r result = ''0x'' @ r \<and> sig_s result = ''0x'' @ s
             \<and> sig_signature result = ''0x'' @ r @ s
             \<and> signRounds L E parties messageHash None
                  = Inr (result\<lparr>sig_v := 27\<rparr>)"
  using assms unfolding signRounds_def Let_def andThen_def
  by (auto split: prod.splits sum.splits list.splits simp: calculateV_None)

lemma signRounds_None:
  assumes "signRounds L E parties messageHash None = Inr result"
      and "calculateV E messageHash (drop 2 (sig_r result)) (drop 2 (sig_s result)) publicKey
             = c"
  shows "signRounds L E parties messageHash publicKey
           = (case c of Inl e \<Rightarrow> Inl e | Inr v \<Rightarrow> Inr (result\<lparr>sig_v := v\<rparr>))"
  using assms unfolding signRounds_def Let_def andThen_def
  by (auto split: prod.splits sum.splits list.splits simp: calculateV_None)

lemma signRounds_None_fail:
  assumes "signRounds L E parties messageHash None = Inl e"
  shows "signRounds L E parties messageHash publicKey = Inl e"
  using assms unfolding signRounds_def Let_def andThen_def
  by (auto split: prod.splits sum.splits list.splits simp: calculateV_None)

lemma signMessage_Inr:
  "signMessage L E st messageHash keyshares threshold publicKey = (Inr result, st') \<Longrightarrow>
   \<exists>signingShares st1 parties.
       \<not> int (length keyshares) < threshold
     \<and> cloneKeyshares L st (slice0 threshold keyshares) = (Inr signingShares, st1)
     \<and> newSignSessions L st1 signingShares = (Inr parties, st')
     \<and> signRounds L E parties messageHash publicKey = Inr result"
  by (auto simp: signMessage_def split: if_splits prod.splits sum.splits)

lemma signMessage_rounds:
  "\<not> int (length keyshares) < threshold \<Longrightarrow>
   cloneKeyshares L st (slice0 threshold keyshares) = (Inr signingShares, st1) \<Longrightarrow>
   newSignSessions L st1 signingShares = (Inr parties, st') \<Longrightarrow>
   signMessage L E st messageHash keyshares threshold publicKey =
     (case signRounds L E parties messageHash publicKey of
        Inl e \<Rightarrow> (Inl (FailedToSignMessage e), st')
      | Inr result \<Rightarrow> (Inr result, st'))"
  by (simp add: signMessage_def)

lemma demo_digest_hex:
  "bytesToHex [0x2C, 0xF2, 0x4D, 0xBA, 0x5F, 0xB0, 0xA3, 0x0E, 0x26, 0xE8, 0x3B, 0x2A, 0xC5, 0xB9, 0xE2, 0x9E, 0x1B, 0x16, 0x1E, 0x5C, 0x1F, 0xA7, 0x42, 0x5E, 0x73, 0x04, 0x33, 0x62, 0x93, 0x8B, 0x98, 0x24]
     = ''2cf24dba5fb0a30e26e83b2ac5b9e29e1b161e5c1fa7425e73043362938b9824''"
  by (simp add: bytesToHex_def hexChar_def)

lemma demo_sign_no_key:
  "fst (signMessage demo_dkls demo_env demo_keyshares [0x2C, 0xF2, 0x4D, 0xBA, 0x5F, 0xB0, 0xA3, 0x0E, 0x26, 0xE8, 0x3B, 0x2A, 0xC5, 0xB9, 0xE2, 0x9E, 0x1B, 0x16, 0x1E, 0x5C, 0x1F, 0xA7, 0x42, 0x5E, 0x73, 0x04, 0x33, 0x62, 0x93, 0x8B, 0x98, 0x24] [0, 1] 2 None)
     = Inr \<lparr>sig_signature = ''0x2d20e27338eb006035f047b9ef7270ccfeb5e1ed641ea5d4838ba43cb7268a6e76ba9ad59aaa7d1f07e5826eb476065d60e0aedebc40d63ad0e1cc088e5891de'', sig_r = ''0x2d20e27338eb006035f047b9ef7270ccfeb5e1ed641ea5d4838ba43cb7268a6e'', sig_s = ''0x76ba9ad59aaa7d1f07e5826eb476065d60e0aedebc40d63ad0e1cc088e5891de'', sig_v = 27\<rparr>"
  by (simp add: demo_defs demo_r_def demo_s_def)

lemma demo_address_signer:
  "deriveEthereumAddress demo_env ''0417600bd93b1d448f78faa1eecbfe91d768caf64354087c803f2a77f4182e2c1851c4ba742e65c5f45620737bbba0294656f169e1f5d46440f274fc9ee1ff417d''
     = Inr ''0x4de90f1d98881456fac3a6b084f331b0498017ec''"
proof -
  have s: "strip0x ''0417600bd93b1d448f78faa1eecbfe91d768caf64354087c803f2a77f4182e2c1851c4ba742e65c5f45620737bbba0294656f169e1f5d46440f274fc9ee1ff417d'' = ''0417600bd93b1d448f78faa1eecbfe91d768caf64354087c803f2a77f4182e2c1851c4ba742e65c5f45620737bbba0294656f169e1f5d46440f274fc9ee1ff417d''"
    by (simp add: strip0x_def startsWith_Cons2)
  have g: "getUncompressedPublicKey ''0417600bd93b1d448f78faa1eecbfe91d768caf64354087c803f2a77f4182e2c1851c4ba742e65c5f45620737bbba0294656f169e1f5d46440f274fc9ee1ff417d'' = Inr ''17600bd93b1d448f78faa1eecbfe91d768caf64354087c803f2a77f4182e2c1851c4ba742e65c5f45620737bbba0294656f169e1f5d46440f274fc9ee1ff417d''"
    by (simp add: getUncompressedPublicKey_def isCompressedPublicKey_def strip0x_def
        startsWith_Cons2 Let_def slice_def)
  show ?thesis
    unfolding deriveEthereumAddress_def Let_def s g
    by (simp add: demo_env_def toLowerCase_def)
qed

lemma demo_address_other:
  "deriveEthereumAddress demo_env ''04c764ff90d09634f7c70441b7caea0202633e7c33b22bfe377442ebec28563ced0f72016b9ec22394385537059c02ed7c1bc06ad60b0aef789657ad95aa93bf45''
     = Inr ''0xe553381fd31587212fde4ceb813f9b2f14ab84c3''"
proof -
  have s: "strip0x ''04c764ff90d09634f7c70441b7caea0202633e7c33b22bfe377442ebec28563ced0f72016b9ec22394385537059c02ed7c1bc06ad60b0aef789657ad95aa93bf45'' = ''04c764ff90d09634f7c70441b7caea0202633e7c33b22bfe377442ebec28563ced0f72016b9ec22394385537059c02ed7c1bc06ad60b0aef789657ad95aa93bf45''"
    by (simp add: strip0x_def startsWith_Cons2)
  have g: "getUncompressedPublicKey ''04c764ff90d09634f7c70441b7caea0202633e7c33b22bfe377442ebec28563ced0f72016b9ec22394385537059c02ed7c1bc06ad60b0aef789657ad95aa93bf45'' = Inr ''c764ff90d09634f7c70441b7caea0202633e7c33b22bfe377442ebec28563ced0f72016b9ec22394385537059c02ed7c1bc06ad60b0aef789657ad95aa93bf45''"
    by (simp add: getUncompressedPublicKey_def isCompressedPublicKey_def strip0x_def
        startsWith_Cons2 Let_def slice_def)
  show ?thesis
    unfolding deriveEthereumAddress_def Let_def s g
    by (simp add: demo_env_def toLowerCase_def)
qed

lemma demo_recover_27:
  "recoverAddress demo_env ''0x2cf24dba5fb0a30e26e83b2ac5b9e29e1b161e5c1fa7425e73043362938b9824''
     (''0x2d20e27338eb006035f047b9ef7270ccfeb5e1ed641ea5d4838ba43cb7268a6e'', ''0x76ba9ad59aaa7d1f07e5826eb476065d60e0aedebc40d63ad0e1cc088e5891de'', 27) = Some ''0x20d7d5bBEddEe45c5CAcbAdCb681078Bd59f28aE''"
  by (simp add: demo_env_def)

lemma demo_recover_28:
  "recoverAddress demo_env ''0x2cf24dba5fb0a30e26e83b2ac5b9e29e1b161e5c1fa7425e73043362938b9824''
     (''0x2d20e27338eb006035f047b9ef7270ccfeb5e1ed641ea5d4838ba43cb7268a6e'', ''0x76ba9ad59aaa7d1f07e5826eb476065d60e0aedebc40d63ad0e1cc088e5891de'', 28) = Some ''0x4DE90F1D98881456fAC3a6B084f331B0498017ec''"
  by (simp add: demo_env_def)

lemma demo_lower_27: "toLowerCase ''0x20d7d5bBEddEe45c5CAcbAdCb681078Bd59f28aE'' = ''0x20d7d5bbeddee45c5cacbadcb681078bd59f28ae''"
  by (simp add: toLowerCase_def char_of_def bit_Suc_0_iff)

lemma demo_lower_28: "toLowerCase ''0x4DE90F1D98881456fAC3a6B084f331B0498017ec'' = ''0x4de90f1d98881456fac3a6b084f331b0498017ec''"
  by (simp add: toLowerCase_def char_of_def bit_Suc_0_iff)

text \<open>
  Claim C2, as stated, fails.  \<open>signMessage\<close> is given the digest SHA-256(``hello''), for
  which the library returns the signature \<open>demo_r\<close>, \<open>demo_s\<close>, and the public key of another
  key pair.  Neither candidate recovers the address of that key (\<open>recoverAddress\<close> returns
  two other addresses), and the call returns a signature with \<open>v = 27\<close>: a value, not an
  error, and not one of 0 and 1.
\<close>

theorem default_v_without_recovery:
  "fst (signMessage demo_dkls demo_env demo_keyshares [0x2C, 0xF2, 0x4D, 0xBA, 0x5F, 0xB0, 0xA3, 0x0E, 0x26, 0xE8, 0x3B, 0x2A, 0xC5, 0xB9, 0xE2, 0x9E, 0x1B, 0x16, 0x1E, 0x5C, 0x1F, 0xA7, 0x42, 0x5E, 0x73, 0x04, 0x33, 0x62, 0x93, 0x8B, 0x98, 0x24] [0, 1] 2
          (Some ''04c764ff90d09634f7c70441b7caea0202633e7c33b22bfe377442ebec28563ced0f72016b9ec22394385537059c02ed7c1bc06ad60b0aef789657ad95aa93bf45''))
     = Inr \<lparr>sig_signature = ''0x2d20e27338eb006035f047b9ef7270ccfeb5e1ed641ea5d4838ba43cb7268a6e76ba9ad59aaa7d1f07e5826eb476065d60e0aedebc40d63ad0e1cc088e5891de'', sig_r = ''0x2d20e27338eb006035f047b9ef7270ccfeb5e1ed641ea5d4838ba43cb7268a6e'', sig_s = ''0x76ba9ad59aaa7d1f07e5826eb476065d60e0aedebc40d63ad0e1cc088e5891de'', sig_v = 27\<rparr>
   \<and> deriveEthereumAddress demo_env ''04c764ff90d09634f7c70441b7caea0202633e7c33b22bfe377442ebec28563ced0f72016b9ec22394385537059c02ed7c1bc06ad60b0aef789657ad95aa93bf45''
       = Inr ''0xe553381fd31587212fde4ceb813f9b2f14ab84c3''
   \<and> recoverAddress demo_env ''0x2cf24dba5fb0a30e26e83b2ac5b9e29e1b161e5c1fa7425e73043362938b9824''
        (''0x2d20e27338eb006035f047b9ef7270ccfeb5e1ed641ea5d4838ba43cb7268a6e'', ''0x76ba9ad59aaa7d1f07e5826eb476065d60e0aedebc40d63ad0e1cc088e5891de'', 27)
       = Some ''0x20d7d5bBEddEe45c5CAcbAdCb681078Bd59f28aE''
   \<and> recoverAddress demo_env ''0x2cf24dba5fb0a30e26e83b2ac5b9e29e1b161e5c1fa7425e73043362938b9824''
        (''0x2d20e27338eb006035f047b9ef7270ccfeb5e1ed641ea5d4838ba43cb7268a6e'', ''0x76ba9ad59aaa7d1f07e5826eb476065d60e0aedebc40d63ad0e1cc088e5891de'', 28)
       = Some ''0x4DE90F1D98881456fAC3a6B084f331B0498017ec''
   \<and> toLowerCase ''0x20d7d5bBEddEe45c5CAcbAdCb681078Bd59f28aE'' = ''0x20d7d5bbeddee45c5cacbadcb681078bd59f28ae''
   \<and> toLowerCase ''0x4DE90F1D98881456fAC3a6B084f331B0498017ec'' = ''0x4de90f1d98881456fac3a6b084f331b0498017ec''"
proof -
  let ?X = "signMessage demo_dkls demo_env demo_keyshares [0x2C, 0xF2, 0x4D, 0xBA, 0x5F, 0xB0, 0xA3, 0x0E, 0x26, 0xE8, 0x3B, 0x2A, 0xC5, 0xB9, 0xE2, 0x9E, 0x1B, 0x16, 0x1E, 0x5C, 0x1F, 0xA7, 0x42, 0x5E, 0x73, 0x04, 0x33, 0x62, 0x93, 0x8B, 0x98, 0x24] [0, 1] 2 None"
  obtain st2 where x: "?X = (Inr \<lparr>sig_signature = ''0x2d20e27338eb006035f047b9ef7270ccfeb5e1ed641ea5d4838ba43cb7268a6e76ba9ad59aaa7d1f07e5826eb476065d60e0aedebc40d63ad0e1cc088e5891de'', sig_r = ''0x2d20e27338eb006035f047b9ef7270ccfeb5e1ed641ea5d4838ba43cb7268a6e'', sig_s = ''0x76ba9ad59aaa7d1f07e5826eb476065d60e0aedebc40d63ad0e1cc088e5891de'', sig_v = 27\<rparr>, st2)"
    using demo_sign_no_key by (metis prod.collapse)
  from signMessage_Inr[OF x]
  obtain signingShares st1 parties where
    t: "\<not> int (length [0 :: nat, 1]) < 2"
    and c: "cloneKeyshares demo_dkls demo_keyshares (slice0 2 [0, 1]) = (Inr signingShares, st1)"
    and n: "newSignSessions demo_dkls st1 signingShares = (Inr parties, st2)"
    and r: "signRounds demo_dkls demo_env parties [0x2C, 0xF2, 0x4D, 0xBA, 0x5F, 0xB0, 0xA3, 0x0E, 0x26, 0xE8, 0x3B, 0x2A, 0xC5, 0xB9, 0xE2, 0x9E, 0x1B, 0x16, 0x1E, 0x5C, 0x1F, 0xA7, 0x42, 0x5E, 0x73, 0x04, 0x33, 0x62, 0x93, 0x8B, 0x98, 0x24] None
              = Inr \<lparr>sig_signature = ''0x2d20e27338eb006035f047b9ef7270ccfeb5e1ed641ea5d4838ba43cb7268a6e76ba9ad59aaa7d1f07e5826eb476065d60e0aedebc40d63ad0e1cc088e5891de'', sig_r = ''0x2d20e27338eb006035f047b9ef7270ccfeb5e1ed641ea5d4838ba43cb7268a6e'', sig_s = ''0x76ba9ad59aaa7d1f07e5826eb476065d60e0aedebc40d63ad0e1cc088e5891de'', sig_v = 27\<rparr>"
    by blast
  have l: "toLowerCase ''0xe553381fd31587212fde4ceb813f9b2f14ab84c3'' = ''0xe553381fd31587212fde4ceb813f9b2f14ab84c3''"
    by (simp add: toLowerCase_def)
  have v: "calculateV demo_env [0x2C, 0xF2, 0x4D, 0xBA, 0x5F, 0xB0, 0xA3, 0x0E, 0x26, 0xE8, 0x3B, 0x2A, 0xC5, 0xB9, 0xE2, 0x9E, 0x1B, 0x16, 0x1E, 0x5C, 0x1F, 0xA7, 0x42, 0x5E, 0x73, 0x04, 0x33, 0x62, 0x93, 0x8B, 0x98, 0x24]
             ''2d20e27338eb006035f047b9ef7270ccfeb5e1ed641ea5d4838ba43cb7268a6e'' ''76ba9ad59aaa7d1f07e5826eb476065d60e0aedebc40d63ad0e1cc088e5891de''
             (Some ''04c764ff90d09634f7c70441b7caea0202633e7c33b22bfe377442ebec28563ced0f72016b9ec22394385537059c02ed7c1bc06ad60b0aef789657ad95aa93bf45'') = Inr 27"
    unfolding calculateV_Some[OF _ demo_address_other, simplified] demo_digest_hex
    by (simp add: demo_recover_27 demo_recover_28 demo_lower_27 demo_lower_28 l)
  have "signRounds demo_dkls demo_env parties [0x2C, 0xF2, 0x4D, 0xBA, 0x5F, 0xB0, 0xA3, 0x0E, 0x26, 0xE8, 0x3B, 0x2A, 0xC5, 0xB9, 0xE2, 0x9E, 0x1B, 0x16, 0x1E, 0x5C, 0x1F, 0xA7, 0x42, 0x5E, 0x73, 0x04, 0x33, 0x62, 0x93, 0x8B, 0x98, 0x24] (Some ''04c764ff90d09634f7c70441b7caea0202633e7c33b22bfe377442ebec28563ced0f72016b9ec22394385537059c02ed7c1bc06ad60b0aef789657ad95aa93bf45'')
          = Inr \<lparr>sig_signature = ''0x2d20e27338eb006035f047b9ef7270ccfeb5e1ed641ea5d4838ba43cb7268a6e76ba9ad59aaa7d1f07e5826eb476065d60e0aedebc40d63ad0e1cc088e5891de'', sig_r = ''0x2d20e27338eb006035f047b9ef7270ccfeb5e1ed641ea5d4838ba43cb7268a6e'', sig_s = ''0x76ba9ad59aaa7d1f07e5826eb476065d60e0aedebc40d63ad0e1cc088e5891de'', sig_v = 27\<rparr>"
    unfolding signRounds_None[OF r, simplified, OF v] by simp
  then have 1: "fst (signMessage demo_dkls demo_env demo_keyshares [0x2C, 0xF2, 0x4D, 0xBA, 0x5F, 0xB0, 0xA3, 0x0E, 0x26, 0xE8, 0x3B, 0x2A, 0xC5, 0xB9, 0xE2, 0x9E, 0x1B, 0x16, 0x1E, 0x5C, 0x1F, 0xA7, 0x42, 0x5E, 0x73, 0x04, 0x33, 0x62, 0x93, 0x8B, 0x98, 0x24] [0, 1] 2
          (Some ''04c764ff90d09634f7c70441b7caea0202633e7c33b22bfe377442ebec28563ced0f72016b9ec22394385537059c02ed7c1bc06ad60b0aef789657ad95aa93bf45''))
     = Inr \<lparr>sig_signature = ''0x2d20e27338eb006035f047b9ef7270ccfeb5e1ed641ea5d4838ba43cb7268a6e76ba9ad59aaa7d1f07e5826eb476065d60e0aedebc40d63ad0e1cc088e5891de'', sig_r = ''0x2d20e27338eb006035f047b9ef7270ccfeb5e1ed641ea5d4838ba43cb7268a6e'', sig_s = ''0x76ba9ad59aaa7d1f07e5826eb476065d60e0aedebc40d63ad0e1cc088e5891de'', sig_v = 27\<rparr>"
    unfolding signMessage_rounds[OF t c n] by simp
  show ?thesis
    using 1 demo_address_other demo_recover_27 demo_recover_28 demo_lower_27 demo_lower_28
    by (intro conjI)
qed

text \<open>
  Claim C2, amended.  The \<open>v\<close> of a signature that \<open>signMessage\<close> returns is 27 or 28.  It is
  27 when no public key is given (none, or the empty string).  With a public key, its
  address was derived, and \<open>v\<close> is the first of 27, 28 for which \<open>recoverAddress\<close>, on the
  digest and the \<open>r\<close> and \<open>s\<close> of the result, returns that address (compared without regard to
  case, an exception counting as no match), and the default 27 when neither does.  The
  public key changes nothing else: the call without it returns the same \<open>r\<close>, \<open>s\<close> and
  signature, and a call that returns a signature without a public key returns one with
  every public key whose address can be derived, so that a failed recovery is no error.
\<close>

theorem signMessage_recovery_value:
  "(signMessage L E st messageHash keyshares threshold publicKey = (Inr result, st') \<longrightarrow>
       (sig_v result = 27 \<or> sig_v result = 28)
     \<and> signMessage L E st messageHash keyshares threshold None
         = (Inr (result\<lparr>sig_v := 27\<rparr>), st')
     \<and> (publicKey = None \<or> publicKey = Some [] \<longrightarrow> sig_v result = 27)
     \<and> (\<forall>pk. publicKey = Some pk \<and> pk \<noteq> [] \<longrightarrow>
           (\<exists>expected. deriveEthereumAddress E pk = Inr expected
              \<and> sig_v result =
                  (if (\<exists>a. recoverAddress E (''0x'' @ bytesToHex messageHash)
                              (sig_r result, sig_s result, 27) = Some a
                            \<and> toLowerCase a = toLowerCase expected) then 27
                   else if (\<exists>a. recoverAddress E (''0x'' @ bytesToHex messageHash)
                                   (sig_r result, sig_s result, 28) = Some a
                                 \<and> toLowerCase a = toLowerCase expected) then 28
                   else 27))))
   \<and> (signMessage L E st messageHash keyshares threshold None = (Inr result0, st0)
        \<and> key \<noteq> [] \<and> deriveEthereumAddress E key = Inr address \<longrightarrow>
       signMessage L E st messageHash keyshares threshold (Some key)
         = (Inr (result0\<lparr>sig_v :=
              (if (\<exists>a. recoverAddress E (''0x'' @ bytesToHex messageHash)
                          (sig_r result0, sig_s result0, 27) = Some a
                        \<and> toLowerCase a = toLowerCase address) then 27
               else if (\<exists>a. recoverAddress E (''0x'' @ bytesToHex messageHash)
                               (sig_r result0, sig_s result0, 28) = Some a
                             \<and> toLowerCase a = toLowerCase address) then 28
               else 27)\<rparr>), st0))"
proof (rule conjI; rule impI)
  assume a: "signMessage L E st messageHash keyshares threshold publicKey = (Inr result, st')"
  from signMessage_Inr[OF a] obtain signingShares st1 parties where
    t: "\<not> int (length keyshares) < threshold"
    and c: "cloneKeyshares L st (slice0 threshold keyshares) = (Inr signingShares, st1)"
    and n: "newSignSessions L st1 signingShares = (Inr parties, st')"
    and r: "signRounds L E parties messageHash publicKey = Inr result" by blast
  from signRounds_result[OF r] obtain r0 s0 where
    v: "calculateV E messageHash r0 s0 publicKey = Inr (sig_v result)"
    and sr: "sig_r result = ''0x'' @ r0" and ss: "sig_s result = ''0x'' @ s0"
    and r27: "signRounds L E parties messageHash None = Inr (result\<lparr>sig_v := 27\<rparr>)"
    by blast
  have n27: "signMessage L E st messageHash keyshares threshold None
         = (Inr (result\<lparr>sig_v := 27\<rparr>), st')"
    unfolding signMessage_rounds[OF t c n] r27 by simp
  have none: "publicKey = None \<or> publicKey = Some [] \<longrightarrow> sig_v result = 27"
    using v by (auto simp: calculateV_None calculateV_empty)
  have some: "\<forall>pk. publicKey = Some pk \<and> pk \<noteq> [] \<longrightarrow>
           (\<exists>expected. deriveEthereumAddress E pk = Inr expected
              \<and> sig_v result =
                  (if (\<exists>a. recoverAddress E (''0x'' @ bytesToHex messageHash)
                              (sig_r result, sig_s result, 27) = Some a
                            \<and> toLowerCase a = toLowerCase expected) then 27
                   else if (\<exists>a. recoverAddress E (''0x'' @ bytesToHex messageHash)
                                   (sig_r result, sig_s result, 28) = Some a
                                 \<and> toLowerCase a = toLowerCase expected) then 28
                   else 27))"
  proof (intro allI impI)
    fix pk assume p: "publicKey = Some pk \<and> pk \<noteq> []"
    show "\<exists>expected. deriveEthereumAddress E pk = Inr expected
              \<and> sig_v result =
                  (if (\<exists>a. recoverAddress E (''0x'' @ bytesToHex messageHash)
                              (sig_r result, sig_s result, 27) = Some a
                            \<and> toLowerCase a = toLowerCase expected) then 27
                   else if (\<exists>a. recoverAddress E (''0x'' @ bytesToHex messageHash)
                                   (sig_r result, sig_s result, 28) = Some a
                                 \<and> toLowerCase a = toLowerCase expected) then 28
                   else 27)"
    proof (cases "deriveEthereumAddress E pk")
      case (Inl e)
      then show ?thesis using v p by (simp add: calculateV_fail)
    next
      case (Inr expected)
      have "calculateV E messageHash r0 s0 (Some pk) = Inr (sig_v result)" using v p by simp
      then show ?thesis
        unfolding calculateV_Some[OF conjunct2[OF p] Inr] sr ss using Inr by simp
    qed
  qed
  have vv: "sig_v result = 27 \<or> sig_v result = 28"
  proof (cases "publicKey = None \<or> publicKey = Some []")
    case True
    then show ?thesis using none by simp
  next
    case False
    then obtain pk where "publicKey = Some pk \<and> pk \<noteq> []" by (cases publicKey) auto
    with some obtain expected where
      "sig_v result =
          (if (\<exists>a. recoverAddress E (''0x'' @ bytesToHex messageHash)
                      (sig_r result, sig_s result, 27) = Some a
                    \<and> toLowerCase a = toLowerCase expected) then 27
           else if (\<exists>a. recoverAddress E (''0x'' @ bytesToHex messageHash)
                           (sig_r result, sig_s result, 28) = Some a
                         \<and> toLowerCase a = toLowerCase expected) then 28
           else 27)" by blast
    then show ?thesis by (simp split: if_splits)
  qed
  show "(sig_v result = 27 \<or> sig_v result = 28)
     \<and> signMessage L E st messageHash keyshares threshold None
         = (Inr (result\<lparr>sig_v := 27\<rparr>), st')
     \<and> (publicKey = None \<or> publicKey = Some [] \<longrightarrow> sig_v result = 27)
     \<and> (\<forall>pk. publicKey = Some pk \<and> pk \<noteq> [] \<longrightarrow>
           (\<exists>expected. deriveEthereumAddress E pk = Inr expected
              \<and> sig_v result =
                  (if (\<exists>a. recoverAddress E (''0x'' @ bytesToHex messageHash)
                              (sig_r result, sig_s result, 27) = Some a
                            \<and> toLowerCase a = toLowerCase expected) then 27
                   else if (\<exists>a. recoverAddress E (''0x'' @ bytesToHex messageHash)
                                   (sig_r result, sig_s result, 28) = Some a
                                 \<and> toLowerCase a = toLowerCase expected) then 28
                   else 27)))"
    using vv n27 none some by (intro conjI)
next
  assume a: "signMessage L E st messageHash keyshares threshold None = (Inr result0, st0)
        \<and> key \<noteq> [] \<and> deriveEthereumAddress E key = Inr address"
  from signMessage_Inr[OF conjunct1[OF a]] obtain signingShares st1 parties where
    t: "\<not> int (length keyshares) < threshold"
    and c: "cloneKeyshares L st (slice0 threshold keyshares) = (Inr signingShares, st1)"
    and n: "newSignSessions L st1 signingShares = (Inr parties, st0)"
    and r: "signRounds L E parties messageHash None = Inr result0" by blast
  from signRounds_result[OF r] obtain r0 s0 where
    sr: "sig_r result0 = ''0x'' @ r0" and ss: "sig_s result0 = ''0x'' @ s0" by blast
  have d: "''0x'' @ drop 2 (sig_r result0) = sig_r result0"
          "''0x'' @ drop 2 (sig_s result0) = sig_s result0"
    using sr ss by simp_all
  have k: "key \<noteq> []" and e: "deriveEthereumAddress E key = Inr address" using a by simp_all
  show "signMessage L E st messageHash keyshares threshold (Some key)
         = (Inr (result0\<lparr>sig_v :=
              (if (\<exists>a. recoverAddress E (''0x'' @ bytesToHex messageHash)
                          (sig_r result0, sig_s result0, 27) = Some a
                        \<and> toLowerCase a = toLowerCase address) then 27
               else if (\<exists>a. recoverAddress E (''0x'' @ bytesToHex messageHash)
                               (sig_r result0, sig_s result0, 28) = Some a
                             \<and> toLowerCase a = toLowerCase address) then 28
               else 27)\<rparr>), st0)"
    unfolding signMessage_rounds[OF t c n]
      signRounds_None[OF r calculateV_Some[OF k e, of messageHash "drop 2 (sig_r result0)"
          "drop 2 (sig_s result0)"]]
    unfolding d by simp
qed

theorem signMessage_recovery_value_witness:
  "fst (signMessage demo_dkls demo_env demo_keyshares [0x2C, 0xF2, 0x4D, 0xBA, 0x5F, 0xB0, 0xA3, 0x0E, 0x26, 0xE8, 0x3B, 0x2A, 0xC5, 0xB9, 0xE2, 0x9E, 0x1B, 0x16, 0x1E, 0x5C, 0x1F, 0xA7, 0x42, 0x5E, 0x73, 0x04, 0x33, 0x62, 0x93, 0x8B, 0x98, 0x24] [0, 1] 2 None)
     = Inr \<lparr>sig_signature = ''0x2d20e27338eb006035f047b9ef7270ccfeb5e1ed641ea5d4838ba43cb7268a6e76ba9ad59aaa7d1f07e5826eb476065d60e0aedebc40d63ad0e1cc088e5891de'', sig_r = ''0x2d20e27338eb006035f047b9ef7270ccfeb5e1ed641ea5d4838ba43cb7268a6e'', sig_s = ''0x76ba9ad59aaa7d1f07e5826eb476065d60e0aedebc40d63ad0e1cc088e5891de'', sig_v = 27\<rparr>
   \<and> ''0417600bd93b1d448f78faa1eecbfe91d768caf64354087c803f2a77f4182e2c1851c4ba742e65c5f45620737bbba0294656f169e1f5d46440f274fc9ee1ff417d'' \<noteq> []
   \<and> deriveEthereumAddress demo_env ''0417600bd93b1d448f78faa1eecbfe91d768caf64354087c803f2a77f4182e2c1851c4ba742e65c5f45620737bbba0294656f169e1f5d46440f274fc9ee1ff417d''
       = Inr ''0x4de90f1d98881456fac3a6b084f331b0498017ec''
   \<and> recoverAddress demo_env ''0x2cf24dba5fb0a30e26e83b2ac5b9e29e1b161e5c1fa7425e73043362938b9824''
        (''0x2d20e27338eb006035f047b9ef7270ccfeb5e1ed641ea5d4838ba43cb7268a6e'', ''0x76ba9ad59aaa7d1f07e5826eb476065d60e0aedebc40d63ad0e1cc088e5891de'', 27)
       = Some ''0x20d7d5bBEddEe45c5CAcbAdCb681078Bd59f28aE''
   \<and> recoverAddress demo_env ''0x2cf24dba5fb0a30e26e83b2ac5b9e29e1b161e5c1fa7425e73043362938b9824''
        (''0x2d20e27338eb006035f047b9ef7270ccfeb5e1ed641ea5d4838ba43cb7268a6e'', ''0x76ba9ad59aaa7d1f07e5826eb476065d60e0aedebc40d63ad0e1cc088e5891de'', 28)
       = Some ''0x4DE90F1D98881456fAC3a6B084f331B0498017ec''
   \<and> toLowerCase ''0x20d7d5bBEddEe45c5CAcbAdCb681078Bd59f28aE'' = ''0x20d7d5bbeddee45c5cacbadcb681078bd59f28ae''
   \<and> toLowerCase ''0x4DE90F1D98881456fAC3a6B084f331B0498017ec'' = ''0x4de90f1d98881456fac3a6b084f331b0498017ec''
   \<and> fst (signMessage demo_dkls demo_env demo_keyshares [0x2C, 0xF2, 0x4D, 0xBA, 0x5F, 0xB0, 0xA3, 0x0E, 0x26, 0xE8, 0x3B, 0x2A, 0xC5, 0xB9, 0xE2, 0x9E, 0x1B, 0x16, 0x1E, 0x5C, 0x1F, 0xA7, 0x42, 0x5E, 0x73, 0x04, 0x33, 0x62, 0x93, 0x8B, 0x98, 0x24] [0, 1] 2
          (Some ''0417600bd93b1d448f78faa1eecbfe91d768caf64354087c803f2a77f4182e2c1851c4ba742e65c5f45620737bbba0294656f169e1f5d46440f274fc9ee1ff417d''))
       = Inr \<lparr>sig_signature = ''0x2d20e27338eb006035f047b9ef7270ccfeb5e1ed641ea5d4838ba43cb7268a6e76ba9ad59aaa7d1f07e5826eb476065d60e0aedebc40d63ad0e1cc088e5891de'', sig_r = ''0x2d20e27338eb006035f047b9ef7270ccfeb5e1ed641ea5d4838ba43cb7268a6e'', sig_s = ''0x76ba9ad59aaa7d1f07e5826eb476065d60e0aedebc40d63ad0e1cc088e5891de'', sig_v = 28\<rparr>"
proof -
  let ?X = "signMessage demo_dkls demo_env demo_keyshares [0x2C, 0xF2, 0x4D, 0xBA, 0x5F, 0xB0, 0xA3, 0x0E, 0x26, 0xE8, 0x3B, 0x2A, 0xC5, 0xB9, 0xE2, 0x9E, 0x1B, 0x16, 0x1E, 0x5C, 0x1F, 0xA7, 0x42, 0x5E, 0x73, 0x04, 0x33, 0x62, 0x93, 0x8B, 0x98, 0x24] [0, 1] 2 None"
  obtain st2 where x: "?X = (Inr \<lparr>sig_signature = ''0x2d20e27338eb006035f047b9ef7270ccfeb5e1ed641ea5d4838ba43cb7268a6e76ba9ad59aaa7d1f07e5826eb476065d60e0aedebc40d63ad0e1cc088e5891de'', sig_r = ''0x2d20e27338eb006035f047b9ef7270ccfeb5e1ed641ea5d4838ba43cb7268a6e'', sig_s = ''0x76ba9ad59aaa7d1f07e5826eb476065d60e0aedebc40d63ad0e1cc088e5891de'', sig_v = 27\<rparr>, st2)"
    using demo_sign_no_key by (metis prod.collapse)
  have k: "''0417600bd93b1d448f78faa1eecbfe91d768caf64354087c803f2a77f4182e2c1851c4ba742e65c5f45620737bbba0294656f169e1f5d46440f274fc9ee1ff417d'' \<noteq> []" by simp
  have l: "toLowerCase ''0x4de90f1d98881456fac3a6b084f331b0498017ec'' = ''0x4de90f1d98881456fac3a6b084f331b0498017ec''"
    by (simp add: toLowerCase_def)
  note t = signMessage_recovery_value[of demo_dkls demo_env demo_keyshares
      "[0x2C, 0xF2, 0x4D, 0xBA, 0x5F, 0xB0, 0xA3, 0x0E, 0x26, 0xE8, 0x3B, 0x2A, 0xC5, 0xB9, 0xE2, 0x9E, 0x1B, 0x16, 0x1E, 0x5C, 0x1F, 0xA7, 0x42, 0x5E, 0x73, 0x04, 0x33, 0x62, 0x93, 0x8B, 0x98, 0x24]" "[0, 1]" 2 None
      "\<lparr>sig_signature = ''0x2d20e27338eb006035f047b9ef7270ccfeb5e1ed641ea5d4838ba43cb7268a6e76ba9ad59aaa7d1f07e5826eb476065d60e0aedebc40d63ad0e1cc088e5891de'', sig_r = ''0x2d20e27338eb006035f047b9ef7270ccfeb5e1ed641ea5d4838ba43cb7268a6e'', sig_s = ''0x76ba9ad59aaa7d1f07e5826eb476065d60e0aedebc40d63ad0e1cc088e5891de'', sig_v = 27\<rparr>" st2
      "\<lparr>sig_signature = ''0x2d20e27338eb006035f047b9ef7270ccfeb5e1ed641ea5d4838ba43cb7268a6e76ba9ad59aaa7d1f07e5826eb476065d60e0aedebc40d63ad0e1cc088e5891de'', sig_r = ''0x2d20e27338eb006035f047b9ef7270ccfeb5e1ed641ea5d4838ba43cb7268a6e'', sig_s = ''0x76ba9ad59aaa7d1f07e5826eb476065d60e0aedebc40d63ad0e1cc088e5891de'', sig_v = 27\<rparr>" st2
      "''0417600bd93b1d448f78faa1eecbfe91d768caf64354087c803f2a77f4182e2c1851c4ba742e65c5f45620737bbba0294656f169e1f5d46440f274fc9ee1ff417d''" "''0x4de90f1d98881456fac3a6b084f331b0498017ec''"]
  have "signMessage demo_dkls demo_env demo_keyshares [0x2C, 0xF2, 0x4D, 0xBA, 0x5F, 0xB0, 0xA3, 0x0E, 0x26, 0xE8, 0x3B, 0x2A, 0xC5, 0xB9, 0xE2, 0x9E, 0x1B, 0x16, 0x1E, 0x5C, 0x1F, 0xA7, 0x42, 0x5E, 0x73, 0x04, 0x33, 0x62, 0x93, 0x8B, 0x98, 0x24] [0, 1] 2
          (Some ''0417600bd93b1d448f78faa1eecbfe91d768caf64354087c803f2a77f4182e2c1851c4ba742e65c5f45620737bbba0294656f169e1f5d46440f274fc9ee1ff417d'')
       = (Inr \<lparr>sig_signature = ''0x2d20e27338eb006035f047b9ef7270ccfeb5e1ed641ea5d4838ba43cb7268a6e76ba9ad59aaa7d1f07e5826eb476065d60e0aedebc40d63ad0e1cc088e5891de'', sig_r = ''0x2d20e27338eb006035f047b9ef7270ccfeb5e1ed641ea5d4838ba43cb7268a6e'', sig_s = ''0x76ba9ad59aaa7d1f07e5826eb476065d60e0aedebc40d63ad0e1cc088e5891de'', sig_v = 28\<rparr>, st2)"
    using t x k demo_address_signer
    unfolding demo_digest_hex
    by (simp add: demo_recover_27 demo_recover_28 demo_lower_27 demo_lower_28 l)
  then have 1: "fst (signMessage demo_dkls demo_env demo_keyshares [0x2C, 0xF2, 0x4D, 0xBA, 0x5F, 0xB0, 0xA3, 0x0E, 0x26, 0xE8, 0x3B, 0x2A, 0xC5, 0xB9, 0xE2, 0x9E, 0x1B, 0x16, 0x1E, 0x5C, 0x1F, 0xA7, 0x42, 0x5E, 0x73, 0x04, 0x33, 0x62, 0x93, 0x8B, 0x98, 0x24] [0, 1] 2
          (Some ''0417600bd93b1d448f78faa1eecbfe91d768caf64354087c803f2a77f4182e2c1851c4ba742e65c5f45620737bbba0294656f169e1f5d46440f274fc9ee1ff417d''))
       = Inr \<lparr>sig_signature = ''0x2d20e27338eb006035f047b9ef7270ccfeb5e1ed641ea5d4838ba43cb7268a6e76ba9ad59aaa7d1f07e5826eb476065d60e0aedebc40d63ad0e1cc088e5891de'', sig_r = ''0x2d20e27338eb006035f047b9ef7270ccfeb5e1ed641ea5d4838ba43cb7268a6e'', sig_s = ''0x76ba9ad59aaa7d1f07e5826eb476065d60e0aedebc40d63ad0e1cc088e5891de'', sig_v = 28\<rparr>" by simp
  show ?thesis
    using demo_sign_no_key k demo_address_signer demo_recover_27 demo_recover_28
      demo_lower_27 demo_lower_28 1
    by (intro conjI)
qed

section \<open>signMessage and the key shares of the caller\<close>

lemma Keyshare_fromBytes_frame:
  assumes "Keyshare_fromBytes L st bytes = (r, st')"
  shows "\<forall>k < next_object st. live st' k = live st k"
    and "next_object st \<le> next_object st'"
    and "\<forall>copy. r = Inr copy \<longrightarrow> next_object st \<le> copy \<and> copy < next_object st'"
  using assms by (auto simp: Keyshare_fromBytes_def split: sum.splits)

lemma cloneKeyshares_frame:
  "cloneKeyshares L st refs = (r, st') \<Longrightarrow>
     (\<forall>k < next_object st. live st' k = live st k)
   \<and> next_object st \<le> next_object st'
   \<and> (\<forall>copies. r = Inr copies \<longrightarrow>
         (\<forall>c \<in> set copies. next_object st \<le> c \<and> c < next_object st'))"
proof (induction refs arbitrary: st r st')
  case Nil
  then show ?case by auto
next
  case (Cons ks rest)
  show ?case
  proof (cases "Keyshare_toBytes L st ks")
    case (Inl e)
    then show ?thesis using Cons.prems by auto
  next
    case (Inr bytes)
    obtain r1 st1 where f: "Keyshare_fromBytes L st bytes = (r1, st1)" by (cases "Keyshare_fromBytes L st bytes")
    note fr = Keyshare_fromBytes_frame[OF f]
    show ?thesis
    proof (cases r1)
      case (Inl e)
      then show ?thesis using Cons.prems Inr f fr by auto
    next
      case copy: (Inr copy)
      obtain r2 st2 where c: "cloneKeyshares L st1 rest = (r2, st2)" by (cases "cloneKeyshares L st1 rest")
      note ih = Cons.IH[OF c]
      have st': "st' = st2" using Cons.prems Inr f copy c by (auto split: sum.splits)
      have live: "\<forall>k < next_object st. live st' k = live st k"
        using fr(1,2) ih st' by auto
      have nxt: "next_object st \<le> next_object st'" using fr(2) ih st' by auto
      have cp: "\<forall>copies. r = Inr copies \<longrightarrow>
         (\<forall>c \<in> set copies. next_object st \<le> c \<and> c < next_object st')"
      proof (intro allI impI ballI)
        fix copies c assume r: "r = Inr copies" and cin: "c \<in> set copies"
        from r Cons.prems Inr f copy c obtain copies' where
          r2: "r2 = Inr copies'" and cs: "copies = copy # copies'"
          by (auto split: sum.splits)
        from cin cs consider "c = copy" | "c \<in> set copies'" by auto
        then show "next_object st \<le> c \<and> c < next_object st'"
        proof cases
          case 1
          then show ?thesis using fr(3) copy ih st' by auto
        next
          case 2
          then show ?thesis using ih r2 fr(2) st' by force
        qed
      qed
      show ?thesis using live nxt cp by blast
    qed
  qed
qed

lemma SignSession_new_frame:
  "SignSession_new L st ks path = (r, st') \<Longrightarrow>
   next_object st' = next_object st \<and> (\<forall>k. k \<noteq> ks \<longrightarrow> live st' k = live st k)"
  by (auto simp: SignSession_new_def split: option.splits)

lemma newSignSessions_frame:
  "newSignSessions L st refs = (r, st') \<Longrightarrow>
   next_object st' = next_object st \<and> (\<forall>k. k \<notin> set refs \<longrightarrow> live st' k = live st k)"
proof (induction refs arbitrary: st r st')
  case Nil
  then show ?case by auto
next
  case (Cons ks rest)
  obtain r1 st1 where n: "SignSession_new L st ks ''m'' = (r1, st1)"
    by (cases "SignSession_new L st ks ''m''")
  note fr = SignSession_new_frame[OF n]
  show ?case
  proof (cases r1)
    case (Inl e)
    then show ?thesis using Cons.prems n fr by auto
  next
    case (Inr p)
    obtain r2 st2 where c: "newSignSessions L st1 rest = (r2, st2)"
      by (cases "newSignSessions L st1 rest")
    note ih = Cons.IH[OF c]
    have "st' = st2" using Cons.prems n Inr c by (auto split: sum.splits)
    then show ?thesis using fr ih by auto
  qed
qed

text \<open>
  Claim C10.  \<open>signMessage\<close> leaves every key share object that existed before the call as
  it was: the sessions are made from copies (\<open>Keyshare.fromBytes(ks.toBytes())\<close>), which
  are new objects, and only those are consumed.  So \<open>toBytes\<close> of a key share of the caller
  gives after the call what it gave before, and the key share can be used again.
\<close>

theorem signMessage_keeps_caller_keyshares:
  assumes "signMessage L E st messageHash keyshares threshold publicKey = (result, st')"
      and "ks < next_object st"
  shows "live st' ks = live st ks \<and> Keyshare_toBytes L st' ks = Keyshare_toBytes L st ks"
proof -
  have "live st' ks = live st ks"
  proof (cases "int (length keyshares) < threshold")
    case True
    then show ?thesis using assms(1) by (simp add: signMessage_def)
  next
    case False
    obtain r1 st1 where c: "cloneKeyshares L st (slice0 threshold keyshares) = (r1, st1)"
      by (cases "cloneKeyshares L st (slice0 threshold keyshares)")
    note cf = cloneKeyshares_frame[OF c]
    show ?thesis
    proof (cases r1)
      case (Inl e)
      then show ?thesis using assms False c cf by (auto simp: signMessage_def)
    next
      case (Inr signingShares)
      obtain r2 st2 where n: "newSignSessions L st1 signingShares = (r2, st2)"
        by (cases "newSignSessions L st1 signingShares")
      note nf = newSignSessions_frame[OF n]
      have "ks \<notin> set signingShares" using cf Inr assms(2) by force
      then have "live st2 ks = live st ks" using nf cf assms(2) by auto
      moreover have "st' = st2"
        using assms(1) False c Inr n by (auto simp: signMessage_def split: sum.splits)
      ultimately show ?thesis by simp
    qed
  qed
  then show ?thesis by (simp add: Keyshare_toBytes_def)
qed

theorem signMessage_keeps_caller_keyshares_witness:
  "(0 :: nat) < next_object demo_keyshares
   \<and> fst (signMessage demo_dkls demo_env demo_keyshares [0x2C, 0xF2, 0x4D, 0xBA, 0x5F, 0xB0, 0xA3, 0x0E, 0x26, 0xE8, 0x3B, 0x2A, 0xC5, 0xB9, 0xE2, 0x9E, 0x1B, 0x16, 0x1E, 0x5C, 0x1F, 0xA7, 0x42, 0x5E, 0x73, 0x04, 0x33, 0x62, 0x93, 0x8B, 0x98, 0x24] [0, 1] 2 None)
       = Inr \<lparr>sig_signature = ''0x2d20e27338eb006035f047b9ef7270ccfeb5e1ed641ea5d4838ba43cb7268a6e76ba9ad59aaa7d1f07e5826eb476065d60e0aedebc40d63ad0e1cc088e5891de'', sig_r = ''0x2d20e27338eb006035f047b9ef7270ccfeb5e1ed641ea5d4838ba43cb7268a6e'', sig_s = ''0x76ba9ad59aaa7d1f07e5826eb476065d60e0aedebc40d63ad0e1cc088e5891de'', sig_v = 27\<rparr>
   \<and> live (snd (signMessage demo_dkls demo_env demo_keyshares [0x2C, 0xF2, 0x4D, 0xBA, 0x5F, 0xB0, 0xA3, 0x0E, 0x26, 0xE8, 0x3B, 0x2A, 0xC5, 0xB9, 0xE2, 0x9E, 0x1B, 0x16, 0x1E, 0x5C, 0x1F, 0xA7, 0x42, 0x5E, 0x73, 0x04, 0x33, 0x62, 0x93, 0x8B, 0x98, 0x24] [0, 1] 2 None)) 0
       = live demo_keyshares 0
   \<and> Keyshare_toBytes demo_dkls
        (snd (signMessage demo_dkls demo_env demo_keyshares [0x2C, 0xF2, 0x4D, 0xBA, 0x5F, 0xB0, 0xA3, 0x0E, 0x26, 0xE8, 0x3B, 0x2A, 0xC5, 0xB9, 0xE2, 0x9E, 0x1B, 0x16, 0x1E, 0x5C, 0x1F, 0xA7, 0x42, 0x5E, 0x73, 0x04, 0x33, 0x62, 0x93, 0x8B, 0x98, 0x24] [0, 1] 2 None)) 0
       = Inr [0, 7]
   \<and> fst (signMessage demo_dkls demo_env
            (snd (signMessage demo_dkls demo_env demo_keyshares [0x2C, 0xF2, 0x4D, 0xBA, 0x5F, 0xB0, 0xA3, 0x0E, 0x26, 0xE8, 0x3B, 0x2A, 0xC5, 0xB9, 0xE2, 0x9E, 0x1B, 0x16, 0x1E, 0x5C, 0x1F, 0xA7, 0x42, 0x5E, 0x73, 0x04, 0x33, 0x62, 0x93, 0x8B, 0x98, 0x24] [0, 1] 2 None))
            [0x2C, 0xF2, 0x4D, 0xBA, 0x5F, 0xB0, 0xA3, 0x0E, 0x26, 0xE8, 0x3B, 0x2A, 0xC5, 0xB9, 0xE2, 0x9E, 0x1B, 0x16, 0x1E, 0x5C, 0x1F, 0xA7, 0x42, 0x5E, 0x73, 0x04, 0x33, 0x62, 0x93, 0x8B, 0x98, 0x24] [0, 1] 2 None)
       = Inr \<lparr>sig_signature = ''0x2d20e27338eb006035f047b9ef7270ccfeb5e1ed641ea5d4838ba43cb7268a6e76ba9ad59aaa7d1f07e5826eb476065d60e0aedebc40d63ad0e1cc088e5891de'', sig_r = ''0x2d20e27338eb006035f047b9ef7270ccfeb5e1ed641ea5d4838ba43cb7268a6e'', sig_s = ''0x76ba9ad59aaa7d1f07e5826eb476065d60e0aedebc40d63ad0e1cc088e5891de'', sig_v = 27\<rparr>"
proof -
  let ?X = "signMessage demo_dkls demo_env demo_keyshares [0x2C, 0xF2, 0x4D, 0xBA, 0x5F, 0xB0, 0xA3, 0x0E, 0x26, 0xE8, 0x3B, 0x2A, 0xC5, 0xB9, 0xE2, 0x9E, 0x1B, 0x16, 0x1E, 0x5C, 0x1F, 0xA7, 0x42, 0x5E, 0x73, 0x04, 0x33, 0x62, 0x93, 0x8B, 0x98, 0x24] [0, 1] 2 None"
  have x: "?X = (fst ?X, snd ?X)" by simp
  have n: "(0 :: nat) < next_object demo_keyshares" by (simp add: demo_keyshares_def)
  note t = signMessage_keeps_caller_keyshares[OF x n]
  have r: "fst ?X = Inr \<lparr>sig_signature = ''0x2d20e27338eb006035f047b9ef7270ccfeb5e1ed641ea5d4838ba43cb7268a6e76ba9ad59aaa7d1f07e5826eb476065d60e0aedebc40d63ad0e1cc088e5891de'', sig_r = ''0x2d20e27338eb006035f047b9ef7270ccfeb5e1ed641ea5d4838ba43cb7268a6e'', sig_s = ''0x76ba9ad59aaa7d1f07e5826eb476065d60e0aedebc40d63ad0e1cc088e5891de'', sig_v = 27\<rparr>"
    by (simp add: demo_defs demo_r_def demo_s_def)
  have b: "Keyshare_toBytes demo_dkls (snd ?X) 0 = Inr [0, 7]"
    using t by (simp add: Keyshare_toBytes_def demo_dkls_def demo_keyshares_def)
  have again: "fst (signMessage demo_dkls demo_env (snd ?X) [0x2C, 0xF2, 0x4D, 0xBA, 0x5F, 0xB0, 0xA3, 0x0E, 0x26, 0xE8, 0x3B, 0x2A, 0xC5, 0xB9, 0xE2, 0x9E, 0x1B, 0x16, 0x1E, 0x5C, 0x1F, 0xA7, 0x42, 0x5E, 0x73, 0x04, 0x33, 0x62, 0x93, 0x8B, 0x98, 0x24] [0, 1] 2 None)
       = Inr \<lparr>sig_signature = ''0x2d20e27338eb006035f047b9ef7270ccfeb5e1ed641ea5d4838ba43cb7268a6e76ba9ad59aaa7d1f07e5826eb476065d60e0aedebc40d63ad0e1cc088e5891de'', sig_r = ''0x2d20e27338eb006035f047b9ef7270ccfeb5e1ed641ea5d4838ba43cb7268a6e'', sig_s = ''0x76ba9ad59aaa7d1f07e5826eb476065d60e0aedebc40d63ad0e1cc088e5891de'', sig_v = 27\<rparr>"
    by (simp add: demo_defs demo_r_def demo_s_def)
  show ?thesis using n r t b again by (intro conjI) simp_all
qed

section \<open>The length of the digest\<close>

text \<open>
  Claim C6, as stated, fails for \<open>DKLSService.signMessage\<close>, which does not look at the
  length of the digest.  Given a digest of one byte it copies the key shares, creates the
  sessions from the copies and runs the rounds; the digest reaches the library in
  \<open>lastMessage\<close>, after the pre-signature rounds, and the library's refusal (`invalid
  message hash') is the error of the call, wrapped in `Failed to sign message: ...'.  By
  then two key share objects have been created, and consumed by the sessions.  The call
  fails, but not before any protocol round runs, and not with an error about the length
  that the code raises.
\<close>

theorem signMessage_checks_no_digest_length:
  "length [0xAA :: byte] = 1
   \<and> fst (signMessage demo_dkls demo_env demo_keyshares [0xAA] [0, 1] 2 None)
       = Inl (FailedToSignMessage (LibraryError ''invalid message hash''))
   \<and> next_object demo_keyshares = 2
   \<and> next_object (snd (signMessage demo_dkls demo_env demo_keyshares [0xAA] [0, 1] 2 None))
       = 4
   \<and> live (snd (signMessage demo_dkls demo_env demo_keyshares [0xAA] [0, 1] 2 None)) 2
       = None
   \<and> live (snd (signMessage demo_dkls demo_env demo_keyshares [0xAA] [0, 1] 2 None)) 3
       = None
   \<and> fst (mapParties (\<lambda>idx p. signSession_lastMessage demo_dkls p [0xAA]) 0 [0, 1])
       = Inl ''invalid message hash''"
  by (simp add: demo_defs)

text \<open>
  Claim C6, amended.  \<open>BitShardSDK.signHash\<close> accepts exactly 32 bytes (the bytes given, or
  those that \<open>Buffer.from(hash.replace('0x', ''), 'hex')\<close> decodes from a string): for any
  other length it fails with `Invalid hash length: expected 32 bytes, got N' before it
  calls \<open>signMessage\<close>, so that no library call is made and the key shares are untouched;
  for 32 bytes it hands those bytes, not a hash of them, to \<open>signMessage\<close>.
\<close>

theorem signHash_checks_length:
  "(length (hashBytesOf hash) \<noteq> 32 \<longrightarrow>
      signHash L E st hash keyshares options_threshold options_publicKey
        = (Inl (InvalidHashLength (length (hashBytesOf hash))), st))
   \<and> (length (hashBytesOf hash) = 32 \<longrightarrow>
      signHash L E st hash keyshares options_threshold options_publicKey
        = signMessage L E st (hashBytesOf hash) keyshares
            (case options_threshold of None \<Rightarrow> int (length keyshares) | Some t \<Rightarrow> t)
            options_publicKey)"
  by (simp add: signHash_def Let_def)

theorem signHash_checks_length_witness:
  "hashBytesOf (HashString ''0xaa'') = [0xAA]
   \<and> signHash demo_dkls demo_env demo_keyshares (HashString ''0xaa'') [0, 1] (Some 2) None
       = (Inl (InvalidHashLength 1), demo_keyshares)
   \<and> length (hashBytesOf (HashString ''0x2cf24dba5fb0a30e26e83b2ac5b9e29e1b161e5c1fa7425e73043362938b9824'')) = 32
   \<and> fst (signHash demo_dkls demo_env demo_keyshares (HashString ''0x2cf24dba5fb0a30e26e83b2ac5b9e29e1b161e5c1fa7425e73043362938b9824'') [0, 1] None None)
       = Inr \<lparr>sig_signature = ''0x2d20e27338eb006035f047b9ef7270ccfeb5e1ed641ea5d4838ba43cb7268a6e76ba9ad59aaa7d1f07e5826eb476065d60e0aedebc40d63ad0e1cc088e5891de'', sig_r = ''0x2d20e27338eb006035f047b9ef7270ccfeb5e1ed641ea5d4838ba43cb7268a6e'', sig_s = ''0x76ba9ad59aaa7d1f07e5826eb476065d60e0aedebc40d63ad0e1cc088e5891de'', sig_v = 27\<rparr>"
proof -
  have b1: "hashBytesOf (HashString ''0xaa'') = [0xAA]"
    by (simp add: hashBytesOf_def hexDigitValue_def)
  have b2: "hashBytesOf (HashString ''0x2cf24dba5fb0a30e26e83b2ac5b9e29e1b161e5c1fa7425e73043362938b9824'') = [0x2C, 0xF2, 0x4D, 0xBA, 0x5F, 0xB0, 0xA3, 0x0E, 0x26, 0xE8, 0x3B, 0x2A, 0xC5, 0xB9, 0xE2, 0x9E, 0x1B, 0x16, 0x1E, 0x5C, 0x1F, 0xA7, 0x42, 0x5E, 0x73, 0x04, 0x33, 0x62, 0x93, 0x8B, 0x98, 0x24]"
    by (simp add: hashBytesOf_def hexDigitValue_def)
  have 1: "signHash demo_dkls demo_env demo_keyshares (HashString ''0xaa'') [0, 1] (Some 2) None
       = (Inl (InvalidHashLength 1), demo_keyshares)"
    using signHash_checks_length[of "HashString ''0xaa''" demo_dkls demo_env demo_keyshares
        "[0, 1]" "Some 2" None]
    by (simp add: b1)
  have e: "signHash demo_dkls demo_env demo_keyshares (HashString ''0x2cf24dba5fb0a30e26e83b2ac5b9e29e1b161e5c1fa7425e73043362938b9824'') [0, 1] None None
        = signMessage demo_dkls demo_env demo_keyshares [0x2C, 0xF2, 0x4D, 0xBA, 0x5F, 0xB0, 0xA3, 0x0E, 0x26, 0xE8, 0x3B, 0x2A, 0xC5, 0xB9, 0xE2, 0x9E, 0x1B, 0x16, 0x1E, 0x5C, 0x1F, 0xA7, 0x42, 0x5E, 0x73, 0x04, 0x33, 0x62, 0x93, 0x8B, 0x98, 0x24] [0, 1] 2 None"
    using signHash_checks_length[of "HashString ''0x2cf24dba5fb0a30e26e83b2ac5b9e29e1b161e5c1fa7425e73043362938b9824''" demo_dkls demo_env demo_keyshares
        "[0, 1]" None None]
    by (simp add: b2)
  have 2: "fst (signHash demo_dkls demo_env demo_keyshares (HashString ''0x2cf24dba5fb0a30e26e83b2ac5b9e29e1b161e5c1fa7425e73043362938b9824'') [0, 1] None None)
       = Inr \<lparr>sig_signature = ''0x2d20e27338eb006035f047b9ef7270ccfeb5e1ed641ea5d4838ba43cb7268a6e76ba9ad59aaa7d1f07e5826eb476065d60e0aedebc40d63ad0e1cc088e5891de'', sig_r = ''0x2d20e27338eb006035f047b9ef7270ccfeb5e1ed641ea5d4838ba43cb7268a6e'', sig_s = ''0x76ba9ad59aaa7d1f07e5826eb476065d60e0aedebc40d63ad0e1cc088e5891de'', sig_v = 27\<rparr>"
    by (simp only: e demo_sign_no_key)
  have 3: "length (hashBytesOf (HashString ''0x2cf24dba5fb0a30e26e83b2ac5b9e29e1b161e5c1fa7425e73043362938b9824'')) = 32" by (simp add: b2)
  show ?thesis using b1 1 3 2 by (intro conjI)
qed

end
